theory Spec2Isabelle
  imports Complex_Main "HOL-Library.Word" "HOL-Library.AList"
    "HOL-Library.Char_ord" "HOL-Library.List_Lexorder"
begin

section \<open>Python values, errors and objects\<close>

text \<open>
  The engine is Python. Exceptions are values of \<open>py_error\<close>, carrying the message of the
  \<^verbatim>\<open>raise\<close> statement where the source gives one; a function that can raise returns
  \<open>py_error + 'a\<close>. Objects with identity (data buffers, dictionaries, scene nodes, shader
  programs) live in heaps: a heap is a list, a reference is an index into it, allocation
  appends, and nothing is ever freed. Numeric array elements are carried as exact reals:
  rounding to \<^verbatim>\<open>float32\<close> is not modelled, since the properties below are about
  indices, lengths, names and object identity.
\<close>

datatype py_error =
    ValueError string
  | KeyError string
  | AttributeError string
  | RuntimeError string
  | IndexError

type_synonym ref = nat

definition alloc :: "'a list \<Rightarrow> 'a \<Rightarrow> ref \<times> 'a list" where
  "alloc h v = (length h, h @ [v])"

definition deref :: "'a list \<Rightarrow> ref \<Rightarrow> 'a option" where
  "deref h r = (if r < length h then Some (h ! r) else None)"

datatype pyval =
    PNone
  | PBool bool
  | PInt int
  | PFloat real
  | PStr string
  | PList "pyval list"
  | PBuf ref
  | PObj nat string

text \<open>
  \<open>PBuf\<close> is a data buffer, by reference. \<open>PObj\<close> is an object of any other class, with its
  identity and the string that the \<^verbatim>\<open>__repr__\<close> of its class returns for it.
\<close>

text \<open>
  A \<^verbatim>\<open>dict\<close> keeps insertion order: an association list with distinct keys.
  Assigning to an existing key keeps its position, a new key goes to the end
  (\<^const>\<open>AList.update\<close>); \<^verbatim>\<open>d.update(other)\<close> assigns the items of
  \<^verbatim>\<open>other\<close> in order.
\<close>

type_synonym pydict = "(string \<times> pyval) list"

definition dict_update :: "(string \<times> 'v) list \<Rightarrow> (string \<times> 'v) list \<Rightarrow> (string \<times> 'v) list" where
  "dict_update d other = fold (\<lambda>kv acc. AList.update (fst kv) (snd kv) acc) other d"

section \<open>Arrays\<close>

text \<open>
  The arrays the pipeline stores: one-dimensional \<^verbatim>\<open>float32\<close>, two-dimensional
  \<^verbatim>\<open>float32\<close> (with its number of columns, which an array of no rows still has), and
  one-dimensional \<^verbatim>\<open>uint32\<close>. Index arrays are natural numbers; an array of
  \<open>2 ^ 32\<close> or more indices is outside what the pipeline is run on.
\<close>

datatype ndarray =
    F32_1 "real list"
  | F32_2 nat "real list list"
  | U32_1 "nat list"

datatype dtype = Float32 | UInt32

fun nd_len :: "ndarray \<Rightarrow> nat" where
  "nd_len (F32_1 xs) = length xs"
| "nd_len (F32_2 k rows) = length rows"
| "nd_len (U32_1 xs) = length xs"

fun nd_shape :: "ndarray \<Rightarrow> nat list" where
  "nd_shape (F32_1 xs) = [length xs]"
| "nd_shape (F32_2 k rows) = [length rows, k]"
| "nd_shape (U32_1 xs) = [length xs]"

fun nd_dtype :: "ndarray \<Rightarrow> dtype" where
  "nd_dtype (F32_1 xs) = Float32"
| "nd_dtype (F32_2 k rows) = Float32"
| "nd_dtype (U32_1 xs) = UInt32"

definition nd_nbytes :: "ndarray \<Rightarrow> nat" where
  "nd_nbytes a = 4 * prod_list (nd_shape a)"

text \<open>
  \<^verbatim>\<open>np.arange(start, stop, step)\<close> for a positive step: \<open>\<lceil>(stop - start) / step\<rceil>\<close> values
  \<open>start + k * step\<close>. Every caller passes \<^verbatim>\<open>max(1, ...)\<close> as the step.
\<close>

definition np_arange :: "nat \<Rightarrow> nat \<Rightarrow> nat \<Rightarrow> nat list" where
  "np_arange start stop step =
     map (\<lambda>k. start + k * step) [0..<(stop - start + step - 1) div step]"

text \<open>
  \<^verbatim>\<open>a[idx]\<close> with an integer index array selects the rows named by \<open>idx\<close>, in order, and
  raises \<^verbatim>\<open>IndexError\<close> when an index is out of bounds.
\<close>

definition take_rows :: "'a list \<Rightarrow> nat list \<Rightarrow> py_error + 'a list" where
  "take_rows a idx =
     (if list_all (\<lambda>i. i < length a) idx then Inr (map (\<lambda>i. a ! i) idx) else Inl IndexError)"

section \<open>Adaptive level of detail\<close>

text \<open>
  \<^verbatim>\<open>AdaptiveLODSystem.simplify_line\<close>. The vertex array is the list of its rows. The target
  of 10000 points is a literal of the source.
\<close>

definition simplify_line :: "'a list \<Rightarrow> nat list \<Rightarrow> string \<Rightarrow> py_error + ('a list \<times> nat list)" where
  "simplify_line vertices indices method =
     (if method = ''radial_distance'' then
        if length vertices \<le> 2 then Inr (vertices, indices)
        else
          let step = max 1 (length vertices div 10000);
              sampled = np_arange 0 (length vertices) step
          in if sampled = [] then Inl IndexError
             else
               let sampled_indices =
                     (if last sampled \<noteq> length vertices - 1
                      then sampled @ [length vertices - 1] else sampled)
               in case take_rows vertices sampled_indices of
                    Inl e \<Rightarrow> Inl e
                  | Inr simplified_vertices \<Rightarrow>
                      Inr (simplified_vertices, [0..<length simplified_vertices])
      else Inr (vertices, indices))"

section \<open>Objects of the engine\<close>

text \<open>
  \<^verbatim>\<open>DataBuffer\<close>: the constructor records the byte size, element type and shape of the array
  it is given; \<open>gpu_address\<close> is \<^verbatim>\<open>None\<close> until the buffer is transferred.
\<close>

record data_buffer =
  buf_data :: ndarray
  buffer_type :: string
  buf_size :: nat
  buf_dtype :: dtype
  buf_shape :: "nat list"
  gpu_address :: "nat option"

definition new_data_buffer :: "ndarray \<Rightarrow> string \<Rightarrow> data_buffer" where
  "new_data_buffer d t =
     \<lparr>buf_data = d, buffer_type = t, buf_size = nd_nbytes d, buf_dtype = nd_dtype d,
      buf_shape = nd_shape d, gpu_address = None\<rparr>"

text \<open>
  \<^verbatim>\<open>SceneNode\<close> and its subclass \<^verbatim>\<open>GeometryNode\<close>. A plain scene node has no
  \<^verbatim>\<open>geometry_type\<close>, \<^verbatim>\<open>data\<close> or \<^verbatim>\<open>material_properties\<close> attribute: its
  \<open>geometry\<close> is \<open>None\<close>. A geometry node holds its two dictionaries by reference.
\<close>

record geometry_attrs =
  geometry_type :: string
  node_data :: ref
  material_properties :: ref

record scene_node =
  node_id :: string
  node_type :: string
  children :: "ref list"
  parent :: "ref option"
  visible :: bool
  transform :: "real list list"
  geometry :: "geometry_attrs option"

text \<open>\<^verbatim>\<open>ShaderProgram\<close>.\<close>

record shader_program =
  vertex_shader :: string
  fragment_shader :: string
  geometry_shader :: "string option"
  compiled_handles :: "(string \<times> string) list"

text \<open>The heaps of the four kinds of objects.\<close>

record world =
  buffer_objs :: "data_buffer list"
  dict_objs :: "pydict list"
  node_objs :: "scene_node list"
  shader_objs :: "shader_program list"

definition empty_world :: world where
  "empty_world = \<lparr>buffer_objs = [], dict_objs = [], node_objs = [], shader_objs = []\<rparr>"

section \<open>Data pipeline\<close>

text \<open>
  \<^verbatim>\<open>ZeroCopyDataPipeline\<close>: the registry of buffers by name. \<^verbatim>\<open>create_buffer\<close> builds a
  new \<^verbatim>\<open>DataBuffer\<close> and binds the name to it, whatever the name was bound to before.
\<close>

record zero_copy_pipeline =
  buffers :: "(string \<times> ref) list"
  streaming_buffers :: "(string \<times> ref) list"

definition new_zero_copy_pipeline :: zero_copy_pipeline where
  "new_zero_copy_pipeline = \<lparr>buffers = [], streaming_buffers = []\<rparr>"

definition create_buffer ::
  "string \<Rightarrow> ndarray \<Rightarrow> string \<Rightarrow> world \<times> zero_copy_pipeline \<Rightarrow> ref \<times> world \<times> zero_copy_pipeline" where
  "create_buffer name d t s =
     (let (w, z) = s;
          (r, h) = alloc (buffer_objs w) (new_data_buffer d t)
      in (r, w\<lparr>buffer_objs := h\<rparr>, z\<lparr>buffers := AList.update name r (buffers z)\<rparr>))"

text \<open>
  \<^verbatim>\<open>np.column_stack\<close> of one-dimensional arrays of one length: row \<open>i\<close> holds the
  \<open>i\<close>-th element of each.
\<close>

definition column_stack3 :: "real list \<Rightarrow> real list \<Rightarrow> real list \<Rightarrow> real list list" where
  "column_stack3 a b c = map (\<lambda>i. [a ! i, b ! i, c ! i]) [0..<length a]"

text \<open>
  \<^verbatim>\<open>DataPipeline.process_line_data\<close>. The pipeline object holds the registry and a
  level-of-detail system whose threshold table is never read: the thresholds are literals.
  Every \<^verbatim>\<open>raise\<close> comes before the first buffer is created, so a failing call leaves the
  state as it was. The returned dictionary is a new object; it is returned by value and
  allocated by whoever stores it.
\<close>

definition process_line_data ::
  "world \<times> zero_copy_pipeline \<Rightarrow> real list \<Rightarrow> real list \<Rightarrow>
     py_error + (pydict \<times> world \<times> zero_copy_pipeline)" where
  "process_line_data s x y =
     (if length x \<noteq> length y then Inl (ValueError ''x and y arrays must have the same length'')
      else
        let vertices = column_stack3 x y (replicate (length x) 0);
            n_points = length vertices
        in if n_points < 2 then Inl (ValueError ''Line plot requires at least 2 points'')
           else
             let indices = [0..<n_points] in
             case (if n_points > 10000 then simplify_line vertices indices ''radial_distance''
                   else Inr (vertices, indices)) of
               Inl e \<Rightarrow> Inl e
             | Inr (vertices, indices) \<Rightarrow>
                 let (vertex_buffer, s1) = create_buffer ''line_vertices'' (F32_2 3 vertices) ''vertex'' s;
                     (index_buffer, s2) = create_buffer ''line_indices'' (U32_1 indices) ''index'' s1
                 in Inr ([(''vertices'', PBuf vertex_buffer),
                          (''indices'', PBuf index_buffer),
                          (''primitive_type'', PStr ''line_strip''),
                          (''count'', PInt (int (length indices)))], s2))"

text \<open>
  The arguments of \<^verbatim>\<open>process_scatter_data\<close>: colours are a one-dimensional array or a
  two-dimensional one with its number of columns; sizes are a number or a one-dimensional
  array.
\<close>

datatype color_arg = Color1 "real list" | Color2 nat "real list list"

datatype size_arg = SizeScalar real | SizeArray "real list"

fun color_len :: "color_arg \<Rightarrow> nat" where
  "color_len (Color1 c) = length c"
| "color_len (Color2 k rows) = length rows"

definition scatter_sizes :: "nat \<Rightarrow> size_arg option \<Rightarrow> real list" where
  "scatter_sizes n_points s =
     (case s of
        None \<Rightarrow> replicate n_points 10
      | Some (SizeScalar v) \<Rightarrow> replicate n_points v
      | Some (SizeArray a) \<Rightarrow> a)"

definition scatter_colors :: "nat \<Rightarrow> color_arg option \<Rightarrow> nat \<times> real list list" where
  "scatter_colors n_points c =
     (case c of
        None \<Rightarrow> (4, replicate n_points [0.2, 0.6, 1.0, 1.0])
      | Some (Color1 g) \<Rightarrow> (4, map (\<lambda>v. [v, v, v, 1]) g)
      | Some (Color2 k rows) \<Rightarrow>
          if k = 3 then (4, map (\<lambda>row. row @ [1]) rows)
          else (k, rows))"

text \<open>
  The level-of-detail block of \<^verbatim>\<open>process_scatter_data\<close> (the \<^verbatim>\<open>if n_points > 50000\<close>
  statement), on the three arrays built before it.
\<close>

definition scatter_lod ::
  "nat \<Rightarrow> real list list \<Rightarrow> real list \<Rightarrow> real list list \<Rightarrow>
     py_error + (real list list \<times> real list \<times> real list list)" where
  "scatter_lod n_points vertices sizes colors =
     (if n_points > 50000 then
        let step = max 1 (n_points div 50000);
            mask = np_arange 0 n_points step
        in case take_rows vertices mask of
             Inl e \<Rightarrow> Inl e
           | Inr vertices' \<Rightarrow>
               (case (if length sizes > length mask then take_rows sizes mask else Inr sizes) of
                  Inl e \<Rightarrow> Inl e
                | Inr sizes' \<Rightarrow>
                    (case (if length colors > length mask then take_rows colors mask else Inr colors) of
                       Inl e \<Rightarrow> Inl e
                     | Inr colors' \<Rightarrow> Inr (vertices', sizes', colors')))
      else Inr (vertices, sizes, colors))"

definition process_scatter_data ::
  "world \<times> zero_copy_pipeline \<Rightarrow> real list \<Rightarrow> real list \<Rightarrow> color_arg option \<Rightarrow> size_arg option \<Rightarrow>
     py_error + (pydict \<times> world \<times> zero_copy_pipeline)" where
  "process_scatter_data st x y c s =
     (let n_points = length x in
      if length y \<noteq> n_points then Inl (ValueError ''x and y arrays must have the same length'')
      else if (case c of None \<Rightarrow> False | Some ca \<Rightarrow> color_len ca \<noteq> n_points)
        then Inl (ValueError ''Color array must have same length as x/y arrays'')
      else if (case s of Some (SizeArray a) \<Rightarrow> length a \<noteq> n_points | _ \<Rightarrow> False)
        then Inl (ValueError ''Size array must have same length as x/y arrays'')
      else
        let vertices = column_stack3 x y (replicate n_points 0);
            sizes = scatter_sizes n_points s;
            (channels, colors) = scatter_colors n_points c
        in case scatter_lod n_points vertices sizes colors of
             Inl e \<Rightarrow> Inl e
           | Inr (vertices, sizes, colors) \<Rightarrow>
               let (vertex_buffer, s1) = create_buffer ''scatter_vertices'' (F32_2 3 vertices) ''vertex'' st;
                   (size_buffer, s2) = create_buffer ''scatter_sizes'' (F32_1 sizes) ''attribute'' s1;
                   (color_buffer, s3) = create_buffer ''scatter_colors'' (F32_2 channels colors) ''attribute'' s2
               in Inr ([(''vertices'', PBuf vertex_buffer),
                        (''sizes'', PBuf size_buffer),
                        (''colors'', PBuf color_buffer),
                        (''primitive_type'', PStr ''points''),
                        (''count'', PInt (int (length vertices)))], s3))"

text \<open>
  \<^verbatim>\<open>process_bar_data\<close>: the loop over the bars, with its three accumulators. An array built
  from an empty list of vertices is one-dimensional.
\<close>

definition bar_step ::
  "real list \<Rightarrow> real list \<Rightarrow> nat \<Rightarrow> real list list \<times> nat list \<times> nat \<Rightarrow> real list list \<times> nat list \<times> nat" where
  "bar_step x height i acc =
     (let (vertices, indices, current_vertex_idx) = acc;
          width = 0.8;
          cx = x ! i;
          h = height ! i;
          bl = [cx - width / 2, 0, 0];
          br = [cx + width / 2, 0, 0];
          tr = [cx + width / 2, h, 0];
          tl = [cx - width / 2, h, 0]
      in (vertices @ [bl, br, tr, tl],
          indices @ [current_vertex_idx, current_vertex_idx + 1, current_vertex_idx + 2,
                     current_vertex_idx, current_vertex_idx + 2, current_vertex_idx + 3],
          current_vertex_idx + 4))"

definition process_bar_data ::
  "world \<times> zero_copy_pipeline \<Rightarrow> real list \<Rightarrow> real list \<Rightarrow>
     py_error + (pydict \<times> world \<times> zero_copy_pipeline)" where
  "process_bar_data s x height =
     (if length x \<noteq> length height
      then Inl (ValueError ''x and height arrays must have the same length'')
      else
        let n_bars = length x;
            (vertices, indices, current_vertex_idx) = fold (bar_step x height) [0..<n_bars] ([], [], 0);
            (vertex_buffer, s1) =
              create_buffer ''bar_vertices'' (if vertices = [] then F32_1 [] else F32_2 3 vertices) ''vertex'' s;
            (index_buffer, s2) = create_buffer ''bar_indices'' (U32_1 indices) ''index'' s1
        in Inr ([(''vertices'', PBuf vertex_buffer),
                 (''indices'', PBuf index_buffer),
                 (''primitive_type'', PStr ''triangles''),
                 (''count'', PInt (int (length indices)))], s2))"

text \<open>
  \<^verbatim>\<open>process_histogram_data\<close>. \<^verbatim>\<open>np.histogram\<close> is NumPy's, not this repository's: it is the
  parameter \<open>np_histogram\<close>, which returns the counts and the bin edges or raises.
\<close>

definition process_histogram_data ::
  "(real list \<Rightarrow> nat \<Rightarrow> py_error + (nat list \<times> real list)) \<Rightarrow>
   world \<times> zero_copy_pipeline \<Rightarrow> real list \<Rightarrow> nat \<Rightarrow>
     py_error + (pydict \<times> world \<times> zero_copy_pipeline)" where
  "process_histogram_data np_histogram s d bins =
     (case np_histogram d bins of
        Inl e \<Rightarrow> Inl e
      | Inr (hist, bin_edges) \<Rightarrow>
          let x_positions = map (\<lambda>(a, b). (a + b) / 2) (zip (butlast bin_edges) (tl bin_edges));
              heights = map real hist
          in process_bar_data s x_positions heights)"

section \<open>Scene manager\<close>

text \<open>\<^verbatim>\<open>str\<close> of a non-negative integer, as the f-strings that build node ids use it.\<close>

definition digit_char :: "nat \<Rightarrow> char" where
  "digit_char d = ''0123456789'' ! d"

fun str_nat :: "nat \<Rightarrow> string" where
  "str_nat n = (if n < 10 then [digit_char n] else str_nat (n div 10) @ [digit_char (n mod 10)])"

declare str_nat.simps [simp del]

definition eye4 :: "real list list" where
  "eye4 = [[1, 0, 0, 0], [0, 1, 0, 0], [0, 0, 1, 0], [0, 0, 0, 1]]"

text \<open>\<^verbatim>\<open>SceneNode.__init__\<close>.\<close>

definition new_scene_node :: "string \<Rightarrow> string \<Rightarrow> scene_node" where
  "new_scene_node nid ntype =
     \<lparr>node_id = nid, node_type = ntype, children = [], parent = None, visible = True,
      transform = eye4, geometry = None\<rparr>"

text \<open>
  \<^verbatim>\<open>SceneNode.add_child\<close> and \<^verbatim>\<open>SceneNode.remove_child\<close>, on the node \<open>p\<close> with the
  child \<open>c\<close>. Membership in and removal from the child list compare nodes by identity;
  \<^verbatim>\<open>list.remove\<close> removes the first occurrence.
\<close>

definition add_child :: "world \<Rightarrow> ref \<Rightarrow> ref \<Rightarrow> world" where
  "add_child w p c =
     (let h = node_objs w;
          h1 = h[c := (h ! c)\<lparr>parent := Some p\<rparr>];
          h2 = h1[p := (h1 ! p)\<lparr>children := children (h1 ! p) @ [c]\<rparr>]
      in w\<lparr>node_objs := h2\<rparr>)"

definition remove_child :: "world \<Rightarrow> ref \<Rightarrow> ref \<Rightarrow> world" where
  "remove_child w p c =
     (case deref (node_objs w) p of
        None \<Rightarrow> w
      | Some pn \<Rightarrow>
          if c \<in> set (children pn) then
            let h = node_objs w;
                h1 = h[c := (h ! c)\<lparr>parent := None\<rparr>];
                h2 = h1[p := (h1 ! p)\<lparr>children := remove1 c (children (h1 ! p))\<rparr>]
            in w\<lparr>node_objs := h2\<rparr>
          else w)"

text \<open>
  \<^verbatim>\<open>SceneManager\<close>: the root node, the dictionary from node ids to nodes (in insertion
  order), and the camera and lighting dictionaries. Its operations on geometry nodes and its
  snapshot are modelled; \<^verbatim>\<open>create_dashboard\<close>, which adds plain nodes for a dashboard and its
  widgets, is not.
\<close>

record scene_manager =
  root_node :: ref
  nodes :: "(string \<times> ref) list"
  camera_settings :: ref
  lighting_settings :: ref

definition new_scene_manager :: "world \<Rightarrow> scene_manager \<times> world" where
  "new_scene_manager w =
     (let (root, nh) = alloc (node_objs w) (new_scene_node ''root'' ''root'');
          (cam, dh1) = alloc (dict_objs w) [];
          (light, dh2) = alloc dh1 []
      in (\<lparr>root_node = root, nodes = [(''root'', root)],
           camera_settings = cam, lighting_settings = light\<rparr>,
          w\<lparr>node_objs := nh, dict_objs := dh2\<rparr>))"

text \<open>
  \<^verbatim>\<open>add_line\<close>, \<^verbatim>\<open>add_scatter\<close>, \<^verbatim>\<open>add_bar\<close> and \<^verbatim>\<open>add_histogram\<close> have one body up to
  the kind, which is both the prefix of the node id and the geometry type. The id is the
  kind, an underscore and the current number of entries of the id dictionary. The node keeps
  the caller's data dictionary itself (a reference), and gets a new dictionary of material
  properties filled from the keyword arguments.
\<close>

definition add_geometry ::
  "string \<Rightarrow> world \<Rightarrow> scene_manager \<Rightarrow> ref \<Rightarrow> pydict \<Rightarrow> string \<times> world \<times> scene_manager" where
  "add_geometry kind w sm data_ref kwargs =
     (let nid = kind @ ''_'' @ str_nat (length (nodes sm));
          (mp, dh) = alloc (dict_objs w) (dict_update [] kwargs);
          node = (new_scene_node nid ''geometry'')
                   \<lparr>geometry := Some \<lparr>geometry_type = kind, node_data = data_ref,
                                        material_properties = mp\<rparr>\<rparr>;
          (r, nh) = alloc (node_objs w) node;
          w1 = add_child (w\<lparr>dict_objs := dh, node_objs := nh\<rparr>) (root_node sm) r
      in (nid, w1, sm\<lparr>nodes := AList.update nid r (nodes sm)\<rparr>))"

definition add_line :: "world \<Rightarrow> scene_manager \<Rightarrow> ref \<Rightarrow> pydict \<Rightarrow> string \<times> world \<times> scene_manager" where
  "add_line = add_geometry ''line''"

definition add_scatter :: "world \<Rightarrow> scene_manager \<Rightarrow> ref \<Rightarrow> pydict \<Rightarrow> string \<times> world \<times> scene_manager" where
  "add_scatter = add_geometry ''scatter''"

definition add_bar :: "world \<Rightarrow> scene_manager \<Rightarrow> ref \<Rightarrow> pydict \<Rightarrow> string \<times> world \<times> scene_manager" where
  "add_bar = add_geometry ''bar''"

definition add_histogram :: "world \<Rightarrow> scene_manager \<Rightarrow> ref \<Rightarrow> pydict \<Rightarrow> string \<times> world \<times> scene_manager" where
  "add_histogram = add_geometry ''histogram''"

text \<open>
  \<^verbatim>\<open>update_node\<close>: a known id merges the new items into the node's data dictionary, in place,
  and returns \<^verbatim>\<open>True\<close>; an unknown id returns \<^verbatim>\<open>False\<close>. A known node without a
  \<^verbatim>\<open>data\<close> attribute (a plain \<^verbatim>\<open>SceneNode\<close>) raises \<^verbatim>\<open>AttributeError\<close>. The scene manager
  itself is not changed. A reference of the id dictionary always points into the heap; the
  model treats one that does not as an unknown id.
\<close>

definition update_node :: "world \<Rightarrow> scene_manager \<Rightarrow> string \<Rightarrow> pydict \<Rightarrow> (py_error + bool) \<times> world" where
  "update_node w sm nid new_data =
     (case map_of (nodes sm) nid of
        None \<Rightarrow> (Inr False, w)
      | Some r \<Rightarrow>
          (case deref (node_objs w) r of
             None \<Rightarrow> (Inr False, w)
           | Some node \<Rightarrow>
               (case geometry node of
                  None \<Rightarrow> (Inl (AttributeError ''data''), w)
                | Some g \<Rightarrow>
                    (Inr True,
                     w\<lparr>dict_objs := (dict_objs w)
                          [node_data g := dict_update (dict_objs w ! node_data g) new_data]\<rparr>))))"

text \<open>
  \<^verbatim>\<open>remove_node\<close>: a known id other than \<^verbatim>\<open>"root"\<close> is detached from its parent, if it has
  one, and deleted from the id dictionary, and the result is \<^verbatim>\<open>True\<close>; any other id,
  \<^verbatim>\<open>"root"\<close> among them, changes nothing and the result is \<^verbatim>\<open>False\<close>.
\<close>

definition remove_node :: "world \<Rightarrow> scene_manager \<Rightarrow> string \<Rightarrow> bool \<times> world \<times> scene_manager" where
  "remove_node w sm nid =
     (case map_of (nodes sm) nid of
        None \<Rightarrow> (False, w, sm)
      | Some r \<Rightarrow>
          if nid \<noteq> ''root'' then
            let w1 = (case deref (node_objs w) r of
                        None \<Rightarrow> w
                      | Some node \<Rightarrow>
                          (case parent node of None \<Rightarrow> w | Some p \<Rightarrow> remove_child w p r))
            in (True, w1, sm\<lparr>nodes := AList.delete nid (nodes sm)\<rparr>)
          else (False, w, sm))"

text \<open>
  \<^verbatim>\<open>get_scene\<close>. Each entry of the scene's node dictionary is a new dictionary with six
  items; the data and material properties it holds are the node's own dictionaries (the same
  objects), the transform is a new list and the other items are immutable. A node without
  \<^verbatim>\<open>data\<close> or \<^verbatim>\<open>material_properties\<close> gets a new empty dictionary for each. The camera and
  lighting are the manager's own dictionaries.
\<close>

record node_view =
  v_type :: string
  v_geometry_type :: "string option"
  v_data :: ref
  v_material_properties :: ref
  v_transform :: "real list list"
  v_visible :: bool

record scene =
  scene_nodes :: "(string \<times> node_view) list"
  camera :: ref
  lighting :: ref

definition view_of :: "world \<Rightarrow> scene_node \<Rightarrow> node_view \<times> world" where
  "view_of w n =
     (case geometry n of
        Some g \<Rightarrow>
          (\<lparr>v_type = node_type n, v_geometry_type = Some (geometry_type g),
            v_data = node_data g, v_material_properties = material_properties g,
            v_transform = transform n, v_visible = visible n\<rparr>, w)
      | None \<Rightarrow>
          let (d, dh1) = alloc (dict_objs w) [];
              (m, dh2) = alloc dh1 []
          in (\<lparr>v_type = node_type n, v_geometry_type = None,
               v_data = d, v_material_properties = m,
               v_transform = transform n, v_visible = visible n\<rparr>, w\<lparr>dict_objs := dh2\<rparr>))"

fun scene_items :: "world \<Rightarrow> (string \<times> ref) list \<Rightarrow> (string \<times> node_view) list \<times> world" where
  "scene_items w [] = ([], w)"
| "scene_items w ((nid, r) # rest) =
     (if nid \<noteq> ''root'' then
        (case deref (node_objs w) r of
           None \<Rightarrow> scene_items w rest
         | Some n \<Rightarrow>
             let (v, w1) = view_of w n;
                 (vs, w2) = scene_items w1 rest
             in ((nid, v) # vs, w2))
      else scene_items w rest)"

definition get_scene :: "world \<Rightarrow> scene_manager \<Rightarrow> scene \<times> world" where
  "get_scene w sm =
     (let (items, w1) = scene_items w (nodes sm)
      in (\<lparr>scene_nodes = items, camera = camera_settings sm, lighting = lighting_settings sm\<rparr>, w1))"

section \<open>Strings\<close>

text \<open>
  \<^verbatim>\<open>str\<close> of an integer, the substring test \<^verbatim>\<open>sub in s\<close>, and \<^verbatim>\<open>s.replace(old, new)\<close>,
  which replaces the occurrences of \<open>old\<close> from left to right without overlap (for an empty
  \<open>old\<close> it puts \<open>new\<close> before every character and at the end).
\<close>

definition str_int :: "int \<Rightarrow> string" where
  "str_int i = (if i < 0 then ''-'' @ str_nat (nat (- i)) else str_nat (nat i))"

definition str_contains :: "string \<Rightarrow> string \<Rightarrow> bool" where
  "str_contains sub s = list_ex (\<lambda>i. take (length sub) (drop i s) = sub) [0..<Suc (length s)]"

function str_replace :: "string \<Rightarrow> string \<Rightarrow> string \<Rightarrow> string" where
  "str_replace old new s =
     (if old = [] then new @ concat (map (\<lambda>c. c # new) s)
      else if s = [] then []
      else if take (length old) s = old then new @ str_replace old new (drop (length old) s)
      else hd s # str_replace old new (tl s))"
  by pat_completeness auto
termination
  by (relation "measure (\<lambda>(old, new, s). length s)") auto

declare str_replace.simps [simp del]

section \<open>Shader manager\<close>

text \<open>
  What the shader manager needs of Python and cannot compute from a value of the model is a
  parameter: \<^verbatim>\<open>hash\<close> of a string, which is a signed 64-bit integer that differs from one
  process to the next; \<^verbatim>\<open>repr\<close> of a float, of a string that needs escapes or double
  quotes, and of a data buffer (which shows its address); and \<^verbatim>\<open>str\<close> of a value inside an
  f-string.
\<close>

record python =
  py_hash :: "string \<Rightarrow> 64 word"
  py_repr_float :: "real \<Rightarrow> string"
  py_repr_str :: "string \<Rightarrow> string"
  py_repr_buf :: "ref \<Rightarrow> string"
  py_str :: "pyval \<Rightarrow> string"

text \<open>
  \<^verbatim>\<open>repr\<close> of a string whose characters are all printable ASCII other than the single quote
  and the backslash is the string between single quotes.
\<close>

definition quote_char :: char where
  "quote_char = CHR 0x27"

definition plain_char :: "char \<Rightarrow> bool" where
  "plain_char c =
     (32 \<le> (of_char c :: nat) \<and> (of_char c :: nat) \<le> 126 \<and> c \<noteq> CHR 0x27 \<and> c \<noteq> CHR 0x5C)"

definition repr_str :: "python \<Rightarrow> string \<Rightarrow> string" where
  "repr_str py s =
     (if list_all plain_char s then quote_char # s @ [quote_char] else py_repr_str py s)"

text \<open>\<^verbatim>\<open>sep.join(parts)\<close>.\<close>

fun str_join :: "string \<Rightarrow> string list \<Rightarrow> string" where
  "str_join sep [] = []"
| "str_join sep [x] = x"
| "str_join sep (x # y # ys) = x @ sep @ str_join sep (y # ys)"

text \<open>
  \<^verbatim>\<open>repr\<close> of a value. A list shows the \<^verbatim>\<open>repr\<close> of its elements between brackets,
  separated by a comma and a space; an object shows what its \<^verbatim>\<open>__repr__\<close> returns.
\<close>

fun py_repr :: "python \<Rightarrow> pyval \<Rightarrow> string" where
  "py_repr py PNone = ''None''"
| "py_repr py (PBool b) = (if b then ''True'' else ''False'')"
| "py_repr py (PInt i) = str_int i"
| "py_repr py (PFloat x) = py_repr_float py x"
| "py_repr py (PStr s) = repr_str py s"
| "py_repr py (PList vs) = ''['' @ str_join '', '' (map (py_repr py) vs) @ '']''"
| "py_repr py (PBuf r) = py_repr_buf py r"
| "py_repr py (PObj i s) = s"

text \<open>
  \<^verbatim>\<open>str\<close> of a list of items, as in \<^verbatim>\<open>str(sorted(material_properties.items()))\<close>: each
  item is a tuple of a key and a value and shows as \<^verbatim>\<open>(repr(key), repr(value))\<close>.
\<close>

definition repr_item :: "python \<Rightarrow> string \<times> pyval \<Rightarrow> string" where
  "repr_item py kv = ''('' @ repr_str py (fst kv) @ '', '' @ py_repr py (snd kv) @ '')''"

definition str_items :: "python \<Rightarrow> (string \<times> pyval) list \<Rightarrow> string" where
  "str_items py items = ''['' @ str_join '', '' (map (repr_item py) items) @ '']''"

text \<open>The default shader sources, character by character.\<close>

definition default_line_vertex_shader :: string where
  "default_line_vertex_shader =
     ''\<newline>'' @
     ''        #version 450\<newline>'' @
     ''        layout(location = 0) in vec3 position;\<newline>'' @
     ''        \<newline>'' @
     ''        void main() {\<newline>'' @
     ''            gl_Position = vec4(position, 1.0);\<newline>'' @
     ''        }\<newline>'' @
     ''        ''"

definition default_line_fragment_shader :: string where
  "default_line_fragment_shader =
     ''\<newline>'' @
     ''        #version 450\<newline>'' @
     ''        layout(location = 0) out vec4 fragColor;\<newline>'' @
     ''        \<newline>'' @
     ''        void main() {\<newline>'' @
     ''            fragColor = vec4(0.2, 0.6, 1.0, 1.0);  // Blue color\<newline>'' @
     ''        }\<newline>'' @
     ''        ''"

definition default_scatter_vertex_shader :: string where
  "default_scatter_vertex_shader =
     ''\<newline>'' @
     ''        #version 450\<newline>'' @
     ''        layout(location = 0) in vec3 position;\<newline>'' @
     ''        layout(location = 1) in float pointSize;\<newline>'' @
     ''        layout(location = 2) in vec4 color;\<newline>'' @
     ''        \<newline>'' @
     ''        out vec4 fragColor;\<newline>'' @
     ''        \<newline>'' @
     ''        void main() {\<newline>'' @
     ''            gl_Position = vec4(position, 1.0);\<newline>'' @
     ''            gl_PointSize = pointSize;\<newline>'' @
     ''            fragColor = color;\<newline>'' @
     ''        }\<newline>'' @
     ''        ''"

definition default_scatter_fragment_shader :: string where
  "default_scatter_fragment_shader =
     ''\<newline>'' @
     ''        #version 450\<newline>'' @
     ''        in vec4 fragColor;\<newline>'' @
     ''        layout(location = 0) out vec4 outColor;\<newline>'' @
     ''        \<newline>'' @
     ''        void main() {\<newline>'' @
     ''            outColor = fragColor;\<newline>'' @
     ''        }\<newline>'' @
     ''        ''"

definition default_bar_vertex_shader :: string where
  "default_bar_vertex_shader =
     ''\<newline>'' @
     ''        #version 450\<newline>'' @
     ''        layout(location = 0) in vec3 position;\<newline>'' @
     ''        \<newline>'' @
     ''        void main() {\<newline>'' @
     ''            gl_Position = vec4(position, 1.0);\<newline>'' @
     ''        }\<newline>'' @
     ''        ''"

definition default_bar_fragment_shader :: string where
  "default_bar_fragment_shader =
     ''\<newline>'' @
     ''        #version 450\<newline>'' @
     ''        layout(location = 0) out vec4 fragColor;\<newline>'' @
     ''        \<newline>'' @
     ''        void main() {\<newline>'' @
     ''            fragColor = vec4(0.8, 0.4, 0.2, 1.0);  // Orange color\<newline>'' @
     ''        }\<newline>'' @
     ''        ''"

definition default_point_vertex_shader :: string where
  "default_point_vertex_shader =
     ''\<newline>'' @
     ''        #version 450\<newline>'' @
     ''        layout(location = 0) in vec3 position;\<newline>'' @
     ''        layout(location = 1) in float pointSize;\<newline>'' @
     ''        layout(location = 2) in vec4 color;\<newline>'' @
     ''        \<newline>'' @
     ''        out vec4 fragColor;\<newline>'' @
     ''        \<newline>'' @
     ''        void main() {\<newline>'' @
     ''            gl_Position = vec4(position, 1.0);\<newline>'' @
     ''            gl_PointSize = pointSize;\<newline>'' @
     ''            fragColor = color;\<newline>'' @
     ''        }\<newline>'' @
     ''        ''"

definition default_point_fragment_shader :: string where
  "default_point_fragment_shader =
     ''\<newline>'' @
     ''        #version 450\<newline>'' @
     ''        in vec4 fragColor;\<newline>'' @
     ''        layout(location = 0) out vec4 outColor;\<newline>'' @
     ''        \<newline>'' @
     ''        void main() {\<newline>'' @
     ''            outColor = fragColor;\<newline>'' @
     ''        }\<newline>'' @
     ''        ''"

definition default_ui_vertex_shader :: string where
  "default_ui_vertex_shader =
     ''\<newline>'' @
     ''        #version 450\<newline>'' @
     ''        layout(location = 0) in vec2 position;\<newline>'' @
     ''        layout(location = 1) in vec2 texCoord;\<newline>'' @
     ''        \<newline>'' @
     ''        out vec2 vTexCoord;\<newline>'' @
     ''        \<newline>'' @
     ''        void main() {\<newline>'' @
     ''            gl_Position = vec4(position, 0.0, 1.0);\<newline>'' @
     ''            vTexCoord = texCoord;\<newline>'' @
     ''        }\<newline>'' @
     ''        ''"

definition default_ui_fragment_shader :: string where
  "default_ui_fragment_shader =
     ''\<newline>'' @
     ''        #version 450\<newline>'' @
     ''        in vec2 vTexCoord;\<newline>'' @
     ''        layout(location = 0) out vec4 fragColor;\<newline>'' @
     ''        \<newline>'' @
     ''        void main() {\<newline>'' @
     ''            fragColor = vec4(1.0, 1.0, 1.0, 1.0);  // White color\<newline>'' @
     ''        }\<newline>'' @
     ''        ''"

record shader_manager =
  shader_cache :: "(string \<times> ref) list"
  default_shaders :: "(string \<times> string \<times> string) list"

text \<open>\<^verbatim>\<open>_load_default_shaders\<close>: each entry holds the vertex and the fragment source.\<close>

definition load_default_shaders :: "(string \<times> string \<times> string) list" where
  "load_default_shaders =
     [(''line'', default_line_vertex_shader, default_line_fragment_shader),
      (''scatter'', default_scatter_vertex_shader, default_scatter_fragment_shader),
      (''bar'', default_bar_vertex_shader, default_bar_fragment_shader),
      (''point'', default_point_vertex_shader, default_point_fragment_shader),
      (''ui_element'', default_ui_vertex_shader, default_ui_fragment_shader)]"

definition new_shader_manager :: shader_manager where
  "new_shader_manager = \<lparr>shader_cache = [], default_shaders = load_default_shaders\<rparr>"

definition new_shader_program :: "string \<Rightarrow> string \<Rightarrow> shader_program" where
  "new_shader_program vs fs =
     \<lparr>vertex_shader = vs, fragment_shader = fs, geometry_shader = None, compiled_handles = []\<rparr>"

text \<open>\<^verbatim>\<open>_customize_shader_with_material\<close>.\<close>

definition customize_shader_with_material ::
  "python \<Rightarrow> string \<Rightarrow> string \<Rightarrow> pydict \<Rightarrow> string \<times> string" where
  "customize_shader_with_material py vertex_src fragment_src props =
     (let modified_vs = vertex_src;
          modified_fs = fragment_src;
          modified_fs =
            (if map_of props ''color'' \<noteq> None
                \<and> \<not> str_contains ''uniform vec4 materialColor;'' modified_fs
             then ''#version 450\<newline>uniform vec4 materialColor;\<newline>'' @
                  str_replace ''fragColor ='' ''fragColor = baseColor * ''
                    (str_replace ''void main() {''
                       ''void main() {\<newline>    vec4 baseColor = materialColor;'' modified_fs)
             else modified_fs);
          modified_fs =
            (if map_of props ''opacity'' \<noteq> None
                \<and> \<not> str_contains ''uniform float opacity;'' modified_fs
             then ''#version 450\<newline>uniform float opacity;\<newline>'' @
                  str_replace ''fragColor =''
                    (''fragColor = vec4('' @
                     (case map_of props ''color'' of
                        None \<Rightarrow> ''1.0, 1.0, 1.0''
                      | Some v \<Rightarrow> py_str py v) @
                     '', opacity) * '')
                    modified_fs
             else modified_fs)
      in (modified_vs, modified_fs))"

text \<open>
  The cache key of \<^verbatim>\<open>get_shader_for_geometry\<close>: the geometry type (which is \<^verbatim>\<open>None\<close> for a
  node that is not a geometry node, formatted as \<^verbatim>\<open>None\<close>), an underscore, and the hash of
  the string of the items sorted, in decimal. The keys of a dictionary are distinct, so sorting the
  items, which are pairs, never compares two values: it sorts by key.
\<close>

definition fmt_opt :: "string option \<Rightarrow> string" where
  "fmt_opt g = (case g of None \<Rightarrow> ''None'' | Some s \<Rightarrow> s)"

definition cache_key :: "python \<Rightarrow> string option \<Rightarrow> pydict \<Rightarrow> string" where
  "cache_key py gtype props =
     fmt_opt gtype @ ''_'' @
     str_int (sint (py_hash py (str_items py (sort_key fst props))))"

text \<open>
  \<^verbatim>\<open>get_shader_for_geometry\<close>. A cached program is returned as it is, the same object. On a
  miss the sources of the geometry type, or those of \<^verbatim>\<open>point\<close> for a type without sources,
  are customised, and the new program is cached under the key.
\<close>

definition get_shader_for_geometry ::
  "python \<Rightarrow> world \<times> shader_manager \<Rightarrow> string option \<Rightarrow> pydict \<Rightarrow>
     (py_error + ref) \<times> world \<times> shader_manager" where
  "get_shader_for_geometry py s gtype props =
     (let (w, m) = s;
          key = cache_key py gtype props
      in case map_of (shader_cache m) key of
           Some r \<Rightarrow> (Inr r, s)
         | None \<Rightarrow>
             (case (case (case gtype of None \<Rightarrow> None
                                | Some g \<Rightarrow> map_of (default_shaders m) g) of
                      Some shaders \<Rightarrow> Some shaders
                    | None \<Rightarrow> map_of (default_shaders m) ''point'') of
                None \<Rightarrow> (Inl (KeyError ''point''), s)
              | Some (vertex_src, fragment_src) \<Rightarrow>
                  let (vs, fs) = customize_shader_with_material py vertex_src fragment_src props;
                      (r, h) = alloc (shader_objs w) (new_shader_program vs fs)
                  in (Inr r, w\<lparr>shader_objs := h\<rparr>,
                      m\<lparr>shader_cache := AList.update key r (shader_cache m)\<rparr>)))"

text \<open>\<^verbatim>\<open>get_shader_for_widget\<close> and \<^verbatim>\<open>register_custom_shader\<close>.\<close>

definition get_shader_for_widget ::
  "python \<Rightarrow> world \<times> shader_manager \<Rightarrow> string \<Rightarrow> string option \<Rightarrow> pydict \<Rightarrow>
     (py_error + ref) \<times> world \<times> shader_manager" where
  "get_shader_for_widget py s widget_type gtype props =
     get_shader_for_geometry py s gtype props"

definition register_custom_shader ::
  "shader_manager \<Rightarrow> string \<Rightarrow> string \<Rightarrow> string \<Rightarrow> string list \<Rightarrow> shader_manager" where
  "register_custom_shader m name vertex_src fragment_src geometry_types =
     m\<lparr>default_shaders :=
         fold (\<lambda>geom_type ds. AList.update geom_type (vertex_src, fragment_src) ds)
           geometry_types (default_shaders m)\<rparr>"

section \<open>Backends\<close>

text \<open>
  \<^verbatim>\<open>VulkanBackend\<close> and \<^verbatim>\<open>WebGPUBackend\<close>. Of their attributes only the initialisation flag
  and the pipeline cache are ever assigned after construction. A frame is what
  \<^verbatim>\<open>_prepare_scene\<close> returns: each node entry is a dictionary with exactly the keys
  \<^verbatim>\<open>id\<close>, \<^verbatim>\<open>type\<close>, \<^verbatim>\<open>geometry_type\<close>, \<^verbatim>\<open>data\<close>, \<^verbatim>\<open>material_properties\<close>, \<^verbatim>\<open>transform\<close>,
  \<^verbatim>\<open>visible\<close> and \<^verbatim>\<open>shader\<close>.
\<close>

record frame_node =
  f_id :: string
  f_type :: string
  f_geometry_type :: "string option"
  f_data :: pydict
  f_material_properties :: ref
  f_transform :: "real list list"
  f_visible :: bool
  f_shader :: ref

record frame =
  frame_nodes :: "(string \<times> frame_node) list"
  frame_camera :: ref
  frame_lighting :: ref
  frame_viewport_size :: "nat \<times> nat"

record vulkan_backend =
  vk_is_initialized :: bool
  vk_pipeline_cache :: "(string option \<times> string) list"

record webgpu_backend =
  wg_is_initialized :: bool
  wg_pipeline_cache :: "(string \<times> string) list"

datatype backend = Vulkan vulkan_backend | WebGPU webgpu_backend

definition new_vulkan_backend :: vulkan_backend where
  "new_vulkan_backend = \<lparr>vk_is_initialized = False, vk_pipeline_cache = []\<rparr>"

definition new_webgpu_backend :: webgpu_backend where
  "new_webgpu_backend = \<lparr>wg_is_initialized = False, wg_pipeline_cache = []\<rparr>"

text \<open>
  \<^verbatim>\<open>_draw\<close> reads \<^verbatim>\<open>node_data["primitive_type"]\<close> first. Its argument is a node entry of the
  frame, which has no such key (the primitive type is an item of the entry's \<^verbatim>\<open>data\<close>), so
  the read raises \<^verbatim>\<open>KeyError\<close>.
\<close>

definition draw :: "frame_node \<Rightarrow> py_error + unit" where
  "draw node = Inl (KeyError ''primitive_type'')"

text \<open>
  \<^verbatim>\<open>_get_pipeline_for_geometry\<close> of each backend; the WebGPU key holds the identity of the
  shader object, which is its reference.
\<close>

definition vk_get_pipeline :: "vulkan_backend \<Rightarrow> string option \<Rightarrow> vulkan_backend" where
  "vk_get_pipeline b gtype =
     (case map_of (vk_pipeline_cache b) gtype of
        Some pipeline \<Rightarrow> b
      | None \<Rightarrow> b\<lparr>vk_pipeline_cache :=
                   AList.update gtype (''pipeline_for_'' @ fmt_opt gtype) (vk_pipeline_cache b)\<rparr>)"

definition wg_get_pipeline :: "webgpu_backend \<Rightarrow> string option \<Rightarrow> ref \<Rightarrow> webgpu_backend" where
  "wg_get_pipeline b gtype shader =
     (let key = fmt_opt gtype @ ''_'' @ str_nat shader
      in case map_of (wg_pipeline_cache b) key of
           Some pipeline \<Rightarrow> b
         | None \<Rightarrow> b\<lparr>wg_pipeline_cache :=
                      AList.update key (''webgpu_pipeline_for_'' @ fmt_opt gtype) (wg_pipeline_cache b)\<rparr>)"

text \<open>
  The loop of \<^verbatim>\<open>render\<close> over the node entries of the frame: an entry whose \<^verbatim>\<open>visible\<close> is
  false is skipped; for a visible one the pipeline is looked up or created, the binding
  methods do nothing, and \<^verbatim>\<open>_draw\<close> is called.
\<close>

fun vk_render_nodes :: "vulkan_backend \<Rightarrow> (string \<times> frame_node) list \<Rightarrow> (py_error + unit) \<times> vulkan_backend" where
  "vk_render_nodes b [] = (Inr (), b)"
| "vk_render_nodes b ((nid, node) # rest) =
     (if \<not> f_visible node then vk_render_nodes b rest
      else
        let b1 = vk_get_pipeline b (f_geometry_type node)
        in case draw node of
             Inl e \<Rightarrow> (Inl e, b1)
           | Inr u \<Rightarrow> vk_render_nodes b1 rest)"

fun wg_render_nodes :: "webgpu_backend \<Rightarrow> (string \<times> frame_node) list \<Rightarrow> (py_error + unit) \<times> webgpu_backend" where
  "wg_render_nodes b [] = (Inr (), b)"
| "wg_render_nodes b ((nid, node) # rest) =
     (if \<not> f_visible node then wg_render_nodes b rest
      else
        let b1 = wg_get_pipeline b (f_geometry_type node) (f_shader node)
        in case draw node of
             Inl e \<Rightarrow> (Inl e, b1)
           | Inr u \<Rightarrow> wg_render_nodes b1 rest)"

text \<open>\<^verbatim>\<open>initialize\<close>, \<^verbatim>\<open>render\<close> and \<^verbatim>\<open>display\<close> of a backend.\<close>

fun backend_initialize :: "backend \<Rightarrow> backend" where
  "backend_initialize (Vulkan b) = Vulkan (b\<lparr>vk_is_initialized := True\<rparr>)"
| "backend_initialize (WebGPU b) = WebGPU (b\<lparr>wg_is_initialized := True\<rparr>)"

fun backend_is_initialized :: "backend \<Rightarrow> bool" where
  "backend_is_initialized (Vulkan b) = vk_is_initialized b"
| "backend_is_initialized (WebGPU b) = wg_is_initialized b"

fun backend_render :: "backend \<Rightarrow> frame \<Rightarrow> (py_error + unit) \<times> backend" where
  "backend_render (Vulkan b) fr =
     (if \<not> vk_is_initialized b then (Inl (RuntimeError ''Vulkan backend not initialized''), Vulkan b)
      else let (res, b1) = vk_render_nodes b (frame_nodes fr) in (res, Vulkan b1))"
| "backend_render (WebGPU b) fr =
     (if \<not> wg_is_initialized b then (Inl (RuntimeError ''WebGPU backend not initialized''), WebGPU b)
      else let (res, b1) = wg_render_nodes b (frame_nodes fr) in (res, WebGPU b1))"

definition backend_display :: "backend \<Rightarrow> (py_error + unit) \<times> backend" where
  "backend_display b = (Inr (), b)"

section \<open>Renderer\<close>

record renderer =
  backend_name :: string
  interactive :: bool
  shader_mgr :: shader_manager
  backend :: backend
  is_initialized :: bool
  viewport_size :: "nat \<times> nat"

text \<open>
  \<^verbatim>\<open>Renderer.__init__\<close>. \<^verbatim>\<open>_supports_vulkan\<close> and \<^verbatim>\<open>_supports_webgpu\<close> return \<^verbatim>\<open>True\<close>.
\<close>

definition supports_vulkan :: bool where
  "supports_vulkan = True"

definition supports_webgpu :: bool where
  "supports_webgpu = True"

definition new_renderer :: "string \<Rightarrow> bool \<Rightarrow> renderer" where
  "new_renderer name is_interactive =
     \<lparr>backend_name = name, interactive = is_interactive, shader_mgr = new_shader_manager,
      backend =
        (if name = ''vulkan'' \<or> (name = ''auto'' \<and> supports_vulkan) then Vulkan new_vulkan_backend
         else if name = ''webgpu'' \<or> (name = ''auto'' \<and> supports_webgpu) then WebGPU new_webgpu_backend
         else Vulkan new_vulkan_backend),
      is_initialized = False, viewport_size = (800, 600)\<rparr>"

definition initialize :: "renderer \<Rightarrow> renderer" where
  "initialize rd =
     (if \<not> is_initialized rd
      then rd\<lparr>backend := backend_initialize (backend rd), is_initialized := True\<rparr>
      else rd)"

text \<open>
  \<^verbatim>\<open>DataBuffer.transfer_to_gpu\<close> sets the address to the identity of the buffer's array. Every
  buffer the pipeline creates holds an array of its own, so the identity of the array is
  given by the reference of the buffer.
\<close>

definition transfer_to_gpu :: "world \<Rightarrow> ref \<Rightarrow> world" where
  "transfer_to_gpu w r =
     w\<lparr>buffer_objs := (buffer_objs w)[r := (buffer_objs w ! r)\<lparr>gpu_address := Some r\<rparr>]\<rparr>"

text \<open>
  \<^verbatim>\<open>_process_node_data\<close>: every value with a \<^verbatim>\<open>transfer_to_gpu\<close> method, that is every data
  buffer, is transferred; the result is a new dictionary with the same items.
\<close>

fun process_node_data :: "world \<Rightarrow> pydict \<Rightarrow> pydict \<times> world" where
  "process_node_data w [] = ([], w)"
| "process_node_data w ((key, val) # rest) =
     (let w1 = (case val of PBuf r \<Rightarrow> transfer_to_gpu w r | _ \<Rightarrow> w);
          (processed, w2) = process_node_data w1 rest
      in ((key, val) # processed, w2))"

text \<open>
  \<^verbatim>\<open>_prepare_scene\<close>: the loop over the node entries of the scene, in order. Nothing in it
  reads the \<^verbatim>\<open>visible\<close> item other than to copy it. An exception of the shader manager ends
  the loop; the state is then what the entries before it left.
\<close>

definition dict_at :: "world \<Rightarrow> ref \<Rightarrow> pydict" where
  "dict_at w r = (case deref (dict_objs w) r of None \<Rightarrow> [] | Some d \<Rightarrow> d)"

fun prepare_nodes ::
  "python \<Rightarrow> world \<times> shader_manager \<Rightarrow> (string \<times> node_view) list \<Rightarrow> (string \<times> frame_node) list \<Rightarrow>
     (py_error + (string \<times> frame_node) list) \<times> world \<times> shader_manager" where
  "prepare_nodes py s [] processed_nodes = (Inr processed_nodes, s)"
| "prepare_nodes py s ((nid, entry) # rest) processed_nodes =
     (let gtype = v_geometry_type entry;
          material_props = v_material_properties entry
      in case get_shader_for_geometry py s gtype (dict_at (fst s) material_props) of
           (Inl e, s1) \<Rightarrow> (Inl e, s1)
         | (Inr shader_program, w1, m1) \<Rightarrow>
             let (d, w2) = process_node_data w1 (dict_at w1 (v_data entry));
                 processed_node =
                   \<lparr>f_id = nid, f_type = v_type entry, f_geometry_type = gtype,
                    f_data = d, f_material_properties = material_props,
                    f_transform = v_transform entry, f_visible = v_visible entry,
                    f_shader = shader_program\<rparr>
             in prepare_nodes py (w2, m1) rest (AList.update nid processed_node processed_nodes))"

definition prepare_scene ::
  "python \<Rightarrow> world \<times> renderer \<Rightarrow> scene \<Rightarrow> (py_error + frame) \<times> world \<times> renderer" where
  "prepare_scene py s sc =
     (let (w, rd) = s;
          (res, w1, m1) = prepare_nodes py (w, shader_mgr rd) (scene_nodes sc) [];
          rd1 = rd\<lparr>shader_mgr := m1\<rparr>
      in case res of
           Inl e \<Rightarrow> (Inl e, w1, rd1)
         | Inr processed_nodes \<Rightarrow>
             (Inr \<lparr>frame_nodes = processed_nodes, frame_camera = camera sc,
                   frame_lighting = lighting sc, frame_viewport_size = viewport_size rd\<rparr>,
              w1, rd1))"

text \<open>\<^verbatim>\<open>Renderer.render\<close> and \<^verbatim>\<open>Renderer.display\<close>.\<close>

definition render :: "python \<Rightarrow> world \<times> renderer \<Rightarrow> scene \<Rightarrow> (py_error + unit) \<times> world \<times> renderer" where
  "render py s sc =
     (let (w, rd) = s;
          rd1 = (if \<not> is_initialized rd then initialize rd else rd)
      in case prepare_scene py (w, rd1) sc of
           (Inl e, s2) \<Rightarrow> (Inl e, s2)
         | (Inr prepared_scene, w2, rd2) \<Rightarrow>
             let (res, b) = backend_render (backend rd2) prepared_scene
             in (res, w2, rd2\<lparr>backend := b\<rparr>))"

definition display :: "renderer \<Rightarrow> (py_error + unit) \<times> renderer" where
  "display rd = (let (res, b) = backend_display (backend rd) in (res, rd\<lparr>backend := b\<rparr>))"

section \<open>What the pipeline is specified to do\<close>

text \<open>
  The stride of both level-of-detail transforms, in the words of the specification:
  \<open>stride = max(1, n // target_count)\<close>.
\<close>

definition spec_stride :: "nat \<Rightarrow> nat \<Rightarrow> nat" where
  "spec_stride n target_count = max 1 (n div target_count)"

text \<open>
  Line simplification selects the indices \<open>0, stride, 2 * stride, \<dots>\<close> below \<open>n\<close>, that is the
  multiples of the stride, and then the last index \<open>n - 1\<close> if it is not among them.
\<close>

definition spec_line_selection :: "nat \<Rightarrow> nat \<Rightarrow> nat list" where
  "spec_line_selection n stride =
     (let sel = filter (\<lambda>i. i mod stride = 0) [0..<n]
      in if n - 1 \<in> set sel then sel else sel @ [n - 1])"

text \<open>Scatter subsampling selects every \<open>stride\<close>-th index.\<close>

definition spec_scatter_selection :: "nat \<Rightarrow> nat \<Rightarrow> nat list" where
  "spec_scatter_selection n stride = filter (\<lambda>i. i mod stride = 0) [0..<n]"

text \<open>The input of \<^verbatim>\<open>process_scatter_data\<close> that passes its three length checks.\<close>

definition scatter_valid :: "real list \<Rightarrow> real list \<Rightarrow> color_arg option \<Rightarrow> size_arg option \<Rightarrow> bool" where
  "scatter_valid x y c s =
     (length y = length x
      \<and> (case c of None \<Rightarrow> True | Some ca \<Rightarrow> color_len ca = length x)
      \<and> (case s of Some (SizeArray a) \<Rightarrow> length a = length x | _ \<Rightarrow> True))"

text \<open>
  The payload and state a scatter call ends with when it registers the given vertex, size
  and colour arrays: three new buffer objects at the end of the heap, bound to the three
  scatter names.
\<close>

definition scatter_result ::
  "world \<times> zero_copy_pipeline \<Rightarrow> real list list \<Rightarrow> real list \<Rightarrow> nat \<Rightarrow> real list list \<Rightarrow>
     pydict \<times> world \<times> zero_copy_pipeline" where
  "scatter_result st vertices sizes channels colors =
     (let (w, z) = st; b = length (buffer_objs w)
      in ([(''vertices'', PBuf b), (''sizes'', PBuf (b + 1)), (''colors'', PBuf (b + 2)),
           (''primitive_type'', PStr ''points''), (''count'', PInt (int (length vertices)))],
          w\<lparr>buffer_objs := buffer_objs w @
               [new_data_buffer (F32_2 3 vertices) ''vertex'',
                new_data_buffer (F32_1 sizes) ''attribute'',
                new_data_buffer (F32_2 channels colors) ''attribute'']\<rparr>,
          z\<lparr>buffers := AList.update ''scatter_colors'' (b + 2)
               (AList.update ''scatter_sizes'' (b + 1)
                 (AList.update ''scatter_vertices'' b (buffers z)))\<rparr>))"

text \<open>
  The four entry points as one type of calls, to speak of two successive calls. The
  histogram function of NumPy is a parameter.
\<close>

datatype pipeline_call =
    LineCall "real list" "real list"
  | ScatterCall "real list" "real list" "color_arg option" "size_arg option"
  | BarCall "real list" "real list"
  | HistogramCall "real list" nat

fun run_call ::
  "(real list \<Rightarrow> nat \<Rightarrow> py_error + (nat list \<times> real list)) \<Rightarrow>
   world \<times> zero_copy_pipeline \<Rightarrow> pipeline_call \<Rightarrow>
     py_error + (pydict \<times> world \<times> zero_copy_pipeline)" where
  "run_call np_histogram s (LineCall x y) = process_line_data s x y"
| "run_call np_histogram s (ScatterCall x y c sz) = process_scatter_data s x y c sz"
| "run_call np_histogram s (BarCall x h) = process_bar_data s x h"
| "run_call np_histogram s (HistogramCall d bins) = process_histogram_data np_histogram s d bins"

text \<open>
  The registry names of each entry point, each with the key of the payload that holds the
  buffer registered under it.
\<close>

fun buffer_names :: "pipeline_call \<Rightarrow> (string \<times> string) list" where
  "buffer_names (LineCall x y) = [(''line_vertices'', ''vertices''), (''line_indices'', ''indices'')]"
| "buffer_names (ScatterCall x y c sz) =
     [(''scatter_vertices'', ''vertices''), (''scatter_sizes'', ''sizes''), (''scatter_colors'', ''colors'')]"
| "buffer_names (BarCall x h) = [(''bar_vertices'', ''vertices''), (''bar_indices'', ''indices'')]"
| "buffer_names (HistogramCall d bins) = [(''bar_vertices'', ''vertices''), (''bar_indices'', ''indices'')]"

text \<open>
  A call from state \<open>s\<close> to state \<open>s'\<close> with payload \<open>p\<close> registers its buffers under \<open>names\<close>:
  the buffer objects that existed are untouched, one new object per name is appended, each
  name is bound to its new object, the payload holds the same object under its key, and
  every other name is bound as before.
\<close>

definition registered_as ::
  "(string \<times> string) list \<Rightarrow> world \<times> zero_copy_pipeline \<Rightarrow> pydict \<Rightarrow> world \<times> zero_copy_pipeline \<Rightarrow> bool" where
  "registered_as names s p s' =
     (let b = length (buffer_objs (fst s)) in
        length (buffer_objs (fst s')) = b + length names
      \<and> take b (buffer_objs (fst s')) = buffer_objs (fst s)
      \<and> map (\<lambda>nk. map_of (buffers (snd s')) (fst nk)) names = map Some [b..<b + length names]
      \<and> map (\<lambda>nk. map_of p (snd nk)) names = map (\<lambda>r. Some (PBuf r)) [b..<b + length names]
      \<and> AList.restrict (- set (map fst names)) (buffers (snd s'))
          = AList.restrict (- set (map fst names)) (buffers (snd s)))"

text \<open>
  The states after one and after two line plots of two points each, from the empty
  registry.
\<close>

definition line_state_1 :: "world \<times> zero_copy_pipeline" where
  "line_state_1 =
     (empty_world\<lparr>buffer_objs :=
        [new_data_buffer (F32_2 3 [[0, 0, 0], [1, 1, 0]]) ''vertex'',
         new_data_buffer (U32_1 [0, 1]) ''index'']\<rparr>,
      new_zero_copy_pipeline\<lparr>buffers := [(''line_vertices'', 0), (''line_indices'', 1)]\<rparr>)"

definition line_state_2 :: "world \<times> zero_copy_pipeline" where
  "line_state_2 =
     (empty_world\<lparr>buffer_objs :=
        [new_data_buffer (F32_2 3 [[0, 0, 0], [1, 1, 0]]) ''vertex'',
         new_data_buffer (U32_1 [0, 1]) ''index'',
         new_data_buffer (F32_2 3 [[5, 7, 0], [6, 8, 0]]) ''vertex'',
         new_data_buffer (U32_1 [0, 1]) ''index'']\<rparr>,
      new_zero_copy_pipeline\<lparr>buffers := [(''line_vertices'', 2), (''line_indices'', 3)]\<rparr>)"

section \<open>Scene graph states, operation sequences and snapshot contents\<close>

text \<open>
  The invariant of the scene manager and its node heap: \<^verbatim>\<open>"root"\<close> is bound to the root
  node, which is a plain node; the ids are distinct and bound to nodes of the heap; the child
  lists hold distinct nodes of the heap and parents are nodes of the heap.
\<close>

definition node_ok :: "nat \<Rightarrow> scene_node \<Rightarrow> bool" where
  "node_ok len n =
     (distinct (children n)
      \<and> list_all (\<lambda>c. c < len) (children n)
      \<and> (case parent n of None \<Rightarrow> True | Some p \<Rightarrow> p < len))"

definition scene_wf :: "world \<Rightarrow> scene_manager \<Rightarrow> bool" where
  "scene_wf w sm =
     (map_of (nodes sm) ''root'' = Some (root_node sm)
      \<and> distinct (map fst (nodes sm))
      \<and> list_all (\<lambda>kr. snd kr < length (node_objs w)) (nodes sm)
      \<and> geometry (node_objs w ! root_node sm) = None
      \<and> list_all (node_ok (length (node_objs w))) (node_objs w))"

text \<open>
  The dictionaries of the geometry nodes exist: the data and the material properties of
  every geometry node of the heap are dictionaries of the heap. It holds for a new scene
  manager and is kept by the add calls, whose data dictionary is an object of the caller,
  and by \<^verbatim>\<open>update_node\<close> and \<^verbatim>\<open>remove_node\<close>.
\<close>

definition data_refs_ok :: "world \<Rightarrow> bool" where
  "data_refs_ok w =
     list_all (\<lambda>n. case geometry n of
                     None \<Rightarrow> True
                   | Some g \<Rightarrow> node_data g < length (dict_objs w)
                             \<and> material_properties g < length (dict_objs w))
       (node_objs w)"

text \<open>
  Calls on a scene manager. An add call is given the contents of the caller's data
  dictionary, which is a new object, and the keyword arguments.
\<close>

datatype scene_op =
    AddLine pydict pydict
  | AddScatter pydict pydict
  | AddBar pydict pydict
  | AddHistogram pydict pydict
  | UpdateNode string pydict
  | RemoveNode string

datatype op_result = NodeId string | Flag bool | Raised py_error

definition add_new ::
  "(world \<Rightarrow> scene_manager \<Rightarrow> ref \<Rightarrow> pydict \<Rightarrow> string \<times> world \<times> scene_manager) \<Rightarrow>
   world \<times> scene_manager \<Rightarrow> pydict \<Rightarrow> pydict \<Rightarrow> op_result \<times> world \<times> scene_manager" where
  "add_new add s d kwargs =
     (let (w, sm) = s;
          (r, dh) = alloc (dict_objs w) d;
          (nid, s1) = add (w\<lparr>dict_objs := dh\<rparr>) sm r kwargs
      in (NodeId nid, s1))"

fun apply_op :: "world \<times> scene_manager \<Rightarrow> scene_op \<Rightarrow> op_result \<times> world \<times> scene_manager" where
  "apply_op s (AddLine d kwargs) = add_new add_line s d kwargs"
| "apply_op s (AddScatter d kwargs) = add_new add_scatter s d kwargs"
| "apply_op s (AddBar d kwargs) = add_new add_bar s d kwargs"
| "apply_op s (AddHistogram d kwargs) = add_new add_histogram s d kwargs"
| "apply_op s (UpdateNode nid d) =
     (let (res, w1) = update_node (fst s) (snd s) nid d
      in (case res of Inl e \<Rightarrow> Raised e | Inr b \<Rightarrow> Flag b, w1, snd s))"
| "apply_op s (RemoveNode nid) =
     (let (b, s1) = remove_node (fst s) (snd s) nid in (Flag b, s1))"

fun run_ops :: "world \<times> scene_manager \<Rightarrow> scene_op list \<Rightarrow> op_result list \<times> world \<times> scene_manager" where
  "run_ops s [] = ([], s)"
| "run_ops s (op # ops) =
     (let (r, s1) = apply_op s op;
          (rs, s2) = run_ops s1 ops
      in (r # rs, s2))"

definition initial_scene :: "world \<times> scene_manager" where
  "initial_scene = (let (sm, w) = new_scene_manager empty_world in (w, sm))"

text \<open>Removing the nodes of a list of ids, one call after the other.\<close>

fun remove_nodes :: "world \<times> scene_manager \<Rightarrow> string list \<Rightarrow> world \<times> scene_manager" where
  "remove_nodes s [] = s"
| "remove_nodes s (nid # nids) = remove_nodes (snd (remove_node (fst s) (snd s) nid)) nids"

text \<open>
  What a scene shows when it is read in a world: each node's entry with the contents of the
  two dictionaries it refers to, and the contents of the camera and lighting dictionaries.
\<close>

record shown_node =
  s_type :: string
  s_geometry_type :: "string option"
  s_data :: "pydict option"
  s_material_properties :: "pydict option"
  s_transform :: "real list list"
  s_visible :: bool

definition show_node :: "world \<Rightarrow> node_view \<Rightarrow> shown_node" where
  "show_node w v =
     \<lparr>s_type = v_type v, s_geometry_type = v_geometry_type v,
      s_data = deref (dict_objs w) (v_data v),
      s_material_properties = deref (dict_objs w) (v_material_properties v),
      s_transform = v_transform v, s_visible = v_visible v\<rparr>"

definition scene_contents ::
  "world \<Rightarrow> scene \<Rightarrow> (string \<times> shown_node) list \<times> pydict option \<times> pydict option" where
  "scene_contents w sc =
     (map (\<lambda>kv. (fst kv, show_node w (snd kv))) (scene_nodes sc),
      deref (dict_objs w) (camera sc), deref (dict_objs w) (lighting sc))"

text \<open>
  A scene entry copies a node: type, transform and visibility are the node's, and for a
  geometry node the geometry type is the node's and the two dictionaries are the node's own
  dictionary objects.
\<close>

definition copies_node :: "scene_node \<Rightarrow> node_view \<Rightarrow> bool" where
  "copies_node n v =
     (v_type v = node_type n \<and> v_transform v = transform n \<and> v_visible v = visible n
      \<and> (case geometry n of
            None \<Rightarrow> v_geometry_type v = None
          | Some g \<Rightarrow> v_geometry_type v = Some (geometry_type g)
                    \<and> v_data v = node_data g
                    \<and> v_material_properties v = material_properties g))"

text \<open>
  The scene after one line was added to a new scene manager, with a data dictionary of one
  item and one keyword argument, and the snapshot of that scene.
\<close>

definition one_line_scene :: "world \<times> scene_manager" where
  "one_line_scene =
     snd (run_ops initial_scene [AddLine [(''count'', PInt 4)] [(''color'', PStr ''green'')]])"

definition one_line_snapshot :: scene where
  "one_line_snapshot =
     \<lparr>scene_nodes =
        [(''line_1'',
          \<lparr>v_type = ''geometry'', v_geometry_type = Some ''line'', v_data = 2,
           v_material_properties = 3, v_transform = eye4, v_visible = True\<rparr>)],
      camera = 0, lighting = 1\<rparr>"

text \<open>
  The scene after two lines were added, the first was removed and a third was added: the
  third line got the id of the second, so the second line is a child of the root that no id
  is bound to.
\<close>

definition reused_id_scene :: "world \<times> scene_manager" where
  "reused_id_scene =
     snd (run_ops initial_scene [AddLine [] [], AddLine [] [], RemoveNode ''line_1'', AddLine [] []])"

section \<open>Notions for the claims on rendering\<close>

text \<open>The error a backend raises when it renders before it was initialised.\<close>

definition not_initialized_error :: "py_error \<Rightarrow> bool" where
  "not_initialized_error e =
     (e = RuntimeError ''Vulkan backend not initialized''
      \<or> e = RuntimeError ''WebGPU backend not initialized'')"

text \<open>The scene with no node.\<close>

definition empty_scene :: scene where
  "empty_scene = \<lparr>scene_nodes = [], camera = 0, lighting = 1\<rparr>"

text \<open>The snapshot of the scene with one line, with the line made invisible.\<close>

definition hidden_line_snapshot :: scene where
  "hidden_line_snapshot =
     \<lparr>scene_nodes =
        [(''line_1'',
          \<lparr>v_type = ''geometry'', v_geometry_type = Some ''line'', v_data = 2,
           v_material_properties = 3, v_transform = eye4, v_visible = False\<rparr>)],
      camera = 0, lighting = 1\<rparr>"


text \<open>
  A node entry of a frame is the entry of a snapshot node: it has the same id, which it also
  holds as its \<^verbatim>\<open>id\<close> item; its type, geometry type, transform and visibility are the
  snapshot node's; its data has the items of the snapshot node's data dictionary; its
  material properties are the snapshot node's dictionary; and its shader is the program that
  the shader manager has cached for the snapshot node's geometry type and material
  properties.
\<close>

definition frame_entry_of ::
  "python \<Rightarrow> world \<Rightarrow> shader_manager \<Rightarrow> string \<times> node_view \<Rightarrow> string \<times> frame_node \<Rightarrow> bool" where
  "frame_entry_of py w m kv kn =
     (fst kn = fst kv
      \<and> f_id (snd kn) = fst kv
      \<and> f_type (snd kn) = v_type (snd kv)
      \<and> f_geometry_type (snd kn) = v_geometry_type (snd kv)
      \<and> f_data (snd kn) = dict_at w (v_data (snd kv))
      \<and> f_material_properties (snd kn) = v_material_properties (snd kv)
      \<and> f_transform (snd kn) = v_transform (snd kv)
      \<and> f_visible (snd kn) = v_visible (snd kv)
      \<and> map_of (shader_cache m)
           (cache_key py (v_geometry_type (snd kv))
              (dict_at w (v_material_properties (snd kv))))
         = Some (f_shader (snd kn)))"

text \<open>
  From one state of the shader manager to a later one the cache only grows: the default
  sources are the same and every key that was bound is still bound to the same program.
\<close>

definition cache_grows :: "shader_manager \<Rightarrow> shader_manager \<Rightarrow> bool" where
  "cache_grows m m' =
     (default_shaders m' = default_shaders m
      \<and> (\<forall>k r. map_of (shader_cache m) k = Some r \<longrightarrow> map_of (shader_cache m') k = Some r))"







section \<open>Lemmas on the strided selection\<close>

lemma arange_less_iff:
  assumes "0 < s"
  shows "(k::nat) < (n + s - 1) div s \<longleftrightarrow> k * s < n"
proof -
  have "k < (n + s - 1) div s \<longleftrightarrow> Suc k \<le> (n + s - 1) div s" by auto
  also have "\<dots> \<longleftrightarrow> Suc k * s \<le> n + s - 1"
    using assms by (simp add: less_eq_div_iff_mult_less_eq)
  also have "\<dots> \<longleftrightarrow> k * s < n" using assms by (cases s) auto
  finally show ?thesis .
qed

lemma np_arange_filter:
  assumes "0 < s"
  shows "np_arange 0 n s = filter (\<lambda>i. i mod s = 0) [0..<n]"
proof (rule sorted_distinct_set_unique)
  show "sorted (np_arange 0 n s)"
    unfolding np_arange_def using assms
    by (auto simp: sorted_map intro!: sorted_wrt_mono_rel[of _ "(\<le>)"] )
  show "distinct (np_arange 0 n s)"
    unfolding np_arange_def using assms by (auto simp: distinct_map inj_on_def)
  show "sorted (filter (\<lambda>i. i mod s = 0) [0..<n])" by (simp add: sorted_wrt_filter)
  show "distinct (filter (\<lambda>i. i mod s = 0) [0..<n])" by simp
  show "set (np_arange 0 n s) = set (filter (\<lambda>i. i mod s = 0) [0..<n])"
  proof (intro set_eqI iffI)
    fix x assume "x \<in> set (np_arange 0 n s)"
    then have "x \<in> (\<lambda>k. k * s) ` {0..<(n + s - 1) div s}"
      unfolding np_arange_def by simp
    then obtain k where "x = k * s" "k < (n + s - 1) div s" by force
    then show "x \<in> set (filter (\<lambda>i. i mod s = 0) [0..<n])"
      using arange_less_iff[OF assms, of k n] by auto
  next
    fix x assume "x \<in> set (filter (\<lambda>i. i mod s = 0) [0..<n])"
    then have "x < n" "x mod s = 0" by auto
    then have "s dvd x" by (simp add: mod_eq_0_iff_dvd)
    then obtain k where k: "x = k * s" unfolding dvd_def by (auto simp: mult.commute)
    with \<open>x < n\<close> have "k < (n + s - 1) div s" using arange_less_iff[OF assms, of k n] by simp
    with k show "x \<in> set (np_arange 0 n s)" unfolding np_arange_def by auto
  qed
qed


lemma length_np_arange: "length (np_arange a b s) = (b - a + s - 1) div s"
  by (simp add: np_arange_def)

lemma np_arange_bound:
  assumes "0 < s"
  shows "list_all (\<lambda>i. i < n) (np_arange 0 n s)"
  unfolding np_arange_filter[OF assms] by (simp add: list_all_iff)

lemma np_arange_nonempty:
  assumes "0 < s" "0 < n"
  shows "np_arange 0 n s \<noteq> []" "hd (np_arange 0 n s) = 0"
proof -
  have "0 < (n + s - 1) div s" using assms arange_less_iff[OF assms(1), of 0 n] by simp
  then show "np_arange 0 n s \<noteq> []" "hd (np_arange 0 n s) = 0"
    by (auto simp: np_arange_def hd_map hd_upt upt_conv_Nil)
qed

lemma last_np_arange_iff:
  assumes "0 < s" "0 < n"
  shows "last (np_arange 0 n s) = n - 1 \<longleftrightarrow> n - 1 \<in> set (np_arange 0 n s)"
proof
  assume "last (np_arange 0 n s) = n - 1"
  then show "n - 1 \<in> set (np_arange 0 n s)"
    using np_arange_nonempty(1)[OF assms] last_in_set by metis
next
  assume m: "n - 1 \<in> set (np_arange 0 n s)"
  have srt: "sorted (np_arange 0 n s)"
    unfolding np_arange_filter[OF assms(1)] by (simp add: sorted_wrt_filter)
  have ne: "np_arange 0 n s \<noteq> []" by (rule np_arange_nonempty(1)[OF assms])
  have "last (np_arange 0 n s) \<in> set (np_arange 0 n s)" using ne by simp
  then have up: "last (np_arange 0 n s) < n"
    using np_arange_bound[OF assms(1), of n] by (simp add: list_all_iff)
  have "n - 1 \<le> last (np_arange 0 n s)"
  proof -
    obtain i where i: "i < length (np_arange 0 n s)" "np_arange 0 n s ! i = n - 1"
      using m by (auto simp: in_set_conv_nth)
    have "np_arange 0 n s ! i \<le> np_arange 0 n s ! (length (np_arange 0 n s) - 1)"
      using srt i(1) by (intro sorted_nth_mono) auto
    then show ?thesis using i(2) ne by (simp add: last_conv_nth)
  qed
  with up show "last (np_arange 0 n s) = n - 1" by simp
qed

lemma member_np_arange: 
  assumes "0 < s"
  shows "i \<in> set (np_arange 0 n s) \<longleftrightarrow> i < n \<and> i mod s = 0"
  unfolding np_arange_filter[OF assms] by auto

lemma code_selection_eq_spec:
  assumes "0 < s" "0 < n"
  shows "(if last (np_arange 0 n s) \<noteq> n - 1 then np_arange 0 n s @ [n - 1] else np_arange 0 n s)
         = spec_line_selection n s"
  using last_np_arange_iff[OF assms]
  by (simp add: spec_line_selection_def Let_def np_arange_filter[OF assms(1), symmetric])

lemma length_spec_line_selection:
  assumes "0 < s" "0 < n"
  shows "length (spec_line_selection n s) = (n + s - 1) div s + (if (n - 1) mod s = 0 then 0 else 1)"
proof -
  have "n - 1 \<in> set (np_arange 0 n s) \<longleftrightarrow> (n - 1) mod s = 0"
    using assms by (simp add: member_np_arange)
  then show ?thesis
    by (simp add: spec_line_selection_def Let_def np_arange_filter[OF assms(1), symmetric]
        length_np_arange)
qed

lemma spec_line_selection_bound:
  assumes "0 < s" "0 < n"
  shows "list_all (\<lambda>i. i < n) (spec_line_selection n s)"
  using assms np_arange_bound[OF assms(1), of n]
  by (simp add: spec_line_selection_def Let_def np_arange_filter[OF assms(1), symmetric])

lemma spec_line_selection_ends:
  assumes "0 < s" "0 < n"
  shows "spec_line_selection n s \<noteq> []" "hd (spec_line_selection n s) = 0" 
    "last (spec_line_selection n s) = n - 1"
proof -
  let ?a = "np_arange 0 n s"
  have eq: "spec_line_selection n s = (if last ?a \<noteq> n - 1 then ?a @ [n - 1] else ?a)"
    by (rule code_selection_eq_spec[OF assms, symmetric])
  show "spec_line_selection n s \<noteq> []" using np_arange_nonempty(1)[OF assms] by (simp add: eq)
  show "hd (spec_line_selection n s) = 0" using np_arange_nonempty[OF assms] by (simp add: eq)
  show "last (spec_line_selection n s) = n - 1" by (simp add: eq)
qed

lemma take_rows_ok: "list_all (\<lambda>i. i < length a) idx \<Longrightarrow> take_rows a idx = Inr (map (\<lambda>i. a ! i) idx)"
  by (simp add: take_rows_def)

lemma simplify_line_eq:
  assumes "2 < length vertices"
  shows "simplify_line vertices indices ''radial_distance'' =
    Inr (map (\<lambda>i. vertices ! i) (spec_line_selection (length vertices) (spec_stride (length vertices) 10000)),
         [0..<length (spec_line_selection (length vertices) (spec_stride (length vertices) 10000))])"
proof -
  let ?n = "length vertices"
  let ?s = "max 1 (?n div 10000)"
  have s: "0 < ?s" by simp
  have n: "0 < ?n" using assms by auto
  have ne: "np_arange 0 ?n ?s \<noteq> []" by (rule np_arange_nonempty(1)[OF s n])
  have sel: "(if last (np_arange 0 ?n ?s) \<noteq> ?n - 1 then np_arange 0 ?n ?s @ [?n - 1] else np_arange 0 ?n ?s)
      = spec_line_selection ?n ?s" by (rule code_selection_eq_spec[OF s n])
  have tr: "take_rows vertices (spec_line_selection ?n ?s) = Inr (map (\<lambda>i. vertices ! i) (spec_line_selection ?n ?s))"
    by (rule take_rows_ok[OF spec_line_selection_bound[OF s n]])
  show ?thesis
    using assms ne unfolding simplify_line_def Let_def sel spec_stride_def
    by (simp add: tr del: One_nat_def)
qed

lemma selection_length_lower:
  assumes "2 < n"
  shows "2 \<le> length (spec_line_selection n (spec_stride n 10000))"
proof -
  let ?s = "spec_stride n 10000"
  have s: "0 < ?s" by (simp add: spec_stride_def)
  have n: "0 < n" using assms by simp
  have "1 * ?s < n" using assms by (auto simp: spec_stride_def max_def)
  then have "1 < (n + ?s - 1) div ?s" using arange_less_iff[OF s, of 1 n] by simp
  then show ?thesis by (simp add: length_spec_line_selection[OF s n])
qed

lemma selection_length_le_n:
  assumes "0 < n" "0 < s"
  shows "length (spec_line_selection n s) \<le> n"
proof -
  have "distinct (spec_line_selection n s)"
    by (auto simp: spec_line_selection_def Let_def)
  moreover have "set (spec_line_selection n s) \<subseteq> {0..<n}"
    using spec_line_selection_bound[OF assms(2,1)] by (auto simp: list_all_iff)
  ultimately have "length (spec_line_selection n s) \<le> card {0..<n}"
    by (metis card_mono distinct_card finite_atLeastLessThan)
  then show ?thesis by simp
qed

lemma stride_small: "n < 20000 \<Longrightarrow> spec_stride n 10000 = Suc 0"
  by (auto simp: spec_stride_def max_def) 

lemma selection_length_stride1: "0 < n \<Longrightarrow> length (spec_line_selection n (Suc 0)) = n"
  using length_spec_line_selection[of "Suc 0" n] by simp

lemma selection_length_upper:
  assumes "0 < n"
  shows "length (spec_line_selection n (spec_stride n 10000)) < 20000"
proof (cases "n < 20000")
  case True
  then show ?thesis using assms by (simp add: stride_small selection_length_stride1)
next
  case False
  let ?s = "n div 10000"
  have s2: "2 \<le> ?s" using False by simp
  then have st: "spec_stride n 10000 = ?s" by (simp add: spec_stride_def max_def)
  have "n mod 10000 < 10000" by simp
  moreover have "n = 10000 * ?s + n mod 10000" by simp
  ultimately have "n < 10000 * ?s + 10000" by linarith
  then have "n + ?s - 1 < 15001 * ?s" using s2 by simp
  then have "(n + ?s - 1) div ?s < 15001" by (rule less_mult_imp_div_less)
  moreover have "0 < ?s" using s2 by simp
  ultimately show ?thesis using assms unfolding st
    by (simp add: length_spec_line_selection del: div_less_iff_less_mult)
qed

lemma selection_length_multiple:
  assumes "0 < n" "10000 dvd n"
  shows "length (spec_line_selection n (spec_stride n 10000)) \<le> 10001"
proof -
  from assms obtain q where q: "n = 10000 * q" "0 < q" by (auto simp: dvd_def)
  then have st: "spec_stride n 10000 = q" by (simp add: spec_stride_def max_def)
  have "(n + q - 1) div q = 10000"
  proof -
    have e: "n + q - 1 = (q - 1) + 10000 * q" using q by simp
    have "((q - 1) + 10000 * q) div q = 10000 + (q - 1) div q"
      using q(2) by (intro div_mult_self1) simp
    then show ?thesis using q(2) unfolding e by simp
  qed
  then show ?thesis using q assms(1) unfolding st by (simp add: length_spec_line_selection)
qed


lemma mask_full:
  assumes "0 < s" "\<not> length (np_arange 0 n s) < n" "length a = n"
  shows "map (\<lambda>i. a ! i) (np_arange 0 n s) = a"
proof -
  have f: "np_arange 0 n s = filter (\<lambda>i. i mod s = 0) [0..<n]" by (rule np_arange_filter[OF assms(1)])
  have "\<forall>i\<in>set [0..<n]. i mod s = 0"
  proof (rule ccontr)
    assume "\<not> (\<forall>i\<in>set [0..<n]. i mod s = 0)"
    then obtain i where "i \<in> set [0..<n]" "\<not> i mod s = 0" by blast
    then have "length (filter (\<lambda>i. i mod s = 0) [0..<n]) < length [0..<n]"
      by (rule length_filter_less)
    with assms(2) show False by (simp add: f)
  qed
  then have "np_arange 0 n s = [0..<n]" unfolding f by (simp only: filter_True)
  then show ?thesis using assms(3) map_nth[of a] by simp
qed

lemma sample_if:
  assumes "0 < s" "length a = n"
  shows "(if length a > length (np_arange 0 n s) then take_rows a (np_arange 0 n s) else Inr a)
          = Inr (map (\<lambda>i. a ! i) (np_arange 0 n s))"
proof (cases "length (np_arange 0 n s) < n")
  case True
  then show ?thesis using assms np_arange_bound[OF assms(1), of n] by (simp add: take_rows_ok)
next
  case False
  then show ?thesis using mask_full[OF assms(1) False assms(2)] assms(2) by simp
qed

lemma length_column_stack3: "length (column_stack3 a b c) = length a"
  by (simp add: column_stack3_def)

lemma length_scatter_sizes:
  "(case s of Some (SizeArray a) \<Rightarrow> length a \<noteq> n | _ \<Rightarrow> False) = False \<Longrightarrow> length (scatter_sizes n s) = n"
  by (auto simp: scatter_sizes_def split: option.splits size_arg.splits)

lemma length_scatter_colors:
  "(case c of None \<Rightarrow> False | Some ca \<Rightarrow> color_len ca \<noteq> n) = False \<Longrightarrow> length (snd (scatter_colors n c)) = n"
  by (auto simp: scatter_colors_def split: option.splits color_arg.splits)

lemma scatter_lod_sampled:
  assumes big: "50000 < n"
    and lv: "length vertices = n" and ls: "length sizes = n" and lc: "length colors = n"
  shows "scatter_lod n vertices sizes colors =
     Inr (map (\<lambda>i. vertices ! i) (np_arange 0 n (max 1 (n div 50000))),
          map (\<lambda>i. sizes ! i) (np_arange 0 n (max 1 (n div 50000))),
          map (\<lambda>i. colors ! i) (np_arange 0 n (max 1 (n div 50000))))"
proof -
  define mask where "mask = np_arange 0 n (max 1 (n div 50000))"
  have s: "0 < max 1 (n div 50000)" by simp
  have v: "take_rows vertices mask = Inr (map (\<lambda>i. vertices ! i) mask)"
    unfolding mask_def using np_arange_bound[OF s, of n] by (simp add: take_rows_ok lv)
  have sz: "(if length sizes > length mask then take_rows sizes mask else Inr sizes)
             = Inr (map (\<lambda>i. sizes ! i) mask)"
    unfolding mask_def by (rule sample_if[OF s ls])
  have co: "(if length colors > length mask then take_rows colors mask else Inr colors)
              = Inr (map (\<lambda>i. colors ! i) mask)"
    unfolding mask_def by (rule sample_if[OF s lc])
  show ?thesis
    unfolding scatter_lod_def Let_def mask_def[symmetric]
    using big by (simp add: v sz co)
qed

lemma process_scatter_sampled:
  assumes big: "50000 < length x"
    and ylen: "length y = length x"
    and cok: "(case c of None \<Rightarrow> False | Some ca \<Rightarrow> color_len ca \<noteq> length x) = False"
    and sok: "(case s of Some (SizeArray a) \<Rightarrow> length a \<noteq> length x | _ \<Rightarrow> False) = False"
  shows "process_scatter_data st x y c s =
     Inr (scatter_result st
           (map (\<lambda>i. column_stack3 x y (replicate (length x) 0) ! i) (np_arange 0 (length x) (max 1 (length x div 50000))))
           (map (\<lambda>i. scatter_sizes (length x) s ! i) (np_arange 0 (length x) (max 1 (length x div 50000))))
           (fst (scatter_colors (length x) c))
           (map (\<lambda>i. snd (scatter_colors (length x) c) ! i) (np_arange 0 (length x) (max 1 (length x div 50000)))))"
proof -
  let ?n = "length x"
  obtain k cols where kc: "scatter_colors ?n c = (k, cols)" by (cases "scatter_colors ?n c")
  have cl: "length cols = ?n" using length_scatter_colors[OF cok] by (simp add: kc)
  note lod = scatter_lod_sampled[OF big length_column_stack3 length_scatter_sizes[OF sok] cl]
  show ?thesis
    unfolding process_scatter_data_def Let_def kc
    using ylen cok sok
    by (cases st) (simp add: lod create_buffer_def alloc_def scatter_result_def Let_def)
qed

section \<open>Line simplification (claim C3)\<close>

text \<open>
  C3. For every vertex array of length \<open>n > 2\<close>, \<^verbatim>\<open>simplify_line\<close> returns (it does not
  raise) the rows at the indices \<open>0, stride, 2 * stride, \<dots>\<close> with
  \<open>stride = max(1, n // 10000)\<close>, followed by the last index if it was not selected, and the
  index buffer \<open>0..m-1\<close>. The first and the last original point are in the output, and its
  length \<open>m\<close> satisfies \<open>2 \<le> m \<le> n\<close> and \<open>m < 2 * 10000\<close>. The bound \<open>m \<le> 10000 + 1\<close> of the
  specification holds when \<open>n\<close> is a multiple of the target or at most \<open>10000 + 1\<close> (so for
  \<open>n = 50000\<close>), not for every \<open>n\<close>.
\<close>

theorem simplify_line_selects_strided:
  assumes "2 < length vertices"
  shows "let n = length vertices;
             stride = spec_stride n 10000;
             sel = spec_line_selection n stride;
             m = length sel
         in simplify_line vertices indices ''radial_distance''
              = Inr (map (\<lambda>i. vertices ! i) sel, [0..<m])
          \<and> list_all (\<lambda>i. i < n) sel
          \<and> hd (map (\<lambda>i. vertices ! i) sel) = hd vertices
          \<and> last (map (\<lambda>i. vertices ! i) sel) = last vertices
          \<and> 2 \<le> m \<and> m \<le> n \<and> m < 2 * 10000
          \<and> (10000 dvd n \<or> n \<le> 10000 + 1 \<longrightarrow> m \<le> 10000 + 1)"
proof -
  let ?n = "length vertices"
  let ?s = "spec_stride ?n 10000"
  let ?sel = "spec_line_selection ?n ?s"
  have s: "0 < ?s" by (simp add: spec_stride_def)
  have n: "0 < ?n" using assms by auto
  note ends = spec_line_selection_ends[OF s n]
  have 1: "simplify_line vertices indices ''radial_distance''
              = Inr (map (\<lambda>i. vertices ! i) ?sel, [0..<length ?sel])"
    by (rule simplify_line_eq[OF assms])
  have 2: "list_all (\<lambda>i. i < ?n) ?sel" by (rule spec_line_selection_bound[OF s n])
  have 3: "hd (map (\<lambda>i. vertices ! i) ?sel) = hd vertices"
    using ends n by (simp add: hd_map hd_conv_nth)
  have 4: "last (map (\<lambda>i. vertices ! i) ?sel) = last vertices"
    using ends n by (simp add: last_map last_conv_nth)
  have 5: "2 \<le> length ?sel" by (rule selection_length_lower[OF assms])
  have 6: "length ?sel \<le> ?n" by (rule selection_length_le_n[OF n s])
  have 7: "length ?sel < 2 * 10000" using selection_length_upper[OF n] by simp
  have 8: "10000 dvd ?n \<or> ?n \<le> 10000 + 1 \<longrightarrow> length ?sel \<le> 10000 + 1"
  proof (intro impI, elim disjE)
    assume "10000 dvd ?n" then show "length ?sel \<le> 10000 + 1"
      using selection_length_multiple[OF n] by simp
  next
    assume a: "?n \<le> 10000 + 1" 
    then have "?n < 20000" by simp
    then show "length ?sel \<le> 10000 + 1" using a n
      by (simp only: stride_small selection_length_stride1)
  qed
  show ?thesis unfolding Let_def
    by (intro conjI) (fact 1 2 3 4 5 6 7 8)+
qed

text \<open>
  The theorem at a line of 50000 points: the stride is 5, and 10001 points are kept, the
  10000 multiples of 5 and the last index 49999.
\<close>

theorem simplify_line_selects_strided_witness:
  "2 < length (replicate 50000 (0::real))
   \<and> spec_stride 50000 10000 = 5
   \<and> length (spec_line_selection 50000 5) = 10001
   \<and> last (spec_line_selection 50000 5) = 49999
   \<and> simplify_line (replicate 50000 (0::real)) [0..<50000] ''radial_distance''
       = Inr (map (\<lambda>i. replicate 50000 0 ! i) (spec_line_selection 50000 5), [0..<10001])"
proof -
  have h: "2 < length (replicate 50000 (0::real))" by simp
  have st: "spec_stride 50000 10000 = 5" by (simp add: spec_stride_def)
  have len: "length (spec_line_selection 50000 5) = 10001"
    using length_spec_line_selection[of 5 50000] by simp
  have lst: "last (spec_line_selection 50000 5) = 49999"
    using spec_line_selection_ends(3)[of 5 50000] by simp
  have "simplify_line (replicate 50000 (0::real)) [0..<50000] ''radial_distance''
       = Inr (map (\<lambda>i. replicate 50000 0 ! i)
                (spec_line_selection (length (replicate 50000 (0::real)))
                   (spec_stride (length (replicate 50000 (0::real))) 10000)),
              [0..<length (spec_line_selection (length (replicate 50000 (0::real)))
                   (spec_stride (length (replicate 50000 (0::real))) 10000))])"
    using simplify_line_selects_strided[OF h, of "[0..<50000]"] unfolding Let_def
    by (rule conjunct1)
  then have "simplify_line (replicate 50000 (0::real)) [0..<50000] ''radial_distance''
       = Inr (map (\<lambda>i. replicate 50000 0 ! i) (spec_line_selection 50000 5), [0..<10001])"
    unfolding length_replicate st len .
  with h st len lst show ?thesis by blast
qed

text \<open>
  C3 as stated fails: a line of 10002 points has stride 1, so all 10002 points are kept,
  more than \<open>target_count + 1 = 10001\<close>.
\<close>

theorem simplify_line_length_counterexample:
  "simplify_line (replicate 10002 (0::real)) [0..<10002] ''radial_distance''
     = Inr (replicate 10002 0, [0..<10002])
   \<and> \<not> length (replicate 10002 (0::real)) \<le> 10000 + 1"
proof -
  have st: "spec_stride 10002 10000 = Suc 0" by (simp add: stride_small)
  have sel: "spec_line_selection 10002 (Suc 0) = [0..<10002]"
    by (simp add: spec_line_selection_def Let_def)
  have "map (\<lambda>i. replicate 10002 (0::real) ! i) [0..<10002] = replicate 10002 0"
    by (rule nth_equalityI) auto
  then show ?thesis
    using simplify_line_eq[of "replicate 10002 (0::real)" "[0..<10002]"]
    by (simp add: st sel)
qed

section \<open>Scatter subsampling (claim C7)\<close>

text \<open>
  C7. For every valid scatter input of more than 50000 points, \<^verbatim>\<open>process_scatter_data\<close>
  returns, and the vertex, size and colour buffers it registers hold the rows of the full
  vertex, size and colour arrays at one and the same list of indices: the multiples
  \<open>0, stride, 2 * stride, \<dots>\<close> of \<open>stride = max(1, n // 50000)\<close> below \<open>n\<close>. So output point \<open>i\<close>
  is input point \<open>i * stride\<close> in all three buffers.
\<close>

theorem scatter_subsampling_one_index_set:
  assumes "50000 < length x" and "scatter_valid x y c s"
  shows "let n = length x;
             stride = spec_stride n 50000;
             sel = spec_scatter_selection n stride;
             vertices = column_stack3 x y (replicate n 0);
             sizes = scatter_sizes n s;
             (channels, colors) = scatter_colors n c
         in process_scatter_data st x y c s =
              Inr (scatter_result st (map (\<lambda>i. vertices ! i) sel) (map (\<lambda>i. sizes ! i) sel)
                     channels (map (\<lambda>i. colors ! i) sel))
          \<and> sel = map (\<lambda>k. k * stride) [0..<length sel]
          \<and> list_all (\<lambda>i. i < n) sel
          \<and> length vertices = n \<and> length sizes = n \<and> length colors = n"
proof -
  let ?n = "length x"
  let ?s = "max 1 (?n div 50000)"
  have s: "0 < ?s" by simp
  have ylen: "length y = ?n"
    and cok: "(case c of None \<Rightarrow> False | Some ca \<Rightarrow> color_len ca \<noteq> ?n) = False"
    and sok: "(case s of Some (SizeArray a) \<Rightarrow> length a \<noteq> ?n | _ \<Rightarrow> False) = False"
    using assms(2) by (auto simp: scatter_valid_def split: option.splits size_arg.splits)
  have sel: "spec_scatter_selection ?n (spec_stride ?n 50000) = np_arange 0 ?n ?s"
    unfolding spec_scatter_selection_def spec_stride_def by (rule np_arange_filter[OF s, symmetric])
  obtain k cols where kc: "scatter_colors ?n c = (k, cols)" by (cases "scatter_colors ?n c")
  have 1: "process_scatter_data st x y c s =
     Inr (scatter_result st
           (map (\<lambda>i. column_stack3 x y (replicate ?n 0) ! i) (np_arange 0 ?n ?s))
           (map (\<lambda>i. scatter_sizes ?n s ! i) (np_arange 0 ?n ?s))
           k (map (\<lambda>i. cols ! i) (np_arange 0 ?n ?s)))"
    using process_scatter_sampled[OF assms(1) ylen cok sok, of st] by (simp add: kc)
  have 2: "np_arange 0 ?n ?s = map (\<lambda>k. k * ?s) [0..<length (np_arange 0 ?n ?s)]"
    by (simp add: np_arange_def)
  have 3: "list_all (\<lambda>i. i < ?n) (np_arange 0 ?n ?s)" by (rule np_arange_bound[OF s])
  have 4: "length cols = ?n" using length_scatter_colors[OF cok] by (simp add: kc)
  show ?thesis
    unfolding Let_def sel kc prod.case
    using 1 2 3 4 length_scatter_sizes[OF sok]
    by (simp add: length_column_stack3 spec_stride_def)
qed

text \<open>
  The theorem at 100000 points with default sizes and colours: the stride is 2 and 50000
  points are kept.
\<close>

theorem scatter_subsampling_one_index_set_witness:
  "50000 < length (replicate 100000 (0::real))
   \<and> scatter_valid (replicate 100000 0) (replicate 100000 0) None None
   \<and> process_scatter_data (empty_world, new_zero_copy_pipeline)
        (replicate 100000 0) (replicate 100000 0) None None =
      Inr (scatter_result (empty_world, new_zero_copy_pipeline)
            (map (\<lambda>i. column_stack3 (replicate 100000 0) (replicate 100000 0) (replicate 100000 0) ! i)
               (spec_scatter_selection 100000 2))
            (map (\<lambda>i. replicate 100000 10 ! i) (spec_scatter_selection 100000 2))
            4
            (map (\<lambda>i. replicate 100000 [0.2, 0.6, 1.0, 1.0] ! i) (spec_scatter_selection 100000 2)))
   \<and> length (spec_scatter_selection 100000 2) = 50000"
proof -
  have h1: "50000 < length (replicate 100000 (0::real))" by simp
  have h2: "scatter_valid (replicate 100000 0) (replicate 100000 0) None None"
    by (simp add: scatter_valid_def)
  have st: "spec_stride 100000 50000 = 2" by (simp add: spec_stride_def)
  have len: "length (spec_scatter_selection 100000 2) = 50000"
    unfolding spec_scatter_selection_def
    using np_arange_filter[of 2 100000, symmetric] by (simp add: length_np_arange)
  from scatter_subsampling_one_index_set[OF h1 h2, of "(empty_world, new_zero_copy_pipeline)"]
  have "process_scatter_data (empty_world, new_zero_copy_pipeline)
        (replicate 100000 0) (replicate 100000 0) None None =
      Inr (scatter_result (empty_world, new_zero_copy_pipeline)
            (map (\<lambda>i. column_stack3 (replicate 100000 0) (replicate 100000 0) (replicate 100000 0) ! i)
               (spec_scatter_selection 100000 2))
            (map (\<lambda>i. replicate 100000 10 ! i) (spec_scatter_selection 100000 2))
            4
            (map (\<lambda>i. replicate 100000 [0.2, 0.6, 1.0, 1.0] ! i) (spec_scatter_selection 100000 2)))"
    by (simp add: Let_def st scatter_sizes_def scatter_colors_def)
  with h1 h2 len show ?thesis by blast
qed

section \<open>Buffer names (claim C1)\<close>

lemma create_buffer_eq:
  "create_buffer name d t (w, z) =
     (length (buffer_objs w),
      w\<lparr>buffer_objs := buffer_objs w @ [new_data_buffer d t]\<rparr>,
      z\<lparr>buffers := AList.update name (length (buffer_objs w)) (buffers z)\<rparr>)"
  by (simp add: create_buffer_def alloc_def)

lemma restrict_update_other:
  "k \<notin> D \<Longrightarrow> AList.restrict D (AList.update k v al) = AList.restrict D al"
  by (induction al) (auto simp: AList.restrict_eq)

lemma registered_two:
  assumes "n1 \<noteq> n2" "k1 \<noteq> k2"
  shows "registered_as [(n1, k1), (n2, k2)] (w, z)
           ((k1, PBuf (length (buffer_objs w))) # (k2, PBuf (Suc (length (buffer_objs w)))) # rest)
           (w\<lparr>buffer_objs := buffer_objs w @ [b1, b2]\<rparr>,
            z\<lparr>buffers := AList.update n2 (Suc (length (buffer_objs w)))
                 (AList.update n1 (length (buffer_objs w)) (buffers z))\<rparr>)"
  using assms
  by (simp add: registered_as_def Let_def upt_rec update_conv' restrict_update_other)

lemma registered_three:
  assumes "distinct [n1, n2, n3]" "distinct [k1, k2, k3]"
  shows "registered_as [(n1, k1), (n2, k2), (n3, k3)] (w, z)
           ((k1, PBuf (length (buffer_objs w))) # (k2, PBuf (Suc (length (buffer_objs w))))
              # (k3, PBuf (Suc (Suc (length (buffer_objs w))))) # rest)
           (w\<lparr>buffer_objs := buffer_objs w @ [b1, b2, b3]\<rparr>,
            z\<lparr>buffers := AList.update n3 (Suc (Suc (length (buffer_objs w))))
                 (AList.update n2 (Suc (length (buffer_objs w)))
                 (AList.update n1 (length (buffer_objs w)) (buffers z)))\<rparr>)"
  using assms
  by (auto simp add: registered_as_def Let_def upt_rec update_conv' restrict_update_other)

lemma process_line_registered:
  assumes "process_line_data s x y = Inr (p, s')"
  shows "registered_as [(''line_vertices'', ''vertices''), (''line_indices'', ''indices'')] s p s'"
  using assms unfolding process_line_data_def Let_def
  by (cases s) (auto simp: create_buffer_eq registered_two split: if_splits sum.splits prod.splits)

lemma process_bar_registered:
  assumes "process_bar_data s x h = Inr (p, s')"
  shows "registered_as [(''bar_vertices'', ''vertices''), (''bar_indices'', ''indices'')] s p s'"
  using assms unfolding process_bar_data_def Let_def
  by (cases s) (auto simp: create_buffer_eq registered_two split: if_splits sum.splits prod.splits)

lemma process_histogram_registered:
  assumes "process_histogram_data np_histogram s d bins = Inr (p, s')"
  shows "registered_as [(''bar_vertices'', ''vertices''), (''bar_indices'', ''indices'')] s p s'"
  using assms unfolding process_histogram_data_def Let_def
  by (auto split: sum.splits prod.splits intro: process_bar_registered)

lemma process_scatter_registered:
  assumes "process_scatter_data s x y c sz = Inr (p, s')"
  shows "registered_as [(''scatter_vertices'', ''vertices''), (''scatter_sizes'', ''sizes''), (''scatter_colors'', ''colors'')] s p s'"
  using assms unfolding process_scatter_data_def Let_def
  by (cases s) (auto simp: create_buffer_eq registered_three split: if_splits sum.splits prod.splits)

lemma run_call_registered:
  "run_call np_histogram s c = Inr (p, s') \<Longrightarrow> registered_as (buffer_names c) s p s'"
  by (cases c) (simp_all add: process_line_registered process_scatter_registered
      process_bar_registered process_histogram_registered)

text \<open>
  C1. Every buffer a pipeline entry point registers is registered under a fixed literal
  name that depends on the entry point alone (\<^verbatim>\<open>line_vertices\<close>, \<^verbatim>\<open>line_indices\<close>;
  \<^verbatim>\<open>scatter_vertices\<close>, \<^verbatim>\<open>scatter_sizes\<close>, \<^verbatim>\<open>scatter_colors\<close>; \<^verbatim>\<open>bar_vertices\<close>,
  \<^verbatim>\<open>bar_indices\<close> for bars and histograms), not on a node id. Each call appends new buffer
  objects and binds its names to them. So of two successive calls with the same names the
  second rebinds every name of the first to its own buffers; the buffer objects of the first
  call stay as they were in the heap, held by the payload the first call returned.
\<close>

theorem successive_calls_rebind_fixed_names:
  assumes "run_call np_histogram s c1 = Inr (p1, s1)"
    and "run_call np_histogram s1 c2 = Inr (p2, s2)"
    and "buffer_names c2 = buffer_names c1"
  shows "registered_as (buffer_names c1) s p1 s1
       \<and> registered_as (buffer_names c1) s1 p2 s2
       \<and> (let k = length (buffer_names c1);
               b1 = length (buffer_objs (fst s));
               b2 = length (buffer_objs (fst s1))
           in b2 = b1 + k
            \<and> map (\<lambda>nk. map_of (buffers (snd s1)) (fst nk)) (buffer_names c1) = map Some [b1..<b1 + k]
            \<and> map (\<lambda>nk. map_of (buffers (snd s2)) (fst nk)) (buffer_names c1) = map Some [b2..<b2 + k]
            \<and> map (\<lambda>nk. map_of p1 (snd nk)) (buffer_names c1) = map (\<lambda>r. Some (PBuf r)) [b1..<b1 + k]
            \<and> take b2 (buffer_objs (fst s2)) = buffer_objs (fst s1))"
proof -
  have 1: "registered_as (buffer_names c1) s p1 s1" by (rule run_call_registered[OF assms(1)])
  have 2: "registered_as (buffer_names c1) s1 p2 s2"
    using run_call_registered[OF assms(2)] by (simp add: assms(3))
  show ?thesis using 1 2 by (simp add: registered_as_def Let_def)
qed

text \<open>
  The theorem at two line plots of two points each, from the empty registry: after the
  second call the two names are bound to buffers 2 and 3.
\<close>

theorem successive_calls_rebind_fixed_names_witness:
  "run_call (\<lambda>d bins. Inl (ValueError [])) (empty_world, new_zero_copy_pipeline) (LineCall [0, 1] [0, 1]) =
     Inr ([(''vertices'', PBuf 0), (''indices'', PBuf 1),
           (''primitive_type'', PStr ''line_strip''), (''count'', PInt 2)], line_state_1)
   \<and> run_call (\<lambda>d bins. Inl (ValueError [])) line_state_1 (LineCall [5, 6] [7, 8]) =
     Inr ([(''vertices'', PBuf 2), (''indices'', PBuf 3),
           (''primitive_type'', PStr ''line_strip''), (''count'', PInt 2)], line_state_2)
   \<and> buffer_names (LineCall [5, 6] [7, 8]) = buffer_names (LineCall [0, 1] [0, 1])
   \<and> registered_as [(''line_vertices'', ''vertices''), (''line_indices'', ''indices'')]
        line_state_1
        [(''vertices'', PBuf 2), (''indices'', PBuf 3),
         (''primitive_type'', PStr ''line_strip''), (''count'', PInt 2)]
        line_state_2
   \<and> map_of (buffers (snd line_state_2)) ''line_vertices'' = Some 2"
proof -
  have a: "run_call (\<lambda>d bins. Inl (ValueError [])) (empty_world, new_zero_copy_pipeline) (LineCall [0, 1] [0, 1]) =
     Inr ([(''vertices'', PBuf 0), (''indices'', PBuf 1),
           (''primitive_type'', PStr ''line_strip''), (''count'', PInt 2)], line_state_1)"
    by (simp add: process_line_data_def column_stack3_def create_buffer_eq upt_rec
      empty_world_def new_zero_copy_pipeline_def Let_def line_state_1_def)
  have b: "run_call (\<lambda>d bins. Inl (ValueError [])) line_state_1 (LineCall [5, 6] [7, 8]) =
     Inr ([(''vertices'', PBuf 2), (''indices'', PBuf 3),
           (''primitive_type'', PStr ''line_strip''), (''count'', PInt 2)], line_state_2)"
    by (simp add: process_line_data_def column_stack3_def create_buffer_eq upt_rec
      empty_world_def new_zero_copy_pipeline_def Let_def line_state_1_def line_state_2_def)
  have c: "buffer_names (LineCall [5, 6] [7, 8]) = buffer_names (LineCall [0, 1] [0, 1])" by simp
  from successive_calls_rebind_fixed_names[OF a b c] have
    "registered_as (buffer_names (LineCall [0, 1] [0, 1])) line_state_1
        [(''vertices'', PBuf 2), (''indices'', PBuf 3),
         (''primitive_type'', PStr ''line_strip''), (''count'', PInt 2)]
        line_state_2"
    by blast
  moreover have "map_of (buffers (snd line_state_2)) ''line_vertices'' = Some 2"
    by (simp add: line_state_2_def)
  ultimately show ?thesis using a b c by simp
qed

text \<open>
  C1 as stated fails: two successive line plots register their vertex buffers under the
  same name \<^verbatim>\<open>line_vertices\<close>. The first call binds it to buffer 0; after the second call
  it is bound to buffer 2, and the registry holds no entry for the first call's buffers.
\<close>

theorem line_buffers_overwritten_counterexample:
  "(case process_line_data (empty_world, new_zero_copy_pipeline) [0, 1] [0, 1] of
      Inl e \<Rightarrow> False
    | Inr (p1, w1, z1) \<Rightarrow>
        (case process_line_data (w1, z1) [5, 6] [7, 8] of
           Inl e \<Rightarrow> False
         | Inr (p2, w2, z2) \<Rightarrow>
             map_of p1 ''vertices'' = Some (PBuf 0)
           \<and> buffers z1 = [(''line_vertices'', 0), (''line_indices'', 1)]
           \<and> map_of p2 ''vertices'' = Some (PBuf 2)
           \<and> buffers z2 = [(''line_vertices'', 2), (''line_indices'', 3)]
           \<and> map_of (buffers z2) ''line_vertices'' \<noteq> Some 0))"
  by (simp add: process_line_data_def column_stack3_def create_buffer_eq upt_rec
      empty_world_def new_zero_copy_pipeline_def Let_def)

section \<open>The scene invariant is kept by adding, updating and removing nodes\<close>

lemma str_nat_digit: "n < 10 \<Longrightarrow> str_nat n = [digit_char n]"
  by (simp add: str_nat.simps)

lemmas eval_scene = initial_scene_def new_scene_manager_def empty_world_def alloc_def deref_def
  add_new_def add_line_def add_geometry_def add_child_def new_scene_node_def dict_update_def
  remove_node_def remove_child_def update_node_def str_nat_digit digit_char_def Let_def
  get_scene_def view_of_def

lemma wf_initial: "scene_wf (fst initial_scene) (snd initial_scene)"
  by (simp add: scene_wf_def node_ok_def eval_scene)

lemma root_not_kind_id: "kind @ ''_'' @ s \<noteq> ''root''"
proof
  assume e: "kind @ ''_'' @ s = ''root''"
  have "CHR ''_'' \<in> set (kind @ ''_'' @ s)" by simp
  then have "CHR ''_'' \<in> set ''root''" unfolding e .
  then show False by simp
qed

lemma wf_refD:
  assumes "scene_wf w sm" "map_of (nodes sm) nid = Some r"
  shows "r < length (node_objs w)"
proof -
  from assms(2) have m: "(nid, r) \<in> set (nodes sm)" by (rule map_of_SomeD)
  have "\<forall>kr\<in>set (nodes sm). snd kr < length (node_objs w)"
    using assms(1) by (simp add: scene_wf_def list_all_iff)
  from bspec[OF this m] show ?thesis by simp
qed

lemma wf_rootD:
  assumes "scene_wf w sm"
  shows "map_of (nodes sm) ''root'' = Some (root_node sm)"
    and "root_node sm < length (node_objs w)"
    and "geometry (node_objs w ! root_node sm) = None"
proof -
  show 1: "map_of (nodes sm) ''root'' = Some (root_node sm)"
    using assms by (simp add: scene_wf_def)
  show "geometry (node_objs w ! root_node sm) = None"
    using assms by (simp add: scene_wf_def)
  show "root_node sm < length (node_objs w)" by (rule wf_refD[OF assms 1])
qed

lemma wf_nodeD:
  assumes "scene_wf w sm" "r < length (node_objs w)"
  shows "node_ok (length (node_objs w)) (node_objs w ! r)"
  using assms by (simp add: scene_wf_def list_all_length)

lemma node_okD:
  assumes "node_ok len n"
  shows "distinct (children n)" and "\<And>c. c \<in> set (children n) \<Longrightarrow> c < len"
    and "\<And>p. parent n = Some p \<Longrightarrow> p < len"
  using assms by (auto simp: node_ok_def list_all_iff)

lemma node_objs_update_node: "node_objs (snd (update_node w sm nid d)) = node_objs w"
  by (simp add: update_node_def split: option.splits)

lemma wf_update_node:
  "scene_wf w sm \<Longrightarrow> scene_wf (snd (update_node w sm nid d)) sm"
  unfolding scene_wf_def node_objs_update_node by assumption

lemma node_ok_mono: "node_ok a n \<Longrightarrow> a \<le> b \<Longrightarrow> node_ok b n"
  by (auto simp: node_ok_def list_all_iff split: option.splits)

lemma list_all_update:
  "list_all P xs \<Longrightarrow> P v \<Longrightarrow> list_all P (xs[i := v])"
  by (induction xs arbitrary: i) (auto split: nat.splits)

lemma geometry_nth_update:
  "geometry v = geometry (xs ! i) \<Longrightarrow> geometry (xs[i := v] ! r) = geometry (xs ! r)"
  by (cases "i = r"; cases "i < length xs") (simp_all add: list_update_beyond)

lemma set_alist_update: "set (AList.update k v al) \<subseteq> insert (k, v) (set al)"
  by (induction al) auto

lemma wf_remove_child:
  assumes "list_all (node_ok (length (node_objs w))) (node_objs w)"
  shows "list_all (node_ok (length (node_objs (remove_child w p c)))) (node_objs (remove_child w p c))"
    and "length (node_objs (remove_child w p c)) = length (node_objs w)"
    and "r < length (node_objs w) \<Longrightarrow> geometry (node_objs (remove_child w p c) ! r) = geometry (node_objs w ! r)"
proof -
  let ?h = "node_objs w"
  let ?h1 = "?h[c := (?h ! c)\<lparr>parent := None\<rparr>]"
  let ?h2 = "?h1[p := (?h1 ! p)\<lparr>children := remove1 c (children (?h1 ! p))\<rparr>]"
  have ok: "\<And>i. i < length ?h \<Longrightarrow> node_ok (length ?h) (?h ! i)"
    using assms by (simp add: list_all_length)
  have ok1: "list_all (node_ok (length ?h)) ?h1"
  proof (cases "c < length ?h")
    case True
    have "node_ok (length ?h) ((?h ! c)\<lparr>parent := None\<rparr>)"
      using ok[OF True] by (simp add: node_ok_def)
    then show ?thesis using assms by (rule list_all_update[rotated])
  next
    case False then show ?thesis using assms by (simp add: list_update_beyond)
  qed
  have ok2: "list_all (node_ok (length ?h)) ?h2"
  proof (cases "p < length ?h")
    case True
    then have "node_ok (length ?h) (?h1 ! p)" using ok1 by (simp add: list_all_length)
    then have "node_ok (length ?h) ((?h1 ! p)\<lparr>children := remove1 c (children (?h1 ! p))\<rparr>)"
      by (auto simp: node_ok_def list_all_iff dest: notin_set_remove1)
    then show ?thesis using ok1 by (rule list_all_update[rotated])
  next
    case False then show ?thesis using ok1 by (simp add: list_update_beyond)
  qed
  show "list_all (node_ok (length (node_objs (remove_child w p c)))) (node_objs (remove_child w p c))"
    using ok2 assms by (simp add: remove_child_def Let_def split: option.splits)
  show "length (node_objs (remove_child w p c)) = length (node_objs w)"
    by (simp add: remove_child_def Let_def split: option.splits)
  show "r < length (node_objs w) \<Longrightarrow> geometry (node_objs (remove_child w p c) ! r) = geometry (node_objs w ! r)"
    by (simp add: remove_child_def Let_def geometry_nth_update split: option.splits)
qed

lemma wf_remove_node:
  assumes "scene_wf w sm"
  shows "scene_wf (fst (snd (remove_node w sm nid))) (snd (snd (remove_node w sm nid)))"
proof (cases "map_of (nodes sm) nid")
  case None
  then show ?thesis using assms by (simp add: remove_node_def)
next
  case (Some r)
  show ?thesis
  proof (cases "nid = ''root''")
    case True
    then show ?thesis using assms Some by (simp add: remove_node_def)
  next
    case False
    define w1 where "w1 = (case deref (node_objs w) r of
                        None \<Rightarrow> w
                      | Some node \<Rightarrow>
                          (case parent node of None \<Rightarrow> w | Some p \<Rightarrow> remove_child w p r))"
    have rn: "remove_node w sm nid = (True, w1, sm\<lparr>nodes := AList.delete nid (nodes sm)\<rparr>)"
      using Some False by (simp add: remove_node_def w1_def Let_def)
    have ok: "list_all (node_ok (length (node_objs w))) (node_objs w)"
      using assms by (simp add: scene_wf_def)
    have len: "length (node_objs w1) = length (node_objs w)"
      unfolding w1_def by (simp add: wf_remove_child(2)[OF ok] split: option.splits)
    have ok1: "list_all (node_ok (length (node_objs w1))) (node_objs w1)"
      unfolding w1_def using ok by (simp add: wf_remove_child(1)[OF ok] split: option.splits)
    have geo: "geometry (node_objs w1 ! root_node sm) = None"
      unfolding w1_def using wf_rootD[OF assms]
      by (simp add: wf_remove_child(3)[OF ok] split: option.splits)
    have "map_of (AList.delete nid (nodes sm)) ''root'' = Some (root_node sm)"
      using False wf_rootD(1)[OF assms] by (simp add: delete_conv')
    moreover have "distinct (map fst (AList.delete nid (nodes sm)))"
      using assms by (simp add: scene_wf_def distinct_delete)
    moreover have "list_all (\<lambda>kr. snd kr < length (node_objs w1)) (AList.delete nid (nodes sm))"
      using assms unfolding len by (auto simp: scene_wf_def list_all_iff AList.delete_eq)
    ultimately show ?thesis using geo ok1 by (simp add: rn scene_wf_def)
  qed
qed

lemma wf_add_geometry:
  assumes "scene_wf w sm"
  shows "scene_wf (fst (snd (add_geometry kind w sm dref kwargs))) (snd (snd (add_geometry kind w sm dref kwargs)))"
proof -
  let ?h = "node_objs w"
  let ?r = "length ?h"
  let ?root = "root_node sm"
  let ?nid = "kind @ ''_'' @ str_nat (length (nodes sm))"
  define node where "node = (new_scene_node ?nid ''geometry'')
                   \<lparr>geometry := Some \<lparr>geometry_type = kind, node_data = dref,
                                        material_properties = length (dict_objs w)\<rparr>\<rparr>"
  let ?hn = "?h @ [node]"
  let ?h1 = "?hn[?r := (?hn ! ?r)\<lparr>parent := Some ?root\<rparr>]"
  let ?h2 = "?h1[?root := (?h1 ! ?root)\<lparr>children := children (?h1 ! ?root) @ [?r]\<rparr>]"
  have res: "fst (snd (add_geometry kind w sm dref kwargs)) =
               w\<lparr>dict_objs := dict_objs w @ [dict_update [] kwargs], node_objs := ?h2\<rparr>"
      "snd (snd (add_geometry kind w sm dref kwargs)) = sm\<lparr>nodes := AList.update ?nid ?r (nodes sm)\<rparr>"
    by (simp_all add: add_geometry_def alloc_def add_child_def Let_def node_def)
  have root: "?root < ?r" by (rule wf_rootD(2)[OF assms])
  have ok: "list_all (node_ok ?r) ?h" using assms by (simp add: scene_wf_def)
  have len2: "length ?h2 = Suc ?r" by simp
  have okn: "node_ok (Suc ?r) node" by (simp add: node_def new_scene_node_def node_ok_def)
  have "list_all (node_ok (Suc ?r)) ?h"
    using ok by (auto simp: list_all_iff intro: node_ok_mono)
  then have ok0: "list_all (node_ok (Suc ?r)) ?hn" using okn by simp
  have ok1: "list_all (node_ok (Suc ?r)) ?h1"
  proof -
    have "node_ok (Suc ?r) ((?hn ! ?r)\<lparr>parent := Some ?root\<rparr>)"
      using root by (simp add: node_def new_scene_node_def node_ok_def)
    then show ?thesis using ok0 by (rule list_all_update[rotated])
  qed
  have ok2: "list_all (node_ok (Suc ?r)) ?h2"
  proof -
    have a: "node_ok ?r (?h ! ?root)" using ok root by (simp add: list_all_length)
    have e: "?h1 ! ?root = ?h ! ?root" using root by (simp add: nth_append)
    have "node_ok (Suc ?r) ((?h1 ! ?root)\<lparr>children := children (?h1 ! ?root) @ [?r]\<rparr>)"
      unfolding e using a by (auto simp: node_ok_def list_all_iff split: option.splits)
    then show ?thesis using ok1 by (rule list_all_update[rotated])
  qed
  have geo: "geometry (?h2 ! ?root) = None"
    using root wf_rootD(3)[OF assms] by (simp add: nth_append)
  have m: "map_of (AList.update ?nid ?r (nodes sm)) ''root'' = Some ?root"
    using wf_rootD(1)[OF assms] root_not_kind_id[of kind "str_nat (length (nodes sm))"]
    by (auto simp add: update_conv')
  have d: "distinct (map fst (AList.update ?nid ?r (nodes sm)))"
    using assms by (simp add: scene_wf_def distinct_update)
  have v: "list_all (\<lambda>kr. snd kr < Suc ?r) (AList.update ?nid ?r (nodes sm))"
  proof -
    have "set (AList.update ?nid ?r (nodes sm)) \<subseteq> insert (?nid, ?r) (set (nodes sm))"
      by (rule set_alist_update)
    moreover have "\<forall>kr\<in>set (nodes sm). snd kr < ?r" using assms by (simp add: scene_wf_def list_all_iff)
    ultimately show ?thesis by (fastforce simp: list_all_iff)
  qed
  show ?thesis unfolding res scene_wf_def using m d v geo ok2 by (simp del: list_update.simps)
qed

lemma children_nth_update:
  "children v = children (xs ! i) \<Longrightarrow> children (xs[i := v] ! r) = children (xs ! r)"
  by (cases "i = r"; cases "i < length xs") (simp_all add: list_update_beyond)

lemma remove_child_children:
  assumes "p < length (node_objs w)"
  shows "children (node_objs (remove_child w p c) ! p) = remove1 c (children (node_objs w ! p))"
proof (cases "c \<in> set (children (node_objs w ! p))")
  case True
  let ?h = "node_objs w"
  let ?h1 = "?h[c := (?h ! c)\<lparr>parent := None\<rparr>]"
  have c1: "children (?h1 ! p) = children (?h ! p)" by (rule children_nth_update) simp
  have "remove_child w p c = w\<lparr>node_objs := ?h1[p := (?h1 ! p)\<lparr>children := remove1 c (children (?h1 ! p))\<rparr>]\<rparr>"
    using True assms by (simp add: remove_child_def deref_def Let_def)
  then show ?thesis using assms by (simp add: c1)
next
  case False
  then have "remove_child w p c = w" using assms by (simp add: remove_child_def deref_def)
  then show ?thesis using False by (simp add: remove1_idem)
qed

lemma scene_items_keys: "fst ` set (fst (scene_items w ns)) \<subseteq> fst ` set ns"
proof (induction ns arbitrary: w)
  case Nil
  then show ?case by simp
next
  case (Cons a ns)
  obtain nid r where a: "a = (nid, r)" by (cases a)
  show ?case
  proof (cases "nid \<noteq> ''root''")
    case False
    then show ?thesis using Cons.IH[of w] by (auto simp: a)
  next
    case True
    show ?thesis
    proof (cases "deref (node_objs w) r")
      case None
      then show ?thesis using True Cons.IH[of w] by (auto simp: a)
    next
      case (Some n)
      obtain v w1 where v: "view_of w n = (v, w1)" by (cases "view_of w n")
      obtain vs w2 where vs: "scene_items w1 ns = (vs, w2)" by (cases "scene_items w1 ns")
      have "fst ` set vs \<subseteq> fst ` set ns" using Cons.IH[of w1] by (simp add: vs)
      then show ?thesis using True Some by (auto simp: a v vs)
    qed
  qed
qed

lemma remove_root_refused: "remove_node w sm ''root'' = (False, w, sm)"
  by (simp add: remove_node_def split: option.splits)

lemma remove_node_known:
  assumes "map_of (nodes sm) nid = Some r" "nid \<noteq> ''root''" "r < length (node_objs w)"
  shows "remove_node w sm nid =
           (True,
            (case parent (node_objs w ! r) of None \<Rightarrow> w | Some p \<Rightarrow> remove_child w p r),
            sm\<lparr>nodes := AList.delete nid (nodes sm)\<rparr>)"
  using assms by (simp add: remove_node_def deref_def Let_def)

lemma wf_apply_op:
  assumes "scene_wf (fst s) (snd s)"
  shows "scene_wf (fst (snd (apply_op s op))) (snd (snd (apply_op s op)))"
proof -
  obtain w sm where s: "s = (w, sm)" by (cases s)
  have wf: "scene_wf w sm" using assms by (simp add: s)
  have add: "\<And>kind d kw. scene_wf (fst (snd (add_new (add_geometry kind) s d kw)))
                                   (snd (snd (add_new (add_geometry kind) s d kw)))"
  proof -
    fix kind d kw
    have wf': "scene_wf (w\<lparr>dict_objs := dict_objs w @ [d]\<rparr>) sm"
      using wf by (simp add: scene_wf_def)
    show "scene_wf (fst (snd (add_new (add_geometry kind) s d kw)))
                   (snd (snd (add_new (add_geometry kind) s d kw)))"
      using wf_add_geometry[OF wf', of kind "length (dict_objs w)" kw]
      by (simp add: add_new_def s alloc_def Let_def split_beta)
  qed
  show ?thesis
  proof (cases op)
    case (UpdateNode nid d)
    then show ?thesis using wf_update_node[OF wf, of nid d]
      by (simp add: s split_beta)
  next
    case (RemoveNode nid)
    then show ?thesis using wf_remove_node[OF wf, of nid]
      by (simp add: s split_beta)
  qed (simp_all add: add add_line_def add_scatter_def add_bar_def add_histogram_def)
qed

lemma wf_run_ops:
  "scene_wf (fst s) (snd s) \<Longrightarrow> scene_wf (fst (snd (run_ops s ops))) (snd (snd (run_ops s ops)))"
proof (induction ops arbitrary: s)
  case Nil
  then show ?case by simp
next
  case (Cons op ops)
  have "scene_wf (fst (snd (apply_op s op))) (snd (snd (apply_op s op)))"
    by (rule wf_apply_op[OF Cons.prems])
  from Cons.IH[OF this] show ?case by (simp add: split_beta Let_def)
qed

lemma wf_reachable:
  "scene_wf (fst (snd (run_ops initial_scene ops))) (snd (snd (run_ops initial_scene ops)))"
  by (rule wf_run_ops[OF wf_initial])

lemma dict_objs_remove_child: "dict_objs (remove_child w p c) = dict_objs w"
  by (simp add: remove_child_def Let_def split: option.splits)

lemma dict_objs_remove_node: "dict_objs (fst (snd (remove_node w sm nid))) = dict_objs w"
  by (simp add: remove_node_def Let_def dict_objs_remove_child split: option.splits)

lemma dict_objs_remove_nodes: "dict_objs (fst (remove_nodes s nids)) = dict_objs (fst s)"
proof (induction nids arbitrary: s)
  case Nil
  then show ?case by simp
next
  case (Cons nid nids)
  show ?case by (simp add: Cons.IH dict_objs_remove_node)
qed

lemma scene_contents_cong:
  "dict_objs w2 = dict_objs w1 \<Longrightarrow> scene_contents w2 sc = scene_contents w1 sc"
  by (simp add: scene_contents_def show_node_def)

lemma node_objs_view_of: "node_objs (snd (view_of w n)) = node_objs w"
  by (simp add: view_of_def alloc_def Let_def split: option.splits)

lemma node_objs_scene_items: "node_objs (snd (scene_items w ns)) = node_objs w"
proof (induction ns arbitrary: w)
  case Nil
  then show ?case by simp
next
  case (Cons a ns)
  obtain nid r where a: "a = (nid, r)" by (cases a)
  show ?case
    using Cons.IH[of w] Cons.IH[of "snd (view_of w (node_objs w ! r))"]
    by (simp add: a split_beta Let_def deref_def node_objs_view_of)
qed

lemma view_of_copies: "copies_node n (fst (view_of w n))"
  by (simp add: view_of_def copies_node_def alloc_def Let_def split: option.splits)

lemma scene_items_shape:
  assumes "list_all (\<lambda>kr. snd kr < length (node_objs w)) ns"
  shows "map fst (fst (scene_items w ns)) = filter (\<lambda>k. k \<noteq> ''root'') (map fst ns)"
  using assms
proof (induction ns arbitrary: w)
  case Nil
  then show ?case by simp
next
  case (Cons a ns)
  obtain nid r where a: "a = (nid, r)" by (cases a)
  have r: "r < length (node_objs w)" using Cons.prems by (simp add: a)
  have rest: "list_all (\<lambda>kr. snd kr < length (node_objs w)) ns" using Cons.prems by simp
  have rest': "list_all (\<lambda>kr. snd kr < length (node_objs (snd (view_of w (node_objs w ! r))))) ns"
    using rest by (simp add: node_objs_view_of)
  show ?case
    using Cons.IH[OF rest] Cons.IH[OF rest'] r
    by (simp add: a split_beta Let_def deref_def)
qed

lemma scene_items_lookup:
  assumes "list_all (\<lambda>kr. snd kr < length (node_objs w)) ns"
    and "map_of (fst (scene_items w ns)) nid = Some v"
  shows "nid \<noteq> ''root'' \<and> (\<exists>r. map_of ns nid = Some r \<and> copies_node (node_objs w ! r) v)"
  using assms
proof (induction ns arbitrary: w)
  case Nil
  then show ?case by simp
next
  case (Cons a ns)
  obtain k r where a: "a = (k, r)" by (cases a)
  have r: "r < length (node_objs w)" using Cons.prems(1) by (simp add: a)
  have rest: "list_all (\<lambda>kr. snd kr < length (node_objs w)) ns" using Cons.prems(1) by simp
  let ?w1 = "snd (view_of w (node_objs w ! r))"
  have n1: "node_objs ?w1 = node_objs w" by (rule node_objs_view_of)
  have rest': "list_all (\<lambda>kr. snd kr < length (node_objs ?w1)) ns"
    using rest by (simp add: n1)
  show ?case
  proof (cases "k = ''root''")
    case True
    then have "map_of (fst (scene_items w ns)) nid = Some v" using Cons.prems(2) by (simp add: a)
    from Cons.IH[OF rest this] show ?thesis using True by (auto simp: a)
  next
    case False
    have items: "fst (scene_items w (a # ns)) =
                   (k, fst (view_of w (node_objs w ! r))) # fst (scene_items ?w1 ns)"
      using False r by (simp add: a split_beta Let_def deref_def)
    show ?thesis
    proof (cases "nid = k")
      case True
      then have "v = fst (view_of w (node_objs w ! r))" using Cons.prems(2) by (simp add: items)
      then show ?thesis using True False view_of_copies[of "node_objs w ! r" w] by (simp add: a)
    next
      case nk: False
      then have "map_of (fst (scene_items ?w1 ns)) nid = Some v"
        using Cons.prems(2) by (simp add: items)
      from Cons.IH[OF rest' this] show ?thesis using nk by (simp add: a n1)
    qed
  qed
qed

lemmas eval_snapshot = eval_scene one_line_scene_def one_line_snapshot_def
  scene_contents_def show_node_def

lemma one_line_scene_eq:
  "one_line_scene =
     (\<lparr>buffer_objs = [], dict_objs = [[], [], [(''count'', PInt 4)], [(''color'', PStr ''green'')]],
       node_objs =
         [(new_scene_node ''root'' ''root'')\<lparr>children := [1]\<rparr>,
          (new_scene_node ''line_1'' ''geometry'')
            \<lparr>parent := Some 0,
             geometry := Some \<lparr>geometry_type = ''line'', node_data = 2, material_properties = 3\<rparr>\<rparr>],
       shader_objs = []\<rparr>,
      \<lparr>root_node = 0, nodes = [(''root'', 0), (''line_1'', 1)],
       camera_settings = 0, lighting_settings = 1\<rparr>)"
  by (simp add: eval_snapshot)

lemma wf_one_line: "scene_wf (fst one_line_scene) (snd one_line_scene)"
  unfolding one_line_scene_def by (rule wf_reachable)

lemma one_line_get_scene:
  "get_scene (fst one_line_scene) (snd one_line_scene) = (one_line_snapshot, fst one_line_scene)"
  by (simp add: one_line_scene_eq get_scene_def view_of_def deref_def new_scene_node_def
      one_line_snapshot_def)

lemma data_refs_okI:
  assumes "\<And>i g. i < length (node_objs w) \<Longrightarrow> geometry (node_objs w ! i) = Some g \<Longrightarrow>
             node_data g < length (dict_objs w) \<and> material_properties g < length (dict_objs w)"
  shows "data_refs_ok w"
  unfolding data_refs_ok_def list_all_length
  using assms by (auto split: option.splits)

lemma data_refs_okD:
  assumes "data_refs_ok w" "i < length (node_objs w)" "geometry (node_objs w ! i) = Some g"
  shows "node_data g < length (dict_objs w)" "material_properties g < length (dict_objs w)"
proof -
  have "case geometry (node_objs w ! i) of
          None \<Rightarrow> True
        | Some g \<Rightarrow> node_data g < length (dict_objs w) \<and> material_properties g < length (dict_objs w)"
    using assms(1,2) by (simp add: data_refs_ok_def list_all_length)
  then show "node_data g < length (dict_objs w)" "material_properties g < length (dict_objs w)"
    by (simp_all add: assms(3))
qed

lemma refs_initial: "data_refs_ok (fst initial_scene)"
  by (simp add: data_refs_ok_def eval_scene)

lemma length_dict_objs_update_node:
  "length (dict_objs (snd (update_node w sm nid d))) = length (dict_objs w)"
  by (simp add: update_node_def split: option.splits)

lemma refs_update_node:
  "data_refs_ok w \<Longrightarrow> data_refs_ok (snd (update_node w sm nid d))"
  unfolding data_refs_ok_def node_objs_update_node length_dict_objs_update_node by assumption

lemma node_objs_remove_child:
  "length (node_objs (remove_child w p c)) = length (node_objs w)"
  "geometry (node_objs (remove_child w p c) ! r) = geometry (node_objs w ! r)"
  by (simp_all add: remove_child_def Let_def geometry_nth_update split: option.splits)

lemma node_objs_remove_node:
  "length (node_objs (fst (snd (remove_node w sm nid)))) = length (node_objs w)"
  "geometry (node_objs (fst (snd (remove_node w sm nid))) ! r) = geometry (node_objs w ! r)"
  by (simp_all add: remove_node_def Let_def node_objs_remove_child split: option.splits)

lemma refs_remove_node:
  assumes "data_refs_ok w"
  shows "data_refs_ok (fst (snd (remove_node w sm nid)))"
proof (rule data_refs_okI)
  fix i g
  assume "i < length (node_objs (fst (snd (remove_node w sm nid))))"
    and "geometry (node_objs (fst (snd (remove_node w sm nid))) ! i) = Some g"
  then have "i < length (node_objs w)" "geometry (node_objs w ! i) = Some g"
    by (simp_all add: node_objs_remove_node)
  from data_refs_okD[OF assms this]
  show "node_data g < length (dict_objs (fst (snd (remove_node w sm nid))))
      \<and> material_properties g < length (dict_objs (fst (snd (remove_node w sm nid))))"
    by (simp add: dict_objs_remove_node)
qed

lemma refs_add_new:
  assumes "data_refs_ok w" "root_node sm < length (node_objs w)"
  shows "data_refs_ok (fst (snd (add_new (add_geometry kind) (w, sm) d kw)))"
proof -
  let ?h = "node_objs w"
  let ?r = "length ?h"
  let ?root = "root_node sm"
  let ?n = "length (dict_objs w)"
  let ?nid = "kind @ ''_'' @ str_nat (length (nodes sm))"
  define node where "node = (new_scene_node ?nid ''geometry'')
                   \<lparr>geometry := Some \<lparr>geometry_type = kind, node_data = ?n,
                                        material_properties = Suc ?n\<rparr>\<rparr>"
  let ?hn = "?h @ [node]"
  let ?h1 = "?hn[?r := (?hn ! ?r)\<lparr>parent := Some ?root\<rparr>]"
  let ?h2 = "?h1[?root := (?h1 ! ?root)\<lparr>children := children (?h1 ! ?root) @ [?r]\<rparr>]"
  let ?w' = "fst (snd (add_new (add_geometry kind) (w, sm) d kw))"
  have no: "node_objs ?w' = ?h2"
    and dc: "dict_objs ?w' = dict_objs w @ [d, dict_update [] kw]"
    by (simp_all add: add_new_def add_geometry_def alloc_def add_child_def Let_def node_def)
  have g1: "\<And>i. geometry (?h1 ! i) = geometry (?hn ! i)"
    by (rule geometry_nth_update) simp
  have g2: "\<And>i. geometry (?h2 ! i) = geometry (?h1 ! i)"
    by (rule geometry_nth_update) simp
  show ?thesis
  proof (rule data_refs_okI)
    fix i g
    assume i: "i < length (node_objs ?w')" and g: "geometry (node_objs ?w' ! i) = Some g"
    have "geometry (?h2 ! i) = geometry (?hn ! i)" using g2[of i] g1[of i] by (rule trans)
    then have gi: "geometry (?hn ! i) = Some g" using g unfolding no by simp
    have il: "i < Suc ?r" using i unfolding no by simp
    have "node_data g < ?n + 2 \<and> material_properties g < ?n + 2"
    proof (cases "i = ?r")
      case True
      then have "g = \<lparr>geometry_type = kind, node_data = ?n, material_properties = Suc ?n\<rparr>"
        using gi by (simp add: node_def)
      then show ?thesis by simp
    next
      case False
      then have lt: "i < ?r" using il by simp
      then have "geometry (?h ! i) = Some g" using gi by (simp add: nth_append)
      from data_refs_okD[OF assms(1) lt this] show ?thesis by simp
    qed
    then show "node_data g < length (dict_objs ?w') \<and> material_properties g < length (dict_objs ?w')"
      unfolding dc by simp
  qed
qed

lemma refs_apply_op:
  assumes "scene_wf (fst s) (snd s)" "data_refs_ok (fst s)"
  shows "data_refs_ok (fst (snd (apply_op s op)))"
proof -
  obtain w sm where s: "s = (w, sm)" by (cases s)
  have root: "root_node sm < length (node_objs w)" using wf_rootD(2)[of w sm] assms(1) by (simp add: s)
  have r: "data_refs_ok w" using assms(2) by (simp add: s)
  show ?thesis
  proof (cases op)
    case (UpdateNode nid d)
    then show ?thesis using refs_update_node[OF r, of sm nid d] by (simp add: s split_beta)
  next
    case (RemoveNode nid)
    then show ?thesis using refs_remove_node[OF r, of sm nid] by (simp add: s split_beta)
  qed (simp_all add: s refs_add_new[OF r root] add_line_def add_scatter_def add_bar_def add_histogram_def)
qed

lemma refs_run_ops:
  "scene_wf (fst s) (snd s) \<Longrightarrow> data_refs_ok (fst s) \<Longrightarrow> data_refs_ok (fst (snd (run_ops s ops)))"
proof (induction ops arbitrary: s)
  case Nil
  then show ?case by simp
next
  case (Cons op ops)
  have a: "scene_wf (fst (snd (apply_op s op))) (snd (snd (apply_op s op)))"
    by (rule wf_apply_op[OF Cons.prems(1)])
  have b: "data_refs_ok (fst (snd (apply_op s op)))"
    by (rule refs_apply_op[OF Cons.prems])
  from Cons.IH[OF a b] show ?case by (simp add: split_beta Let_def)
qed

lemma refs_reachable: "data_refs_ok (fst (snd (run_ops initial_scene ops)))"
  by (rule refs_run_ops[OF wf_initial refs_initial])

lemma refs_one_line: "data_refs_ok (fst one_line_scene)"
  unfolding one_line_scene_def by (rule refs_reachable)

lemma dict_objs_view_of: "\<exists>ex. dict_objs (snd (view_of w n)) = dict_objs w @ ex"
  by (simp add: view_of_def alloc_def Let_def split: option.splits)

lemma dict_objs_scene_items: "\<exists>ex. dict_objs (snd (scene_items w ns)) = dict_objs w @ ex"
proof (induction ns arbitrary: w)
  case Nil
  then show ?case by simp
next
  case (Cons a ns)
  obtain nid r where a: "a = (nid, r)" by (cases a)
  let ?w1 = "snd (view_of w (node_objs w ! r))"
  obtain e1 where e1: "dict_objs ?w1 = dict_objs w @ e1" using dict_objs_view_of by blast
  obtain e2 where e2: "dict_objs (snd (scene_items ?w1 ns)) = dict_objs ?w1 @ e2"
    using Cons.IH[of ?w1] by blast
  have "dict_objs (snd (scene_items ?w1 ns)) = dict_objs w @ (e1 @ e2)"
    unfolding e2 e1 by simp
  then have "\<exists>ex. dict_objs (snd (scene_items ?w1 ns)) = dict_objs w @ ex" ..
  then show ?case using Cons.IH[of w]
    by (simp add: a split_beta Let_def deref_def)
qed

lemma map_of_shown:
  "map_of (fst (scene_contents w sc)) nid = map_option (show_node w) (map_of (scene_nodes sc) nid)"
proof -
  have "map_of (map (\<lambda>kv. (fst kv, show_node w (snd kv))) xs) nid
          = map_option (show_node w) (map_of xs nid)" for xs
    by (induction xs) auto
  then show ?thesis by (simp add: scene_contents_def)
qed

lemma snapshot_data_ref:
  assumes "scene_wf w sm" and "data_refs_ok w" and "get_scene w sm = (sc, w1)"
    and "map_of (scene_nodes sc) nid = Some v" and "v_geometry_type v \<noteq> None"
  shows "v_data v < length (dict_objs w1)"
    and "update_node w1 sm nid d =
              (Inr True,
               w1\<lparr>dict_objs := (dict_objs w1)[v_data v := dict_update (dict_objs w1 ! v_data v) d]\<rparr>)"
proof -
  have valid: "list_all (\<lambda>kr. snd kr < length (node_objs w)) (nodes sm)"
    using assms(1) by (simp add: scene_wf_def)
  have sc: "scene_nodes sc = fst (scene_items w (nodes sm))"
    and w1: "w1 = snd (scene_items w (nodes sm))"
    using assms(3) by (auto simp: get_scene_def split_beta Let_def)
  have n1: "node_objs w1 = node_objs w" unfolding w1 by (rule node_objs_scene_items)
  from scene_items_lookup[OF valid assms(4)[unfolded sc]]
  obtain r where r: "map_of (nodes sm) nid = Some r"
    and c: "copies_node (node_objs w ! r) v" by blast
  have rv: "r < length (node_objs w)" by (rule wf_refD[OF assms(1) r])
  from c assms(5) obtain g where g: "geometry (node_objs w ! r) = Some g" "v_data v = node_data g"
    by (auto simp: copies_node_def split: option.splits)
  obtain ex where ex: "dict_objs w1 = dict_objs w @ ex"
    unfolding w1 using dict_objs_scene_items by blast
  have "node_data g < length (dict_objs w)" by (rule data_refs_okD(1)[OF assms(2) rv g(1)])
  then show "v_data v < length (dict_objs w1)" unfolding ex g(2) by simp
  show "update_node w1 sm nid d =
              (Inr True,
               w1\<lparr>dict_objs := (dict_objs w1)[v_data v := dict_update (dict_objs w1 ! v_data v) d]\<rparr>)"
    using r rv g by (simp add: update_node_def deref_def n1)
qed

section \<open>Updating the root (claim C10)\<close>

text \<open>
  C10. In every well-formed scene, and so in every scene reached from a new scene manager by
  adding, updating and removing nodes, \<^verbatim>\<open>update_node\<close> with the id
  \<^verbatim>\<open>"root"\<close> and any data dictionary does not return a boolean. The root is in the id
  dictionary, but it is a plain \<^verbatim>\<open>SceneNode\<close> without a \<^verbatim>\<open>data\<close> attribute, so the merge
  raises \<^verbatim>\<open>AttributeError\<close>; the world is left as it was.
\<close>

theorem update_root_raises:
  assumes "scene_wf w sm"
  shows "update_node w sm ''root'' d = (Inl (AttributeError ''data''), w)"
  using wf_rootD[OF assms] by (simp add: update_node_def deref_def)

text \<open>
  The theorem at the scene that holds one line.
\<close>

theorem update_root_raises_witness:
  "scene_wf (fst one_line_scene) (snd one_line_scene)
   \<and> update_node (fst one_line_scene) (snd one_line_scene) ''root'' [(''count'', PInt 9)]
       = (Inl (AttributeError ''data''), fst one_line_scene)"
  using update_root_raises[OF wf_one_line] wf_one_line by simp

section \<open>Removing a node (claim C4)\<close>

text \<open>
  C4. \<^verbatim>\<open>remove_node\<close> on a known id other than \<^verbatim>\<open>"root"\<close> returns \<^verbatim>\<open>True\<close>, deletes the id
  from the id dictionary, and removes the node from the child list of its parent, which no
  longer holds it; a snapshot taken afterwards has no entry for the id, and the scene stays
  well formed. Removing the root raises nothing: the call returns \<^verbatim>\<open>False\<close> and changes
  nothing.
\<close>

theorem remove_node_detaches:
  assumes "scene_wf w sm" and "map_of (nodes sm) nid = Some r" and "nid \<noteq> ''root''"
  shows "(case remove_node w sm nid of
            (ok, w', sm') \<Rightarrow>
               ok
             \<and> nodes sm' = AList.delete nid (nodes sm)
             \<and> map_of (nodes sm') nid = None
             \<and> (case parent (node_objs w ! r) of
                  None \<Rightarrow> True
                | Some p \<Rightarrow> children (node_objs w' ! p) = remove1 r (children (node_objs w ! p))
                          \<and> r \<notin> set (children (node_objs w' ! p)))
             \<and> nid \<notin> fst ` set (scene_nodes (fst (get_scene w' sm')))
             \<and> scene_wf w' sm')
       \<and> remove_node w sm ''root'' = (False, w, sm)"
proof -
  have r: "r < length (node_objs w)" by (rule wf_refD[OF assms(1,2)])
  define w' where "w' = (case parent (node_objs w ! r) of None \<Rightarrow> w | Some p \<Rightarrow> remove_child w p r)"
  define sm' where "sm' = sm\<lparr>nodes := AList.delete nid (nodes sm)\<rparr>"
  have rn: "remove_node w sm nid = (True, w', sm')"
    unfolding w'_def sm'_def by (rule remove_node_known[OF assms(2,3) r])
  have 1: "map_of (nodes sm') nid = None" by (simp add: sm'_def delete_conv')
  have 2: "case parent (node_objs w ! r) of
                  None \<Rightarrow> True
                | Some p \<Rightarrow> children (node_objs w' ! p) = remove1 r (children (node_objs w ! p))
                          \<and> r \<notin> set (children (node_objs w' ! p))"
  proof (cases "parent (node_objs w ! r)")
    case None
    then show ?thesis by simp
  next
    case (Some p)
    have ok: "node_ok (length (node_objs w)) (node_objs w ! r)" by (rule wf_nodeD[OF assms(1) r])
    have p: "p < length (node_objs w)" by (rule node_okD(3)[OF ok Some])
    have d: "distinct (children (node_objs w ! p))"
      by (rule node_okD(1)[OF wf_nodeD[OF assms(1) p]])
    have c: "children (node_objs w' ! p) = remove1 r (children (node_objs w ! p))"
      using remove_child_children[OF p, of r] by (simp add: w'_def Some)
    moreover have "r \<notin> set (remove1 r (children (node_objs w ! p)))" using d by simp
    ultimately show ?thesis by (simp add: Some)
  qed
  have 3: "nid \<notin> fst ` set (scene_nodes (fst (get_scene w' sm')))"
  proof -
    have "fst ` set (scene_nodes (fst (get_scene w' sm'))) \<subseteq> fst ` set (nodes sm')"
      using scene_items_keys[of w' "nodes sm'"] by (simp add: get_scene_def split_beta Let_def)
    moreover have "nid \<notin> fst ` set (nodes sm')"
      by (auto simp: sm'_def AList.delete_eq)
    ultimately show ?thesis by blast
  qed
  have 4: "scene_wf w' sm'" using wf_remove_node[OF assms(1), of nid] by (simp add: rn)
  show ?thesis using 1 2 3 4 by (simp add: rn remove_root_refused) (simp add: sm'_def)
qed

text \<open>
  The theorem at the scene that holds one line, whose removal leaves the root without
  children and the id dictionary with the root alone.
\<close>

theorem remove_node_detaches_witness:
  "scene_wf (fst one_line_scene) (snd one_line_scene)
   \<and> map_of (nodes (snd one_line_scene)) ''line_1'' = Some 1
   \<and> ''line_1'' \<noteq> ''root''
   \<and> fst (remove_node (fst one_line_scene) (snd one_line_scene) ''line_1'')
   \<and> nodes (snd (snd (remove_node (fst one_line_scene) (snd one_line_scene) ''line_1'')))
        = [(''root'', 0)]
   \<and> children (node_objs (fst (snd (remove_node (fst one_line_scene) (snd one_line_scene) ''line_1''))) ! 0)
        = []
   \<and> ''line_1'' \<notin> fst ` set (scene_nodes (fst (get_scene
          (fst (snd (remove_node (fst one_line_scene) (snd one_line_scene) ''line_1'')))
          (snd (snd (remove_node (fst one_line_scene) (snd one_line_scene) ''line_1''))))))
   \<and> remove_node (fst one_line_scene) (snd one_line_scene) ''root''
        = (False, fst one_line_scene, snd one_line_scene)"
proof -
  have h2: "map_of (nodes (snd one_line_scene)) ''line_1'' = Some 1"
    by (simp add: one_line_scene_eq)
  have h3: "''line_1'' \<noteq> ''root''" by simp
  have p: "parent (node_objs (fst one_line_scene) ! Suc 0) = Some 0"
    by (simp add: one_line_scene_eq)
  have c: "remove1 (Suc 0) (children (node_objs (fst one_line_scene) ! 0)) = []"
    by (simp add: one_line_scene_eq)
  have d: "AList.delete ''line_1'' (nodes (snd one_line_scene)) = [(''root'', 0)]"
    by (simp add: one_line_scene_eq)
  from remove_node_detaches[OF wf_one_line h2 h3] wf_one_line h2 h3
  show ?thesis by (simp add: split_beta p c d)
qed

text \<open>
  C4 as stated fails in its last part: removing the root of a new scene manager, where
  \<^verbatim>\<open>"root"\<close> is a known id, is not an error. The call returns \<^verbatim>\<open>False\<close> and the state is
  unchanged.
\<close>

theorem remove_root_returns_false_counterexample:
  "remove_node (fst initial_scene) (snd initial_scene) ''root''
     = (False, fst initial_scene, snd initial_scene)
   \<and> map_of (nodes (snd initial_scene)) ''root'' = Some 0"
  by (simp add: eval_scene)

section \<open>Node ids (claim C9)\<close>

text \<open>
  C9. The id of a new node is its kind and the current number of entries of the id
  dictionary, and a removal lowers that number. Adding two lines, removing the first and
  adding a third returns \<^verbatim>\<open>line_2\<close> twice, the second time while the first \<^verbatim>\<open>line_2\<close> is
  still in the scene: the id dictionary is rebound to the new node (object 3), and the older
  node (object 2) stays a child of the root that no id reaches.
\<close>

theorem id_reuse_after_removal:
  "run_ops initial_scene [AddLine [] [], AddLine [] [], RemoveNode ''line_1'', AddLine [] []]
     = ([NodeId ''line_1'', NodeId ''line_2'', Flag True, NodeId ''line_2''],
        \<lparr>buffer_objs = [], dict_objs = [[], [], [], [], [], [], [], []],
         node_objs =
           [(new_scene_node ''root'' ''root'')\<lparr>children := [2, 3]\<rparr>,
            (new_scene_node ''line_1'' ''geometry'')
              \<lparr>geometry := Some \<lparr>geometry_type = ''line'', node_data = 2, material_properties = 3\<rparr>\<rparr>,
            (new_scene_node ''line_2'' ''geometry'')
              \<lparr>parent := Some 0,
               geometry := Some \<lparr>geometry_type = ''line'', node_data = 4, material_properties = 5\<rparr>\<rparr>,
            (new_scene_node ''line_2'' ''geometry'')
              \<lparr>parent := Some 0,
               geometry := Some \<lparr>geometry_type = ''line'', node_data = 6, material_properties = 7\<rparr>\<rparr>],
         shader_objs = []\<rparr>,
        \<lparr>root_node = 0, nodes = [(''root'', 0), (''line_2'', 3)],
         camera_settings = 0, lighting_settings = 1\<rparr>)"
  by (simp add: eval_scene)

section \<open>Snapshots (claim C2)\<close>

text \<open>
  C2. In a well-formed scene whose geometry nodes' dictionaries exist, a snapshot has one
  entry for every id of the id dictionary other than \<^verbatim>\<open>root\<close>, in the order of the id
  dictionary. An entry copies the type, geometry type, transform and visibility of the node
  that the id is bound to, and holds that node's data and material-properties dictionaries
  themselves, not copies of them. Any sequence of \<^verbatim>\<open>remove_node\<close> calls after the snapshot
  leaves what the snapshot shows unchanged, so it still reports a removed node. An
  \<^verbatim>\<open>update_node\<close> call on a geometry node of the snapshot returns \<^verbatim>\<open>True\<close> and changes one
  dictionary object, the one the snapshot holds as that node's data: read after the call,
  the snapshot shows the merged dictionary as the data of that node.
\<close>

theorem snapshot_shares_dictionaries:
  assumes "scene_wf w sm" and "data_refs_ok w" and "get_scene w sm = (sc, w1)"
  shows "map fst (scene_nodes sc) = filter (\<lambda>k. k \<noteq> ''root'') (map fst (nodes sm))
       \<and> (map_of (scene_nodes sc) nid = Some v \<longrightarrow>
            nid \<noteq> ''root''
          \<and> (\<exists>r. map_of (nodes sm) nid = Some r \<and> copies_node (node_objs w ! r) v))
       \<and> scene_contents (fst (remove_nodes (w1, sm) nids)) sc = scene_contents w1 sc
       \<and> map fst (fst (scene_contents (fst (remove_nodes (w1, sm) nids)) sc))
            = filter (\<lambda>k. k \<noteq> ''root'') (map fst (nodes sm))
       \<and> (map_of (scene_nodes sc) nid = Some v \<and> v_geometry_type v \<noteq> None \<longrightarrow>
            (\<exists>old. map_of (fst (scene_contents w1 sc)) nid = Some (show_node w1 v)
               \<and> s_data (show_node w1 v) = Some old
               \<and> (case update_node w1 sm nid d of
                    (res, w2) \<Rightarrow>
                        res = Inr True
                      \<and> w2 = w1\<lparr>dict_objs := (dict_objs w1)[v_data v := dict_update old d]\<rparr>
                      \<and> map_of (fst (scene_contents w2 sc)) nid = Some (show_node w2 v)
                      \<and> s_data (show_node w2 v) = Some (dict_update old d))))"
proof -
  have valid: "list_all (\<lambda>kr. snd kr < length (node_objs w)) (nodes sm)"
    using assms(1) by (simp add: scene_wf_def)
  have sc: "scene_nodes sc = fst (scene_items w (nodes sm))"
    using assms(3) by (auto simp: get_scene_def split_beta Let_def)
  have 1: "map fst (scene_nodes sc) = filter (\<lambda>k. k \<noteq> ''root'') (map fst (nodes sm))"
    unfolding sc by (rule scene_items_shape[OF valid])
  have 2: "map_of (scene_nodes sc) nid = Some v \<longrightarrow>
            nid \<noteq> ''root''
          \<and> (\<exists>r. map_of (nodes sm) nid = Some r \<and> copies_node (node_objs w ! r) v)"
    unfolding sc using scene_items_lookup[OF valid, of nid v] by blast
  have 3: "scene_contents (fst (remove_nodes (w1, sm) nids)) sc = scene_contents w1 sc"
    by (rule scene_contents_cong) (simp add: dict_objs_remove_nodes)
  have 4: "map fst (fst (scene_contents (fst (remove_nodes (w1, sm) nids)) sc))
            = filter (\<lambda>k. k \<noteq> ''root'') (map fst (nodes sm))"
    unfolding 3 using 1 by (simp add: scene_contents_def comp_def)
  have 5: "\<exists>old. map_of (fst (scene_contents w1 sc)) nid = Some (show_node w1 v)
               \<and> s_data (show_node w1 v) = Some old
               \<and> (case update_node w1 sm nid d of
                    (res, w2) \<Rightarrow>
                        res = Inr True
                      \<and> w2 = w1\<lparr>dict_objs := (dict_objs w1)[v_data v := dict_update old d]\<rparr>
                      \<and> map_of (fst (scene_contents w2 sc)) nid = Some (show_node w2 v)
                      \<and> s_data (show_node w2 v) = Some (dict_update old d))"
    if h: "map_of (scene_nodes sc) nid = Some v" "v_geometry_type v \<noteq> None"
  proof -
    let ?old = "dict_objs w1 ! v_data v"
    let ?w2 = "w1\<lparr>dict_objs := (dict_objs w1)[v_data v := dict_update ?old d]\<rparr>"
    note s = snapshot_data_ref[OF assms h]
    have a: "map_of (fst (scene_contents w1 sc)) nid = Some (show_node w1 v)"
      by (simp add: map_of_shown h(1))
    have b: "s_data (show_node w1 v) = Some ?old"
      using s(1) by (simp add: show_node_def deref_def)
    have c: "map_of (fst (scene_contents ?w2 sc)) nid = Some (show_node ?w2 v)"
      by (simp add: map_of_shown h(1))
    have e: "s_data (show_node ?w2 v) = Some (dict_update ?old d)"
      using s(1) by (simp add: show_node_def deref_def)
    have "map_of (fst (scene_contents w1 sc)) nid = Some (show_node w1 v)
               \<and> s_data (show_node w1 v) = Some ?old
               \<and> (case update_node w1 sm nid d of
                    (res, w2) \<Rightarrow>
                        res = Inr True
                      \<and> w2 = w1\<lparr>dict_objs := (dict_objs w1)[v_data v := dict_update ?old d]\<rparr>
                      \<and> map_of (fst (scene_contents w2 sc)) nid = Some (show_node w2 v)
                      \<and> s_data (show_node w2 v) = Some (dict_update ?old d))"
      unfolding s(2)[of d] using a b c e by simp
    then show ?thesis by (rule exI)
  qed
  show ?thesis using 1 2 3 4 5 by blast
qed

text \<open>
  The theorem at the scene that holds one line, whose data is \<^verbatim>\<open>{"count": 4}\<close>: after
  \<^verbatim>\<open>update_node("line_1", {"count": 9})\<close> the snapshot shows \<^verbatim>\<open>{"count": 9}\<close>.
\<close>

theorem snapshot_shares_dictionaries_witness:
  "scene_wf (fst one_line_scene) (snd one_line_scene)
   \<and> data_refs_ok (fst one_line_scene)
   \<and> get_scene (fst one_line_scene) (snd one_line_scene) = (one_line_snapshot, fst one_line_scene)
   \<and> map fst (scene_nodes one_line_snapshot) = [''line_1'']
   \<and> scene_contents (fst (remove_nodes one_line_scene [''line_1''])) one_line_snapshot
        = scene_contents (fst one_line_scene) one_line_snapshot
   \<and> (case update_node (fst one_line_scene) (snd one_line_scene) ''line_1'' [(''count'', PInt 9)] of
        (res, w2) \<Rightarrow>
            res = Inr True
          \<and> map (\<lambda>kv. (fst kv, s_data (snd kv))) (fst (scene_contents (fst one_line_scene) one_line_snapshot))
              = [(''line_1'', Some [(''count'', PInt 4)])]
          \<and> map (\<lambda>kv. (fst kv, s_data (snd kv))) (fst (scene_contents w2 one_line_snapshot))
              = [(''line_1'', Some [(''count'', PInt 9)])])"
proof -
  let ?v = "\<lparr>v_type = ''geometry'', v_geometry_type = Some ''line'', v_data = 2,
           v_material_properties = 3, v_transform = eye4, v_visible = True\<rparr>"
  let ?w1 = "fst one_line_scene"
  let ?U = "update_node ?w1 (snd one_line_scene) ''line_1'' [(''count'', PInt 9)]"
  have m: "map_of (scene_nodes one_line_snapshot) ''line_1'' = Some ?v"
    by (simp add: one_line_snapshot_def)
  have g: "v_geometry_type ?v \<noteq> None" by simp
  have f: "filter (\<lambda>k. k \<noteq> ''root'') (map fst (nodes (snd one_line_scene))) = [''line_1'']"
    by (simp add: one_line_scene_eq)
  have e: "(fst one_line_scene, snd one_line_scene) = one_line_scene" by simp
  note t = snapshot_shares_dictionaries[OF wf_one_line refs_one_line one_line_get_scene,
      of "''line_1''" ?v "[''line_1'']" "[(''count'', PInt 9)]", unfolded f e]
  have 1: "map fst (scene_nodes one_line_snapshot) = [''line_1'']" by (rule t[THEN conjunct1])
  have 3: "scene_contents (fst (remove_nodes one_line_scene [''line_1''])) one_line_snapshot
        = scene_contents ?w1 one_line_snapshot"
    by (rule t[THEN conjunct2, THEN conjunct2, THEN conjunct1])
  have "\<exists>old. map_of (fst (scene_contents ?w1 one_line_snapshot)) ''line_1'' = Some (show_node ?w1 ?v)
               \<and> s_data (show_node ?w1 ?v) = Some old
               \<and> (case ?U of
                    (res, w2) \<Rightarrow>
                        res = Inr True
                      \<and> w2 = ?w1\<lparr>dict_objs := (dict_objs ?w1)[v_data ?v := dict_update old [(''count'', PInt 9)]]\<rparr>
                      \<and> map_of (fst (scene_contents w2 one_line_snapshot)) ''line_1'' = Some (show_node w2 ?v)
                      \<and> s_data (show_node w2 ?v) = Some (dict_update old [(''count'', PInt 9)]))"
    using t[THEN conjunct2, THEN conjunct2, THEN conjunct2, THEN conjunct2] m g by (rule mp[OF _ conjI])
  then obtain old where o1: "s_data (show_node ?w1 ?v) = Some old"
    and o2: "fst ?U = Inr True"
    and o3: "s_data (show_node (snd ?U) ?v) = Some (dict_update old [(''count'', PInt 9)])"
    by (auto simp: split_beta)
  have old: "old = [(''count'', PInt 4)]"
    using o1 by (simp add: show_node_def deref_def one_line_scene_eq)
  have k: "\<And>w. map (\<lambda>kv. (fst kv, s_data (snd kv))) (fst (scene_contents w one_line_snapshot))
              = [(''line_1'', s_data (show_node w ?v))]"
    by (simp add: scene_contents_def one_line_snapshot_def)
  have 5: "case ?U of
        (res, w2) \<Rightarrow>
            res = Inr True
          \<and> map (\<lambda>kv. (fst kv, s_data (snd kv))) (fst (scene_contents ?w1 one_line_snapshot))
              = [(''line_1'', Some [(''count'', PInt 4)])]
          \<and> map (\<lambda>kv. (fst kv, s_data (snd kv))) (fst (scene_contents w2 one_line_snapshot))
              = [(''line_1'', Some [(''count'', PInt 9)])]"
    unfolding k using o1 o2 o3 by (simp add: split_beta old dict_update_def)
  show ?thesis using wf_one_line refs_one_line one_line_get_scene 1 3 5 by (intro conjI)
qed

text \<open>
  C2 as stated fails. After a snapshot of the scene with one line, whose data is
  \<^verbatim>\<open>{"count": 4}\<close>, the call \<^verbatim>\<open>update_node("line_1", {"count": 9})\<close> returns \<^verbatim>\<open>True\<close> and the
  snapshot shows \<^verbatim>\<open>{"count": 9}\<close> as the data of \<^verbatim>\<open>line_1\<close>. And a snapshot has no entry for
  a node that no id is bound to: in the scene where the id \<^verbatim>\<open>line_2\<close> was given twice the
  root has two children, objects 2 and 3, and the snapshot has the one entry \<^verbatim>\<open>line_2\<close>,
  which is object 3.
\<close>

theorem snapshot_sees_update_counterexample:
  "(case get_scene (fst one_line_scene) (snd one_line_scene) of
      (sc, w1) \<Rightarrow>
        (case update_node w1 (snd one_line_scene) ''line_1'' [(''count'', PInt 9)] of
           (res, w2) \<Rightarrow>
               res = Inr True
             \<and> map (\<lambda>kv. (fst kv, s_data (snd kv))) (fst (scene_contents w1 sc))
                 = [(''line_1'', Some [(''count'', PInt 4)])]
             \<and> map (\<lambda>kv. (fst kv, s_data (snd kv))) (fst (scene_contents w2 sc))
                 = [(''line_1'', Some [(''count'', PInt 9)])]
             \<and> scene_contents w2 sc \<noteq> scene_contents w1 sc))
   \<and> children (node_objs (fst reused_id_scene) ! root_node (snd reused_id_scene)) = [2, 3]
   \<and> map fst (scene_nodes (fst (get_scene (fst reused_id_scene) (snd reused_id_scene))))
        = [''line_2'']
   \<and> map_of (nodes (snd reused_id_scene)) ''line_2'' = Some 3"
proof -
  have a: "(case get_scene (fst one_line_scene) (snd one_line_scene) of
      (sc, w1) \<Rightarrow>
        (case update_node w1 (snd one_line_scene) ''line_1'' [(''count'', PInt 9)] of
           (res, w2) \<Rightarrow>
               res = Inr True
             \<and> map (\<lambda>kv. (fst kv, s_data (snd kv))) (fst (scene_contents w1 sc))
                 = [(''line_1'', Some [(''count'', PInt 4)])]
             \<and> map (\<lambda>kv. (fst kv, s_data (snd kv))) (fst (scene_contents w2 sc))
                 = [(''line_1'', Some [(''count'', PInt 9)])]
             \<and> scene_contents w2 sc \<noteq> scene_contents w1 sc))"
    by (simp add: one_line_get_scene)
       (simp add: one_line_scene_eq one_line_snapshot_def update_node_def deref_def
          new_scene_node_def scene_contents_def show_node_def dict_update_def)
  have b: "children (node_objs (fst reused_id_scene) ! root_node (snd reused_id_scene)) = [2, 3]"
    "map fst (scene_nodes (fst (get_scene (fst reused_id_scene) (snd reused_id_scene))))
        = [''line_2'']"
    "map_of (nodes (snd reused_id_scene)) ''line_2'' = Some 3"
    by (simp_all add: reused_id_scene_def eval_scene)
  show ?thesis using a b by (intro conjI)
qed

section \<open>Lemmas on the shader manager, the renderer and the backends\<close>

lemma get_shader_error:
  "fst (get_shader_for_geometry py s g props) = Inl e \<Longrightarrow> e = KeyError ''point''"
  by (auto simp: get_shader_for_geometry_def Let_def split_beta split: option.splits)

lemma prepare_nodes_error:
  "fst (prepare_nodes py s entries acc) = Inl e \<Longrightarrow> e = KeyError ''point''"
proof (induction entries arbitrary: s acc)
  case Nil
  then show ?case by simp
next
  case (Cons a entries)
  obtain nid v where a: "a = (nid, v)" by (cases a)
  obtain res w1 m1 where g: "get_shader_for_geometry py s (v_geometry_type v)
       (dict_at (fst s) (v_material_properties v)) = (res, w1, m1)"
    by (cases "get_shader_for_geometry py s (v_geometry_type v) (dict_at (fst s) (v_material_properties v))") auto
  show ?case
  proof (cases res)
    case (Inl e')
    then have "e' = KeyError ''point''" using get_shader_error[of py s "v_geometry_type v" "dict_at (fst s) (v_material_properties v)" e'] g by simp
    then show ?thesis using Cons.prems Inl by (simp add: a g)
  next
    case (Inr r)
    then show ?thesis using Cons.prems Cons.IH by (simp add: a g split_beta Let_def)
  qed
qed

lemma prepare_scene_error:
  "fst (prepare_scene py s sc) = Inl e \<Longrightarrow> e = KeyError ''point''"
  using prepare_nodes_error[of py "(fst s, shader_mgr (snd s))" "scene_nodes sc" "[]" e]
  by (auto simp: prepare_scene_def split_beta Let_def split: sum.splits)

lemma prepare_scene_renderer:
  "is_initialized (snd (snd (prepare_scene py s sc))) = is_initialized (snd s)"
  "backend (snd (snd (prepare_scene py s sc))) = backend (snd s)"
  by (auto simp: prepare_scene_def split_beta Let_def split: sum.splits)

lemma vk_get_pipeline_init: "vk_is_initialized (vk_get_pipeline b g) = vk_is_initialized b"
  by (simp add: vk_get_pipeline_def split: option.splits)

lemma wg_get_pipeline_init: "wg_is_initialized (wg_get_pipeline b g r) = wg_is_initialized b"
  by (simp add: wg_get_pipeline_def Let_def split: option.splits)

lemma vk_render_nodes_result:
  "vk_is_initialized (snd (vk_render_nodes b ns)) = vk_is_initialized b
   \<and> (fst (vk_render_nodes b ns) = Inr () \<or> fst (vk_render_nodes b ns) = Inl (KeyError ''primitive_type''))"
  by (induction b ns rule: vk_render_nodes.induct)
     (auto simp: draw_def Let_def vk_get_pipeline_init)

lemma wg_render_nodes_result:
  "wg_is_initialized (snd (wg_render_nodes b ns)) = wg_is_initialized b
   \<and> (fst (wg_render_nodes b ns) = Inr () \<or> fst (wg_render_nodes b ns) = Inl (KeyError ''primitive_type''))"
  by (induction b ns rule: wg_render_nodes.induct)
     (auto simp: draw_def Let_def wg_get_pipeline_init)

lemma backend_render_result:
  assumes "backend_is_initialized b"
  shows "backend_is_initialized (snd (backend_render b fr))"
    and "fst (backend_render b fr) = Inr () \<or> fst (backend_render b fr) = Inl (KeyError ''primitive_type'')"
  using assms vk_render_nodes_result[of _ "frame_nodes fr"] wg_render_nodes_result[of _ "frame_nodes fr"]
  by (cases b; simp add: split_beta)+

lemma backend_render_uninitialized:
  assumes "\<not> backend_is_initialized b"
  shows "snd (backend_render b fr) = b"
    and "case fst (backend_render b fr) of Inl e \<Rightarrow> not_initialized_error e | Inr u \<Rightarrow> False"
  using assms by (cases b; simp add: not_initialized_error_def)+

lemma initialize_sets:
  "\<not> is_initialized rd \<Longrightarrow> is_initialized (initialize rd) \<and> backend_is_initialized (backend (initialize rd))"
  by (cases "backend rd") (simp_all add: initialize_def)

lemma get_shader_cases:
  assumes "map_of (default_shaders m) ''point'' \<noteq> None"
  obtains (hit) r where "map_of (shader_cache m) (cache_key py g props) = Some r"
      "get_shader_for_geometry py (w, m) g props = (Inr r, w, m)"
  | (miss) vs fs where "map_of (shader_cache m) (cache_key py g props) = None"
      "get_shader_for_geometry py (w, m) g props =
         (Inr (length (shader_objs w)),
          w\<lparr>shader_objs := shader_objs w @ [new_shader_program vs fs]\<rparr>,
          m\<lparr>shader_cache := AList.update (cache_key py g props) (length (shader_objs w)) (shader_cache m)\<rparr>)"
proof (cases "map_of (shader_cache m) (cache_key py g props)")
  case (Some r)
  then have "get_shader_for_geometry py (w, m) g props = (Inr r, w, m)"
    by (simp add: get_shader_for_geometry_def Let_def)
  with Some show ?thesis by (rule hit)
next
  case None
  from assms obtain src where p: "map_of (default_shaders m) ''point'' = Some src" by auto
  have "\<exists>x. (case (case g of None \<Rightarrow> None | Some g' \<Rightarrow> map_of (default_shaders m) g') of
                      Some shaders \<Rightarrow> Some shaders
                    | None \<Rightarrow> map_of (default_shaders m) ''point'') = Some x"
    using p by (simp split: option.splits)
  then obtain x where "(case (case g of None \<Rightarrow> None | Some g' \<Rightarrow> map_of (default_shaders m) g') of
                      Some shaders \<Rightarrow> Some shaders
                    | None \<Rightarrow> map_of (default_shaders m) ''point'') = Some x" ..
  then have src: "(case (case g of None \<Rightarrow> None | Some g' \<Rightarrow> map_of (default_shaders m) g') of
                      Some shaders \<Rightarrow> Some shaders
                    | None \<Rightarrow> map_of (default_shaders m) ''point'') = Some (fst x, snd x)"
    by simp
  define vsrc where "vsrc = fst x"
  define fsrc where "fsrc = snd x"
  note src = src[folded vsrc_def fsrc_def]
  have "get_shader_for_geometry py (w, m) g props =
         (Inr (length (shader_objs w)),
          w\<lparr>shader_objs := shader_objs w @
               [new_shader_program (fst (customize_shader_with_material py vsrc fsrc props))
                                   (snd (customize_shader_with_material py vsrc fsrc props))]\<rparr>,
          m\<lparr>shader_cache := AList.update (cache_key py g props) (length (shader_objs w)) (shader_cache m)\<rparr>)"
    using None by (simp add: get_shader_for_geometry_def Let_def src alloc_def split_beta)
  with None show ?thesis by (rule miss)
qed

lemma cache_grows_refl: "cache_grows m m"
  by (simp add: cache_grows_def)

lemma cache_growsD:
  assumes "cache_grows m m'"
  shows "default_shaders m' = default_shaders m"
    and "\<And>k r. map_of (shader_cache m) k = Some r \<Longrightarrow> map_of (shader_cache m') k = Some r"
  using assms unfolding cache_grows_def by blast+

lemma cache_grows_trans:
  assumes "cache_grows a b" and "cache_grows b c"
  shows "cache_grows a c"
proof -
  have "default_shaders c = default_shaders a"
    using cache_growsD(1)[OF assms(1)] cache_growsD(1)[OF assms(2)] by (rule trans[rotated])
  moreover have "\<forall>k r. map_of (shader_cache a) k = Some r \<longrightarrow> map_of (shader_cache c) k = Some r"
    using cache_growsD(2)[OF assms(1)] cache_growsD(2)[OF assms(2)] by blast
  ultimately show ?thesis unfolding cache_grows_def by (rule conjI)
qed

lemma get_shader_ok:
  assumes "map_of (default_shaders m) ''point'' \<noteq> None"
  shows "\<exists>r w' m'. get_shader_for_geometry py (w, m) g props = (Inr r, w', m')
           \<and> dict_objs w' = dict_objs w \<and> cache_grows m m'
           \<and> map_of (shader_cache m') (cache_key py g props) = Some r"
proof (rule get_shader_cases[OF assms, of py g props w])
  fix r
  assume "map_of (shader_cache m) (cache_key py g props) = Some r"
    and "get_shader_for_geometry py (w, m) g props = (Inr r, w, m)"
  then show ?thesis by (simp add: cache_grows_refl)
next
  fix vs fs
  assume n: "map_of (shader_cache m) (cache_key py g props) = None"
    and e: "get_shader_for_geometry py (w, m) g props =
         (Inr (length (shader_objs w)),
          w\<lparr>shader_objs := shader_objs w @ [new_shader_program vs fs]\<rparr>,
          m\<lparr>shader_cache := AList.update (cache_key py g props) (length (shader_objs w)) (shader_cache m)\<rparr>)"
  have "cache_grows m (m\<lparr>shader_cache := AList.update (cache_key py g props) (length (shader_objs w)) (shader_cache m)\<rparr>)"
    using n by (auto simp: cache_grows_def update_conv')
  then show ?thesis unfolding e by (simp add: update_conv')
qed

lemma dict_objs_process_node_data: "dict_objs (snd (process_node_data w d)) = dict_objs w"
proof (induction d arbitrary: w)
  case Nil
  then show ?case by simp
next
  case (Cons a d)
  obtain k v where a: "a = (k, v)" by (cases a)
  have "dict_objs (case v of PBuf r \<Rightarrow> transfer_to_gpu w r | _ \<Rightarrow> w) = dict_objs w"
    by (cases v) (simp_all add: transfer_to_gpu_def)
  then show ?case using Cons.IH[of "case v of PBuf r \<Rightarrow> transfer_to_gpu w r | _ \<Rightarrow> w"]
    by (simp add: a split_beta Let_def)
qed

lemma dict_at_cong: "dict_objs w' = dict_objs w \<Longrightarrow> dict_at w' r = dict_at w r"
  by (simp add: dict_at_def)

lemma update_fresh: "k \<notin> fst ` set al \<Longrightarrow> AList.update k v al = al @ [(k, v)]"
  by (induction al) auto

lemma fst_process_node_data: "fst (process_node_data w d) = d"
proof (induction d arbitrary: w)
  case Nil
  then show ?case by simp
next
  case (Cons a d)
  obtain k v where a: "a = (k, v)" by (cases a)
  show ?case using Cons.IH[of "case v of PBuf r \<Rightarrow> transfer_to_gpu w r | _ \<Rightarrow> w"]
    by (simp add: a split_beta Let_def)
qed

lemma dict_at_process_node_data: "dict_at (snd (process_node_data w d)) r = dict_at w r"
  by (simp add: dict_at_def dict_objs_process_node_data)

lemma frame_entry_of_mono:
  assumes "frame_entry_of py w m kv kn" and "cache_grows m m'" and "dict_objs w' = dict_objs w"
  shows "frame_entry_of py w' m' kv kn"
proof -
  let ?key = "cache_key py (v_geometry_type (snd kv)) (dict_at w (v_material_properties (snd kv)))"
  have "map_of (shader_cache m) ?key = Some (f_shader (snd kn))"
    using assms(1) by (simp add: frame_entry_of_def)
  then have "map_of (shader_cache m') ?key = Some (f_shader (snd kn))"
    by (rule cache_growsD(2)[OF assms(2)])
  then show ?thesis using assms(1) by (simp add: frame_entry_of_def dict_at_cong[OF assms(3)])
qed

lemma list_all2_mono_entries:
  assumes "list_all2 (frame_entry_of py w m) xs ys" and "cache_grows m m'" and "dict_objs w' = dict_objs w"
  shows "list_all2 (frame_entry_of py w' m') xs ys"
  using assms(1)
  by (rule list_all2_mono) (rule frame_entry_of_mono[OF _ assms(2,3)])

lemma prepare_nodes_entries:
  assumes "map_of (default_shaders m) ''point'' \<noteq> None"
    and "distinct (map fst entries)"
    and "fst ` set entries \<inter> fst ` set acc = {}"
    and "list_all2 (frame_entry_of py w m) before acc"
  shows "\<exists>out w' m'. prepare_nodes py (w, m) entries acc = (Inr out, w', m')
           \<and> dict_objs w' = dict_objs w \<and> cache_grows m m'
           \<and> list_all2 (frame_entry_of py w' m') (before @ entries) out"
  using assms
proof (induction entries arbitrary: w m acc before)
  case Nil
  then show ?case by (simp add: cache_grows_refl)
next
  case (Cons a entries)
  obtain nid v where a: "a = (nid, v)" by (cases a)
  let ?props = "dict_at w (v_material_properties v)"
  from get_shader_ok[OF Cons.prems(1), of py w "v_geometry_type v" ?props]
  obtain r w1 m1 where g: "get_shader_for_geometry py (w, m) (v_geometry_type v) ?props = (Inr r, w1, m1)"
    and d1: "dict_objs w1 = dict_objs w" and c1: "cache_grows m m1"
    and b1: "map_of (shader_cache m1) (cache_key py (v_geometry_type v) ?props) = Some r"
    by blast
  let ?pd = "process_node_data w1 (dict_at w1 (v_data v))"
  let ?w2 = "snd ?pd"
  have d2: "dict_objs ?w2 = dict_objs w" using d1 by (simp add: dict_objs_process_node_data)
  let ?node = "\<lparr>f_id = nid, f_type = v_type v, f_geometry_type = v_geometry_type v,
                    f_data = fst ?pd, f_material_properties = v_material_properties v,
                    f_transform = v_transform v, f_visible = v_visible v,
                    f_shader = r\<rparr>"
  have fresh: "nid \<notin> fst ` set acc" using Cons.prems(3) by (auto simp: a)
  let ?acc = "acc @ [(nid, ?node)]"
  have step: "prepare_nodes py (w, m) (a # entries) acc = prepare_nodes py (?w2, m1) entries ?acc"
    by (simp add: a g split_beta Let_def update_fresh[OF fresh])
  have p1: "map_of (default_shaders m1) ''point'' \<noteq> None"
    using Cons.prems(1) by (simp add: cache_growsD(1)[OF c1])
  have p2: "distinct (map fst entries)" using Cons.prems(2) by simp
  have p3: "fst ` set entries \<inter> fst ` set ?acc = {}"
    using Cons.prems(2,3) by (auto simp: a)
  have new: "frame_entry_of py ?w2 m1 (nid, v) (nid, ?node)"
    using b1 by (simp add: frame_entry_of_def fst_process_node_data dict_at_process_node_data
        dict_at_cong[OF d1])
  have old: "list_all2 (frame_entry_of py ?w2 m1) before acc"
    by (rule list_all2_mono_entries[OF Cons.prems(4) c1 d2])
  have p4: "list_all2 (frame_entry_of py ?w2 m1) (before @ [(nid, v)]) ?acc"
    using old new by (simp add: list_all2_appendI)
  from Cons.IH[OF p1 p2 p3 p4]
  obtain out w' m' where o: "prepare_nodes py (?w2, m1) entries ?acc = (Inr out, w', m')"
    and o1: "dict_objs w' = dict_objs ?w2" and o2: "cache_grows m1 m'"
    and o3: "list_all2 (frame_entry_of py w' m') ((before @ [(nid, v)]) @ entries) out"
    by blast
  show ?case
    unfolding step o
    using o1 d2 cache_grows_trans[OF c1 o2] o3 by (simp add: a)
qed

lemma prepare_scene_entries:
  assumes "distinct (map fst (scene_nodes sc))"
    and "map_of (default_shaders (shader_mgr rd)) ''point'' \<noteq> None"
  shows "\<exists>out w' m'. prepare_scene py (w, rd) sc =
           (Inr \<lparr>frame_nodes = out, frame_camera = camera sc,
                 frame_lighting = lighting sc, frame_viewport_size = viewport_size rd\<rparr>,
            w', rd\<lparr>shader_mgr := m'\<rparr>)
         \<and> dict_objs w' = dict_objs w \<and> cache_grows (shader_mgr rd) m'
         \<and> list_all2 (frame_entry_of py w' m') (scene_nodes sc) out"
proof -
  from prepare_nodes_entries[OF assms(2) assms(1), of "[]" py w "[]"]
  obtain out w' m' where o: "prepare_nodes py (w, shader_mgr rd) (scene_nodes sc) [] = (Inr out, w', m')"
    and o1: "dict_objs w' = dict_objs w" and o2: "cache_grows (shader_mgr rd) m'"
    and o3: "list_all2 (frame_entry_of py w' m') (scene_nodes sc) out"
    by auto
  have "prepare_scene py (w, rd) sc =
          (Inr \<lparr>frame_nodes = out, frame_camera = camera sc,
                 frame_lighting = lighting sc, frame_viewport_size = viewport_size rd\<rparr>,
           w', rd\<lparr>shader_mgr := m'\<rparr>)"
    by (simp add: prepare_scene_def o)
  then show ?thesis using o1 o2 o3 by blast
qed

lemma entries_visible:
  "list_all2 (frame_entry_of py w m) xs ys \<Longrightarrow>
     list_ex (\<lambda>kn. f_visible (snd kn)) ys = list_ex (\<lambda>kv. v_visible (snd kv)) xs"
  by (induction xs ys rule: list_all2_induct) (simp_all add: frame_entry_of_def)

lemma vk_render_nodes_fst:
  "fst (vk_render_nodes b ns)
     = (if list_ex (\<lambda>kn. f_visible (snd kn)) ns then Inl (KeyError ''primitive_type'') else Inr ())"
  by (induction b ns rule: vk_render_nodes.induct) (auto simp: draw_def Let_def)

lemma wg_render_nodes_fst:
  "fst (wg_render_nodes b ns)
     = (if list_ex (\<lambda>kn. f_visible (snd kn)) ns then Inl (KeyError ''primitive_type'') else Inr ())"
  by (induction b ns rule: wg_render_nodes.induct) (auto simp: draw_def Let_def)

lemma backend_render_fst:
  assumes "backend_is_initialized b"
  shows "fst (backend_render b fr)
     = (if list_ex (\<lambda>kn. f_visible (snd kn)) (frame_nodes fr)
        then Inl (KeyError ''primitive_type'') else Inr ())"
  using assms vk_render_nodes_fst[of _ "frame_nodes fr"] wg_render_nodes_fst[of _ "frame_nodes fr"]
  by (cases b) (simp_all add: split_beta)

lemma render_uninitialized:
  assumes "\<not> is_initialized rd"
  shows "render py (w, rd) sc =
           (case prepare_scene py (w, initialize rd) sc of
              (Inl e, s2) \<Rightarrow> (Inl e, s2)
            | (Inr fr, w2, rd2) \<Rightarrow>
                (fst (backend_render (backend (initialize rd)) fr), w2,
                 rd2\<lparr>backend := snd (backend_render (backend (initialize rd)) fr)\<rparr>))"
proof -
  have b: "backend (snd (snd (prepare_scene py (w, initialize rd) sc))) = backend (initialize rd)"
    using prepare_scene_renderer(2)[of py "(w, initialize rd)" sc] by simp
  show ?thesis
    using assms b
    by (cases "prepare_scene py (w, initialize rd) sc")
       (auto simp: render_def split_beta Let_def split: sum.splits)
qed

lemma render_outcome:
  assumes "\<not> is_initialized rd"
    and "distinct (map fst (scene_nodes sc))"
    and "map_of (default_shaders (shader_mgr rd)) ''point'' \<noteq> None"
  shows "fst (render py (w, rd) sc)
           = (if list_ex (\<lambda>kv. v_visible (snd kv)) (scene_nodes sc)
              then Inl (KeyError ''primitive_type'') else Inr ())"
proof -
  have m: "shader_mgr (initialize rd) = shader_mgr rd" by (simp add: initialize_def)
  have p: "map_of (default_shaders (shader_mgr (initialize rd))) ''point'' \<noteq> None"
    unfolding m by (rule assms(3))
  from prepare_scene_entries[OF assms(2) p, of py w]
  obtain out w' m' where e: "prepare_scene py (w, initialize rd) sc =
           (Inr \<lparr>frame_nodes = out, frame_camera = camera sc,
                 frame_lighting = lighting sc, frame_viewport_size = viewport_size (initialize rd)\<rparr>,
            w', (initialize rd)\<lparr>shader_mgr := m'\<rparr>)"
    and l: "list_all2 (frame_entry_of py w' m') (scene_nodes sc) out"
    by blast
  have i: "backend_is_initialized (backend (initialize rd))"
    using initialize_sets[OF assms(1)] by simp
  show ?thesis
    unfolding render_uninitialized[OF assms(1)] e
    by (simp add: backend_render_fst[OF i] entries_visible[OF l])
qed

lemma vk_render_skips:
  "vk_render_nodes b ns = vk_render_nodes b (filter (\<lambda>kn. f_visible (snd kn)) ns)"
  by (induction b ns rule: vk_render_nodes.induct) (auto simp: Let_def split: sum.splits)

lemma wg_render_skips:
  "wg_render_nodes b ns = wg_render_nodes b (filter (\<lambda>kn. f_visible (snd kn)) ns)"
  by (induction b ns rule: wg_render_nodes.induct) (auto simp: Let_def split: sum.splits)



























section \<open>Rendering before initialisation (claim C6)\<close>

text \<open>
  C6. \<^verbatim>\<open>Renderer.render\<close> never fails because the backend is not initialised. Called on a
  renderer that is not initialised, it first initialises the backend and marks the renderer
  initialised, and then does what it does on an initialised renderer: it prepares the scene
  and passes the frame to \<^verbatim>\<open>render\<close> of the backend, whose result is the result of the
  call. The renderer and the backend are initialised afterwards, and whatever error the call
  ends with is not the backend's not-initialised error. When the scene can be prepared, the
  render loop of the backend runs: it ends without an error if no node is visible and with
  the \<^verbatim>\<open>KeyError\<close> of \<^verbatim>\<open>_draw\<close> at the first visible node. \<^verbatim>\<open>Renderer.display\<close> checks nothing
  and returns. The \<^verbatim>\<open>render\<close> method of the Vulkan or the WebGPU backend, called on a backend
  that is not initialised, raises \<^verbatim>\<open>RuntimeError\<close> with the not-initialised message and
  changes nothing.
\<close>

theorem render_initializes_first:
  assumes "\<not> is_initialized rd"
  shows "is_initialized (initialize rd) \<and> backend_is_initialized (backend (initialize rd))
       \<and> render py (w, rd) sc =
           (case prepare_scene py (w, initialize rd) sc of
              (Inl e, s2) \<Rightarrow> (Inl e, s2)
            | (Inr fr, w2, rd2) \<Rightarrow>
                (fst (backend_render (backend (initialize rd)) fr), w2,
                 rd2\<lparr>backend := snd (backend_render (backend (initialize rd)) fr)\<rparr>))
       \<and> (case render py (w, rd) sc of
            (res, w', rd') \<Rightarrow>
               is_initialized rd' \<and> backend_is_initialized (backend rd')
             \<and> (case res of Inl e \<Rightarrow> \<not> not_initialized_error e | Inr u \<Rightarrow> True))
       \<and> (distinct (map fst (scene_nodes sc))
            \<and> map_of (default_shaders (shader_mgr rd)) ''point'' \<noteq> None \<longrightarrow>
          fst (render py (w, rd) sc)
            = (if list_ex (\<lambda>kv. v_visible (snd kv)) (scene_nodes sc)
               then Inl (KeyError ''primitive_type'') else Inr ()))
       \<and> display rd = (Inr (), rd)
       \<and> (\<not> backend_is_initialized b \<longrightarrow>
            snd (backend_render b fr) = b
          \<and> (case fst (backend_render b fr) of Inl e \<Rightarrow> not_initialized_error e | Inr u \<Rightarrow> False))"
proof -
  let ?rd1 = "initialize rd"
  let ?p = "prepare_scene py (w, ?rd1) sc"
  have i1: "is_initialized ?rd1" "backend_is_initialized (backend ?rd1)"
    using initialize_sets[OF assms] by simp_all
  have i2: "is_initialized (snd (snd ?p))" "backend (snd (snd ?p)) = backend ?rd1"
    using prepare_scene_renderer[of py "(w, ?rd1)" sc] i1 by simp_all
  note r = render_uninitialized[OF assms, of py w sc]
  have 1: "case render py (w, rd) sc of
            (res, w', rd') \<Rightarrow>
               is_initialized rd' \<and> backend_is_initialized (backend rd')
             \<and> (case res of Inl e \<Rightarrow> \<not> not_initialized_error e | Inr u \<Rightarrow> True)"
  proof (cases "fst ?p")
    case (Inl e)
    then have "e = KeyError ''point''" by (rule prepare_scene_error)
    then show ?thesis using Inl i1 i2 unfolding r
      by (cases ?p) (auto simp: not_initialized_error_def)
  next
    case (Inr fr')
    have a: "backend_is_initialized (snd (backend_render (backend ?rd1) fr'))"
      and b: "fst (backend_render (backend ?rd1) fr') = Inr ()
            \<or> fst (backend_render (backend ?rd1) fr') = Inl (KeyError ''primitive_type'')"
      using backend_render_result[OF i1(2), of fr'] by simp_all
    show ?thesis using Inr i1 i2 a b unfolding r
      by (cases ?p) (auto simp: split_beta Let_def not_initialized_error_def)
  qed
  have 2: "display rd = (Inr (), rd)" by (simp add: display_def backend_display_def)
  have 3: "\<not> backend_is_initialized b \<longrightarrow>
            snd (backend_render b fr) = b
          \<and> (case fst (backend_render b fr) of Inl e \<Rightarrow> not_initialized_error e | Inr u \<Rightarrow> False)"
    using backend_render_uninitialized[of b fr] by blast
  have 4: "distinct (map fst (scene_nodes sc))
            \<and> map_of (default_shaders (shader_mgr rd)) ''point'' \<noteq> None \<longrightarrow>
          fst (render py (w, rd) sc)
            = (if list_ex (\<lambda>kv. v_visible (snd kv)) (scene_nodes sc)
               then Inl (KeyError ''primitive_type'') else Inr ())"
    using render_outcome[OF assms, of sc py w] by blast
  show ?thesis using i1 r 1 2 3 4 by (intro conjI)
qed

text \<open>
  The theorem at a new renderer and the snapshot of the scene with one line, which is
  visible. The call initialises the renderer and its backend, prepares the scene and runs
  the render loop, which ends with the \<^verbatim>\<open>KeyError\<close> of \<^verbatim>\<open>_draw\<close>.
\<close>

theorem render_initializes_first_witness:
  "\<forall>py. \<not> is_initialized (new_renderer ''auto'' True)
     \<and> distinct (map fst (scene_nodes one_line_snapshot))
     \<and> map_of (default_shaders (shader_mgr (new_renderer ''auto'' True))) ''point'' \<noteq> None
     \<and> list_ex (\<lambda>kv. v_visible (snd kv)) (scene_nodes one_line_snapshot)
     \<and> (case render py (fst one_line_scene, new_renderer ''auto'' True) one_line_snapshot of
          (res, w', rd') \<Rightarrow>
             is_initialized rd' \<and> backend_is_initialized (backend rd')
           \<and> res = Inl (KeyError ''primitive_type''))
     \<and> render py (fst one_line_scene, new_renderer ''auto'' True) one_line_snapshot
         = (case prepare_scene py (fst one_line_scene, initialize (new_renderer ''auto'' True))
                  one_line_snapshot of
              (Inl e, s2) \<Rightarrow> (Inl e, s2)
            | (Inr fr, w2, rd2) \<Rightarrow>
                (fst (backend_render (backend (initialize (new_renderer ''auto'' True))) fr), w2,
                 rd2\<lparr>backend :=
                       snd (backend_render (backend (initialize (new_renderer ''auto'' True))) fr)\<rparr>))
     \<and> display (new_renderer ''auto'' True) = (Inr (), new_renderer ''auto'' True)
     \<and> \<not> backend_is_initialized (Vulkan new_vulkan_backend)
     \<and> backend_render (Vulkan new_vulkan_backend)
          \<lparr>frame_nodes = [], frame_camera = 0, frame_lighting = 1, frame_viewport_size = (800, 600)\<rparr>
         = (Inl (RuntimeError ''Vulkan backend not initialized''), Vulkan new_vulkan_backend)"
proof
  fix py
  let ?rd = "new_renderer ''auto'' True"
  let ?fr = "\<lparr>frame_nodes = [], frame_camera = 0, frame_lighting = 1, frame_viewport_size = (800, 600)\<rparr>"
  let ?R = "render py (fst one_line_scene, ?rd) one_line_snapshot"
  have h: "\<not> is_initialized ?rd" by (simp add: new_renderer_def)
  have d: "distinct (map fst (scene_nodes one_line_snapshot))" by (simp add: one_line_snapshot_def)
  have p: "map_of (default_shaders (shader_mgr ?rd)) ''point'' \<noteq> None"
    by (simp add: new_renderer_def new_shader_manager_def load_default_shaders_def)
  have v: "list_ex (\<lambda>kv. v_visible (snd kv)) (scene_nodes one_line_snapshot)"
    by (simp add: one_line_snapshot_def)
  have b: "\<not> backend_is_initialized (Vulkan new_vulkan_backend)" by (simp add: new_vulkan_backend_def)
  note t = render_initializes_first[OF h, of py "fst one_line_scene" one_line_snapshot
      "Vulkan new_vulkan_backend" ?fr]
  have "distinct (map fst (scene_nodes one_line_snapshot))
            \<and> map_of (default_shaders (shader_mgr ?rd)) ''point'' \<noteq> None \<longrightarrow>
          fst ?R = (if list_ex (\<lambda>kv. v_visible (snd kv)) (scene_nodes one_line_snapshot)
               then Inl (KeyError ''primitive_type'') else Inr ())"
    by (rule t[THEN conjunct2, THEN conjunct2, THEN conjunct2, THEN conjunct2, THEN conjunct1])
  then have f: "fst ?R = Inl (KeyError ''primitive_type'')"
    using d p v by simp
  have c: "case ?R of (res, w', rd') \<Rightarrow>
               is_initialized rd' \<and> backend_is_initialized (backend rd')
             \<and> (case res of Inl e \<Rightarrow> \<not> not_initialized_error e | Inr u \<Rightarrow> True)"
    by (rule t[THEN conjunct2, THEN conjunct2, THEN conjunct2, THEN conjunct1])
  have cc: "case ?R of (res, w', rd') \<Rightarrow>
               is_initialized rd' \<and> backend_is_initialized (backend rd')
             \<and> res = Inl (KeyError ''primitive_type'')"
    using c f by (simp add: split_beta)
  have e: "?R = (case prepare_scene py (fst one_line_scene, initialize ?rd) one_line_snapshot of
              (Inl e, s2) \<Rightarrow> (Inl e, s2)
            | (Inr fr, w2, rd2) \<Rightarrow>
                (fst (backend_render (backend (initialize ?rd)) fr), w2,
                 rd2\<lparr>backend := snd (backend_render (backend (initialize ?rd)) fr)\<rparr>))"
    by (rule t[THEN conjunct2, THEN conjunct2, THEN conjunct1])
  have r: "backend_render (Vulkan new_vulkan_backend) ?fr
         = (Inl (RuntimeError ''Vulkan backend not initialized''), Vulkan new_vulkan_backend)"
    by (simp add: new_vulkan_backend_def)
  have x: "display ?rd = (Inr (), ?rd)"
    by (rule t[THEN conjunct2, THEN conjunct2, THEN conjunct2, THEN conjunct2, THEN conjunct2,
          THEN conjunct1])
  show "\<not> is_initialized ?rd
     \<and> distinct (map fst (scene_nodes one_line_snapshot))
     \<and> map_of (default_shaders (shader_mgr ?rd)) ''point'' \<noteq> None
     \<and> list_ex (\<lambda>kv. v_visible (snd kv)) (scene_nodes one_line_snapshot)
     \<and> (case ?R of (res, w', rd') \<Rightarrow>
             is_initialized rd' \<and> backend_is_initialized (backend rd')
           \<and> res = Inl (KeyError ''primitive_type''))
     \<and> ?R = (case prepare_scene py (fst one_line_scene, initialize ?rd) one_line_snapshot of
              (Inl e, s2) \<Rightarrow> (Inl e, s2)
            | (Inr fr, w2, rd2) \<Rightarrow>
                (fst (backend_render (backend (initialize ?rd)) fr), w2,
                 rd2\<lparr>backend := snd (backend_render (backend (initialize ?rd)) fr)\<rparr>))
     \<and> display ?rd = (Inr (), ?rd)
     \<and> \<not> backend_is_initialized (Vulkan new_vulkan_backend)
     \<and> backend_render (Vulkan new_vulkan_backend) ?fr
         = (Inl (RuntimeError ''Vulkan backend not initialized''), Vulkan new_vulkan_backend)"
    using h d p v cc e x b r by (intro conjI)
qed

text \<open>
  C6 as stated fails: rendering the empty scene with a new renderer, whose backend is not
  initialised, returns without an error and leaves the renderer and the backend
  initialised; \<^verbatim>\<open>display\<close> on the new renderer returns without an error too.
\<close>

theorem render_auto_initializes_counterexample:
  "\<forall>py. \<not> is_initialized (new_renderer ''auto'' True)
     \<and> \<not> backend_is_initialized (backend (new_renderer ''auto'' True))
     \<and> render py (empty_world, new_renderer ''auto'' True) empty_scene
         = (Inr (), empty_world,
            (new_renderer ''auto'' True)
              \<lparr>backend := Vulkan \<lparr>vk_is_initialized = True, vk_pipeline_cache = []\<rparr>,
               is_initialized := True\<rparr>)
     \<and> display (new_renderer ''auto'' True) = (Inr (), new_renderer ''auto'' True)"
  by (simp add: render_def initialize_def new_renderer_def supports_vulkan_def new_vulkan_backend_def
      prepare_scene_def empty_scene_def display_def backend_display_def Let_def)

section \<open>Invisible nodes (claim C5)\<close>

text \<open>
  C5. For every snapshot (its node ids are distinct, and the shader manager has the \<^verbatim>\<open>point\<close>
  sources), render preparation returns a frame whose node collection has, in the order of
  the snapshot, one entry for every node of the snapshot, visible or not. The entry of a node
  has the node's id, type, geometry type, transform and visible flag, the items of the node's
  data dictionary, the node's material-properties dictionary, and as its shader the program
  that the shader manager has cached for the node's geometry type and material properties.
  Preparation changes no dictionary. The nodes whose flag is false are skipped later: the
  render loop of the Vulkan and of the WebGPU backend does on a list of entries what it does
  on the visible entries alone.
\<close>

theorem prepare_scene_keeps_every_node:
  assumes "distinct (map fst (scene_nodes sc))"
    and "map_of (default_shaders (shader_mgr rd)) ''point'' \<noteq> None"
  shows "(case prepare_scene py (w, rd) sc of
            (res, w', rd') \<Rightarrow>
              (case res of
                 Inl e \<Rightarrow> False
               | Inr fr \<Rightarrow>
                   list_all2 (frame_entry_of py w' (shader_mgr rd')) (scene_nodes sc) (frame_nodes fr)
                 \<and> dict_objs w' = dict_objs w))
       \<and> vk_render_nodes vb ns = vk_render_nodes vb (filter (\<lambda>kn. f_visible (snd kn)) ns)
       \<and> wg_render_nodes wb ns = wg_render_nodes wb (filter (\<lambda>kn. f_visible (snd kn)) ns)"
proof -
  from prepare_scene_entries[OF assms, of py w]
  obtain out w' m' where "prepare_scene py (w, rd) sc =
           (Inr \<lparr>frame_nodes = out, frame_camera = camera sc,
                 frame_lighting = lighting sc, frame_viewport_size = viewport_size rd\<rparr>,
            w', rd\<lparr>shader_mgr := m'\<rparr>)"
    and "dict_objs w' = dict_objs w"
    and "list_all2 (frame_entry_of py w' m') (scene_nodes sc) out"
    by blast
  then show ?thesis using vk_render_skips[of vb ns] wg_render_skips[of wb ns] by simp
qed

text \<open>
  The theorem at a new renderer and the snapshot of the scene with one line: the frame has
  the one entry \<^verbatim>\<open>line_1\<close>, with the line's data and with shader program 0.
\<close>

theorem prepare_scene_keeps_every_node_witness:
  "\<forall>py. distinct (map fst (scene_nodes one_line_snapshot))
     \<and> map_of (default_shaders (shader_mgr (new_renderer ''auto'' True))) ''point'' \<noteq> None
     \<and> (case prepare_scene py (fst one_line_scene, new_renderer ''auto'' True) one_line_snapshot of
          (res, w', rd') \<Rightarrow>
            (case res of
               Inl e \<Rightarrow> False
             | Inr fr \<Rightarrow>
                 list_all2 (frame_entry_of py w' (shader_mgr rd'))
                   [(''line_1'',
                     \<lparr>v_type = ''geometry'', v_geometry_type = Some ''line'', v_data = 2,
                      v_material_properties = 3, v_transform = eye4, v_visible = True\<rparr>)]
                   (frame_nodes fr)
               \<and> dict_objs w' = [[], [], [(''count'', PInt 4)], [(''color'', PStr ''green'')]]
               \<and> map (\<lambda>kn. (fst kn, f_id (snd kn), f_type (snd kn), f_geometry_type (snd kn),
                              f_data (snd kn), f_material_properties (snd kn), f_visible (snd kn),
                              f_shader (snd kn))) (frame_nodes fr)
                   = [(''line_1'', ''line_1'', ''geometry'', Some ''line'', [(''count'', PInt 4)],
                       3, True, 0)]))"
proof
  fix py
  let ?rd = "new_renderer ''auto'' True"
  let ?P = "prepare_scene py (fst one_line_scene, ?rd) one_line_snapshot"
  have h1: "distinct (map fst (scene_nodes one_line_snapshot))"
    by (simp add: one_line_snapshot_def)
  have h2: "map_of (default_shaders (shader_mgr ?rd)) ''point'' \<noteq> None"
    by (simp add: new_renderer_def new_shader_manager_def load_default_shaders_def)
  have k: "scene_nodes one_line_snapshot = [(''line_1'',
                     \<lparr>v_type = ''geometry'', v_geometry_type = Some ''line'', v_data = 2,
                      v_material_properties = 3, v_transform = eye4, v_visible = True\<rparr>)]"
    by (simp add: one_line_snapshot_def)
  have dw: "dict_objs (fst one_line_scene) = [[], [], [(''count'', PInt 4)], [(''color'', PStr ''green'')]]"
    by (simp add: one_line_scene_eq)
  from prepare_scene_keeps_every_node[OF h1 h2, of py "fst one_line_scene"]
  have a: "case ?P of
          (res, w', rd') \<Rightarrow>
            (case res of
               Inl e \<Rightarrow> False
             | Inr fr \<Rightarrow>
                 list_all2 (frame_entry_of py w' (shader_mgr rd'))
                   [(''line_1'',
                     \<lparr>v_type = ''geometry'', v_geometry_type = Some ''line'', v_data = 2,
                      v_material_properties = 3, v_transform = eye4, v_visible = True\<rparr>)]
                   (frame_nodes fr)
               \<and> dict_objs w' = [[], [], [(''count'', PInt 4)], [(''color'', PStr ''green'')]])"
    unfolding k dw by (rule conjunct1)
  have c: "case ?P of
          (res, w', rd') \<Rightarrow>
            (case res of
               Inl e \<Rightarrow> False
             | Inr fr \<Rightarrow>
                 map (\<lambda>kn. (fst kn, f_id (snd kn), f_type (snd kn), f_geometry_type (snd kn),
                              f_data (snd kn), f_material_properties (snd kn), f_visible (snd kn),
                              f_shader (snd kn))) (frame_nodes fr)
                   = [(''line_1'', ''line_1'', ''geometry'', Some ''line'', [(''count'', PInt 4)],
                       3, True, 0)])"
    by (simp add: one_line_scene_eq one_line_snapshot_def new_renderer_def
      prepare_scene_def get_shader_for_geometry_def
      new_shader_manager_def load_default_shaders_def dict_at_def deref_def alloc_def
      split_beta Let_def)
  show "distinct (map fst (scene_nodes one_line_snapshot))
     \<and> map_of (default_shaders (shader_mgr ?rd)) ''point'' \<noteq> None
     \<and> (case ?P of
          (res, w', rd') \<Rightarrow>
            (case res of
               Inl e \<Rightarrow> False
             | Inr fr \<Rightarrow>
                 list_all2 (frame_entry_of py w' (shader_mgr rd'))
                   [(''line_1'',
                     \<lparr>v_type = ''geometry'', v_geometry_type = Some ''line'', v_data = 2,
                      v_material_properties = 3, v_transform = eye4, v_visible = True\<rparr>)]
                   (frame_nodes fr)
               \<and> dict_objs w' = [[], [], [(''count'', PInt 4)], [(''color'', PStr ''green'')]]
               \<and> map (\<lambda>kn. (fst kn, f_id (snd kn), f_type (snd kn), f_geometry_type (snd kn),
                              f_data (snd kn), f_material_properties (snd kn), f_visible (snd kn),
                              f_shader (snd kn))) (frame_nodes fr)
                   = [(''line_1'', ''line_1'', ''geometry'', Some ''line'', [(''count'', PInt 4)],
                       3, True, 0)]))"
    using h1 h2 a c by (auto simp: split_beta split: sum.splits)
qed

text \<open>
  C5 as stated fails: for the snapshot whose only node has \<^verbatim>\<open>visible = False\<close> the frame
  has an entry for that node, with the flag false and with shader program 0.
\<close>

theorem invisible_node_in_frame_counterexample:
  "\<forall>py. (case prepare_scene py (fst one_line_scene, new_renderer ''auto'' True) hidden_line_snapshot of
          (res, s') \<Rightarrow>
            (case res of
               Inl e \<Rightarrow> False
             | Inr fr \<Rightarrow>
                 map (\<lambda>kn. (fst kn, f_visible (snd kn), f_shader (snd kn))) (frame_nodes fr)
                   = [(''line_1'', False, 0)]))"
  by (simp add: one_line_scene_eq hidden_line_snapshot_def new_renderer_def
      prepare_scene_def get_shader_for_geometry_def
      new_shader_manager_def load_default_shaders_def dict_at_def deref_def alloc_def
      split_beta Let_def)

section \<open>The shader cache (claim C8)\<close>




end
